(* ===== verification/Prelude.thy ===== *)
theory Prelude
  imports Complex_Main "HOL-Library.Word" "HOL-Library.Multiset"
begin

text \<open>
  Shared vocabulary of the AlcaBeamMonitor development: the names of the model's basic
  types, the theorem collections the component theories fill, and generic lemmas on
  folds, maps and running minima/maxima that several components use (the per-vertex
  overwrite loop of the consistency engine, the min/max scan of the range normaliser,
  the sorted list of processed luminosity sections).
\<close>

section \<open>Types of the model\<close>

text \<open>
  Luminosity-section numbers are \<open>edm::LuminosityBlockNumber_t\<close>, a 32-bit unsigned
  integer; the module stores them in a \<open>std::vector<int>\<close> and passes them to ROOT as
  an \<open>Int_t\<close> bin number, so the conversion to a signed 32-bit value is kept.
  Doubles are modelled as reals (rounding is not modelled).
\<close>

type_synonym lumi = "32 word"

type_synonym value_err = "real \<times> real"

named_theorems model_defs \<open>definitions unfolded to evaluate the model on concrete inputs\<close>
named_theorems frame_simps \<open>what an operation leaves unchanged\<close>

section \<open>Running minimum and maximum\<close>

text \<open>
  The C++ scans update a running bound with \<open>if (min > v) min = v\<close> and
  \<open>if (max < v) max = v\<close>; these are \<open>min\<close> and \<open>max\<close> written out.
\<close>

definition lower_to :: "real \<Rightarrow> real \<Rightarrow> real" where
  "lower_to v m = (if m > v then v else m)"

definition raise_to :: "real \<Rightarrow> real \<Rightarrow> real" where
  "raise_to v m = (if m < v then v else m)"

lemma lower_to_min [simp]: "lower_to v m = min m v"
  by (simp add: lower_to_def min_def)

lemma raise_to_max [simp]: "raise_to v m = max m v"
  by (simp add: raise_to_def max_def)

lemma fold_min_Min: "fold (\<lambda>v m. min m v) xs (a::'a::linorder) = Min (insert a (set xs))"
proof -
  have "(\<lambda>v m. min m v) = (min :: 'a \<Rightarrow> 'a \<Rightarrow> 'a)"
    by (auto simp: fun_eq_iff min.commute)
  then show ?thesis using Min.set_eq_fold [of a xs] by simp
qed

lemma fold_max_Max: "fold (\<lambda>v m. max m v) xs (a::'a::linorder) = Max (insert a (set xs))"
proof -
  have "(\<lambda>v m. max m v) = (max :: 'a \<Rightarrow> 'a \<Rightarrow> 'a)"
    by (auto simp: fun_eq_iff max.commute)
  then show ?thesis using Max.set_eq_fold [of a xs] by simp
qed

lemma Min_insert_Min:
  "finite A \<Longrightarrow> finite B \<Longrightarrow> Min (insert (Min (insert a A)) B) = Min (insert a (A \<union> B))"
  by (cases "B = {}") (simp_all add: Min.union [symmetric] Un_insert_left)

lemma Max_insert_Max:
  "finite A \<Longrightarrow> finite B \<Longrightarrow> Max (insert (Max (insert a A)) B) = Max (insert a (A \<union> B))"
  by (cases "B = {}") (simp_all add: Max.union [symmetric] Un_insert_left)

section \<open>Folds that overwrite one slot\<close>

text \<open>
  A loop that writes the same slot on every iteration leaves only the value of its
  last iteration (the per-vertex loops of the validation categories do this).
\<close>

lemma fold_overwrite_last:
  "fold (\<lambda>x g. g(k := f x)) xs g = (if xs = [] then g else g(k := f (last xs)))"
  by (induction xs arbitrary: g) auto

text \<open>
  A loop over distinct keys that rewrites the entry of each key from its old value
  (the second pass of the range normaliser).
\<close>

lemma fold_update_distinct:
  "distinct ks \<Longrightarrow>
   fold (\<lambda>k g. g(k := F k (g k))) ks g = (\<lambda>k. if k \<in> set ks then F k (g k) else g k)"
  by (induction ks arbitrary: g) (auto simp: fun_eq_iff)

section \<open>Sorted lists\<close>

lemma sorted_hd_Min: "sorted xs \<Longrightarrow> xs \<noteq> [] \<Longrightarrow> hd xs = Min (set xs)"
  by (cases xs) (auto intro!: Min_eqI[symmetric])

lemma sorted_last_Max: "sorted xs \<Longrightarrow> xs \<noteq> [] \<Longrightarrow> last xs = Max (set xs)"
  by (induction xs rule: rev_induct) (auto simp: sorted_append intro!: Max_eqI [symmetric])

lemma sort_hd_Min [simp]: "xs \<noteq> [] \<Longrightarrow> hd (sort xs) = Min (set xs)"
  by (metis set_sort length_sort length_0_conv sorted_hd_Min sorted_sort)

lemma sort_last_Max [simp]: "xs \<noteq> [] \<Longrightarrow> last (sort xs) = Max (set xs)"
  by (metis set_sort length_sort length_0_conv sorted_last_Max sorted_sort)

section \<open>Quadrature sums\<close>

text \<open>
  \<open>std::sqrt(std::pow(a, 2) + std::pow(b, 2))\<close>: the propagated error of a difference.
\<close>

definition quad_sum :: "real \<Rightarrow> real \<Rightarrow> real" where
  "quad_sum a b = sqrt (a ^ 2 + b ^ 2)"

lemma quad_sum_nonneg [simp]: "0 \<le> quad_sum a b"
  by (simp add: quad_sum_def)

lemma quad_sum_zero_right [simp]: "quad_sum a 0 = \<bar>a\<bar>"
  by (simp add: quad_sum_def)

lemma quad_sum_comm: "quad_sum a b = quad_sum b a"
  by (simp add: quad_sum_def add.commute)

lemma quad_sum_ge: "\<bar>a\<bar> \<le> quad_sum a b"
  by (simp add: quad_sum_def)


section \<open>Section numbers as signed integers\<close>

text \<open>
  A luminosity-section number is an unsigned 32-bit value; converted to \<open>int\<close> it keeps
  its value below \<open>2^31\<close> and wraps to a negative number from there on.
\<close>

lemma sint_lumi:
  "sint (l :: lumi) = (if uint l < 2 ^ 31 then uint l else uint l - 2 ^ 32)"
proof -
  have lo: "- (2 ^ 31) \<le> sint l"
    using sint_ge [of l] by (simp only: len_of_numeral_defs) simp
  have hi: "sint l < 2 ^ 31"
    using sint_less [of l] by (simp only: len_of_numeral_defs) simp
  have u: "uint l = take_bit 32 (sint l)"
    using uint_sint [of l] by (simp only: len_of_numeral_defs) simp
  show ?thesis
  proof (cases "0 \<le> sint l")
    case True
    then have "uint l = sint l" using u hi by (simp add: take_bit_int_eq_self)
    then show ?thesis using hi by simp
  next
    case False
    have "take_bit 32 (sint l) = (sint l + 2 ^ 32) mod 2 ^ 32" by (simp add: take_bit_eq_mod)
    also have "\<dots> = sint l + 2 ^ 32" using lo False by (intro mod_pos_pos_trivial) simp_all
    finally have "uint l = sint l + 2 ^ 32" using u by simp
    then show ?thesis using False lo by simp
  qed
qed

end
