(* ===== verification/Histogram.thy ===== *)
theory Histogram
  imports Prelude
begin

text \<open>
  The histogram operations the module calls through \<open>MonitorElement\<close> (DQMServices)
  on ROOT's \<open>TH1\<close>. They are library code outside src/, modelled from ROOT's documented
  behaviour as far as the module depends on it:
  \<^item> a histogram booked with \<open>n\<close> bins has cells \<open>0 .. n + 1\<close> (underflow, the bins,
    overflow); \<open>SetBinContent\<close>/\<open>SetBinError\<close> ignore a negative bin or one past the
    overflow cell, and write the overflow cell \<open>n + 1\<close>;
  \<^item> \<open>Fill(x)\<close> adds an entry; the model keeps the list of filled values (the binning of
    the run-scope histograms is display only);
  \<^item> \<open>GetMinimum()\<close>/\<open>GetMaximum()\<close> return the value set by \<open>SetMinimum\<close>/\<open>SetMaximum\<close>
    when there is one, and otherwise scan the contents of bins \<open>1 .. n\<close> from
    \<open>FLT_MAX\<close> (resp. \<open>-FLT_MAX\<close>);
  \<^item> ROOT keeps the squared error; \<open>GetBinError\<close> returns its square root, the absolute
    value of what \<open>SetBinError\<close> was given.
\<close>

record histo =
  h_nbins :: nat
  h_xlow :: real
  h_xup :: real
  h_content :: "int \<Rightarrow> real"
  h_error :: "int \<Rightarrow> real"
  h_fills :: "real list"
  h_minimum :: "real option"
  h_maximum :: "real option"
  h_range_user :: "(real \<times> real) option"

definition book1D :: "nat \<Rightarrow> real \<Rightarrow> real \<Rightarrow> histo" where
  "book1D n lo hi =
     \<lparr>h_nbins = n, h_xlow = lo, h_xup = hi, h_content = (\<lambda>_. 0), h_error = (\<lambda>_. 0),
      h_fills = [], h_minimum = None, h_maximum = None, h_range_user = None\<rparr>"

definition Fill :: "histo \<Rightarrow> real \<Rightarrow> histo" where
  "Fill h x = h\<lparr>h_fills := h_fills h @ [x]\<rparr>"

definition bin_in_range :: "histo \<Rightarrow> int \<Rightarrow> bool" where
  "bin_in_range h b \<longleftrightarrow> 0 \<le> b \<and> b \<le> int (h_nbins h) + 1"

definition setBinContent :: "histo \<Rightarrow> int \<Rightarrow> real \<Rightarrow> histo" where
  "setBinContent h b v =
     (if bin_in_range h b then h\<lparr>h_content := (h_content h)(b := v)\<rparr> else h)"

definition setBinError :: "histo \<Rightarrow> int \<Rightarrow> real \<Rightarrow> histo" where
  "setBinError h b e =
     (if bin_in_range h b then h\<lparr>h_error := (h_error h)(b := e)\<rparr> else h)"

definition GetBinError :: "histo \<Rightarrow> int \<Rightarrow> real" where
  "GetBinError h b = \<bar>h_error h b\<bar>"

text \<open>The bins a loop \<open>for (int bin = 1; bin <= GetNbinsX(); bin++)\<close> visits.\<close>

definition histo_bins :: "histo \<Rightarrow> int list" where
  "histo_bins h = map int [1..<Suc (h_nbins h)]"

definition FLT_MAX :: real where
  "FLT_MAX = 340282346638528859811704183484516925440"

text \<open>
  The scans of \<open>TH1::GetMinimum(minval)\<close> and \<open>TH1::GetMaximum(maxval)\<close>:
  \<open>if (value < minimum && value > minval) minimum = value\<close> and its mirror.
\<close>

definition scan_min :: "('b \<Rightarrow> real) \<Rightarrow> real \<Rightarrow> 'b list \<Rightarrow> real \<Rightarrow> real" where
  "scan_min f lo xs a = fold (\<lambda>b m. let v = f b in if v < m \<and> v > lo then v else m) xs a"

definition scan_max :: "('b \<Rightarrow> real) \<Rightarrow> real \<Rightarrow> 'b list \<Rightarrow> real \<Rightarrow> real" where
  "scan_max f hi xs a = fold (\<lambda>b m. let v = f b in if v > m \<and> v < hi then v else m) xs a"

definition GetMinimum :: "histo \<Rightarrow> real" where
  "GetMinimum h =
     (case h_minimum h of
        Some m \<Rightarrow> m
      | None \<Rightarrow> scan_min (h_content h) (- FLT_MAX) (histo_bins h) FLT_MAX)"

definition GetMaximum :: "histo \<Rightarrow> real" where
  "GetMaximum h =
     (case h_maximum h of
        Some m \<Rightarrow> m
      | None \<Rightarrow> scan_max (h_content h) FLT_MAX (histo_bins h) (- FLT_MAX))"

definition SetMinimum :: "histo \<Rightarrow> real \<Rightarrow> histo" where
  "SetMinimum h m = h\<lparr>h_minimum := Some m\<rparr>"

definition SetMaximum :: "histo \<Rightarrow> real \<Rightarrow> histo" where
  "SetMaximum h m = h\<lparr>h_maximum := Some m\<rparr>"

definition SetRangeUser :: "histo \<Rightarrow> real \<Rightarrow> real \<Rightarrow> histo" where
  "SetRangeUser h lo hi = h\<lparr>h_range_user := Some (lo, hi)\<rparr>"

declare book1D_def [model_defs] Fill_def [model_defs] bin_in_range_def [model_defs]
  setBinContent_def [model_defs] setBinError_def [model_defs] GetBinError_def [model_defs]
  histo_bins_def [model_defs] scan_min_def [model_defs] scan_max_def [model_defs] GetMinimum_def [model_defs] GetMaximum_def [model_defs]
  SetMinimum_def [model_defs] SetMaximum_def [model_defs] SetRangeUser_def [model_defs]

section \<open>Reading and writing one bin\<close>

lemma setBinContent_content:
  "h_content (setBinContent h b v) = (if bin_in_range h b then (h_content h)(b := v) else h_content h)"
  by (simp add: setBinContent_def)

lemma setBinError_error:
  "h_error (setBinError h b e) = (if bin_in_range h b then (h_error h)(b := e) else h_error h)"
  by (simp add: setBinError_def)

lemma setBinContent_frame [simp, frame_simps]:
  "h_nbins (setBinContent h b v) = h_nbins h" "h_error (setBinContent h b v) = h_error h"
  "h_fills (setBinContent h b v) = h_fills h" "h_minimum (setBinContent h b v) = h_minimum h"
  "h_maximum (setBinContent h b v) = h_maximum h" "h_range_user (setBinContent h b v) = h_range_user h"
  by (simp_all add: setBinContent_def)

lemma setBinError_frame [simp, frame_simps]:
  "h_nbins (setBinError h b e) = h_nbins h" "h_content (setBinError h b e) = h_content h"
  "h_fills (setBinError h b e) = h_fills h" "h_minimum (setBinError h b e) = h_minimum h"
  "h_maximum (setBinError h b e) = h_maximum h" "h_range_user (setBinError h b e) = h_range_user h"
  by (simp_all add: setBinError_def)

lemma Fill_frame [simp, frame_simps]:
  "h_nbins (Fill h x) = h_nbins h" "h_content (Fill h x) = h_content h"
  "h_error (Fill h x) = h_error h" "h_fills (Fill h x) = h_fills h @ [x]"
  by (simp_all add: Fill_def)

lemma bin_in_range_book1D [simp]:
  "bin_in_range (book1D n lo hi) b \<longleftrightarrow> 0 \<le> b \<and> b \<le> int n + 1"
  by (simp add: bin_in_range_def book1D_def)

text \<open>Setting a bin and its error, as every "Lumibased" category does.\<close>

definition set_bin :: "histo \<Rightarrow> int \<Rightarrow> value_err \<Rightarrow> histo" where
  "set_bin h b ve = setBinError (setBinContent h b (fst ve)) b (snd ve)"

lemma set_bin_frame [simp, frame_simps]:
  "h_nbins (set_bin h b ve) = h_nbins h" "h_fills (set_bin h b ve) = h_fills h"
  "h_minimum (set_bin h b ve) = h_minimum h" "h_maximum (set_bin h b ve) = h_maximum h"
  "h_range_user (set_bin h b ve) = h_range_user h"
  by (simp_all add: set_bin_def)

lemma set_bin_content:
  "h_content (set_bin h b ve) c = (if c = b \<and> bin_in_range h b then fst ve else h_content h c)"
  by (simp add: set_bin_def setBinContent_content)

lemma set_bin_error:
  "h_error (set_bin h b ve) c = (if c = b \<and> bin_in_range h b then snd ve else h_error h c)"
  by (simp add: set_bin_def setBinError_error bin_in_range_def)

lemma set_bin_idem: "set_bin (set_bin h b ve) b ve = set_bin h b ve"
  by (cases h) (simp add: set_bin_def setBinContent_def setBinError_def bin_in_range_def)

lemma set_bin_overwrite: "set_bin (set_bin h b ve) b ve' = set_bin h b ve'"
  by (cases h) (simp add: set_bin_def setBinContent_def setBinError_def bin_in_range_def)

lemma bin_in_range_setBinContent [simp]:
  "bin_in_range (setBinContent h b v) c = bin_in_range h c"
  by (simp add: bin_in_range_def)

lemma set_bin_out_of_range: "\<not> bin_in_range h b \<Longrightarrow> set_bin h b ve = h"
  by (simp add: set_bin_def setBinContent_def setBinError_def)

lemma SetMinimum_frame [simp, frame_simps]:
  "h_content (SetMinimum h m) = h_content h" "h_nbins (SetMinimum h m) = h_nbins h"
  "h_maximum (SetMinimum h m) = h_maximum h" "h_minimum (SetMinimum h m) = Some m"
  "h_error (SetMinimum h m) = h_error h"
  by (simp_all add: SetMinimum_def)

lemma SetMaximum_frame [simp, frame_simps]:
  "h_content (SetMaximum h m) = h_content h" "h_nbins (SetMaximum h m) = h_nbins h"
  "h_minimum (SetMaximum h m) = h_minimum h" "h_maximum (SetMaximum h m) = Some m"
  "h_error (SetMaximum h m) = h_error h"
  by (simp_all add: SetMaximum_def)

lemma SetRangeUser_frame [simp, frame_simps]:
  "h_content (SetRangeUser h lo hi) = h_content h" "h_nbins (SetRangeUser h lo hi) = h_nbins h"
  "h_minimum (SetRangeUser h lo hi) = h_minimum h" "h_maximum (SetRangeUser h lo hi) = h_maximum h"
  "h_range_user (SetRangeUser h lo hi) = Some (lo, hi)" "h_error (SetRangeUser h lo hi) = h_error h"
  by (simp_all add: SetRangeUser_def)

lemma histo_bins_SetMinimum [simp]: "histo_bins (SetMinimum h m) = histo_bins h"
  by (simp add: histo_bins_def)

lemma GetMaximum_SetMinimum [simp]: "GetMaximum (SetMinimum h m) = GetMaximum h"
  by (cases "h_maximum h") (simp_all add: GetMaximum_def)

section \<open>The minimum and maximum scans\<close>

text \<open>
  The scans bound the start value and every bin content inside the guard from below
  (above).
\<close>

lemma scan_min_bound:
  "scan_min f lo xs a \<le> a \<and> (\<forall>b \<in> set xs. lo < f b \<longrightarrow> scan_min f lo xs a \<le> f b)"
proof (induction xs arbitrary: a)
  case Nil
  then show ?case by (simp add: scan_min_def)
next
  case (Cons x xs)
  from Cons [of "if f x < a \<and> lo < f x then f x else a"] show ?case
    by (auto simp: scan_min_def Let_def split: if_splits)
qed

lemma scan_max_bound:
  "a \<le> scan_max f hi xs a \<and> (\<forall>b \<in> set xs. f b < hi \<longrightarrow> f b \<le> scan_max f hi xs a)"
proof (induction xs arbitrary: a)
  case Nil
  then show ?case by (simp add: scan_max_def)
next
  case (Cons x xs)
  from Cons [of "if a < f x \<and> f x < hi then f x else a"] show ?case
    by (auto simp: scan_max_def Let_def split: if_splits)
qed

lemma GetMinimum_le:
  "h_minimum h = None \<Longrightarrow> b \<in> set (histo_bins h) \<Longrightarrow> - FLT_MAX < h_content h b \<Longrightarrow>
   GetMinimum h \<le> h_content h b"
  using scan_min_bound [of "h_content h" "- FLT_MAX" "histo_bins h" FLT_MAX]
  by (simp add: GetMinimum_def)

lemma GetMaximum_ge:
  "h_maximum h = None \<Longrightarrow> b \<in> set (histo_bins h) \<Longrightarrow> h_content h b < FLT_MAX \<Longrightarrow>
   h_content h b \<le> GetMaximum h"
  using scan_max_bound [of "- FLT_MAX" "h_content h" FLT_MAX "histo_bins h"]
  by (simp add: GetMaximum_def)

end
