(* ===== verification/Catalog.thy ===== *)
theory Catalog
  imports Histogram "HOL-Library.List_Lexorder" "HOL-Library.Char_ord"
begin

text \<open>
  The static catalog of time series (SeriesStore): the six variables of
  \<open>varNamesV_\<close>, the category table \<open>histoByCategoryNames_\<close> filled by the constructor
  (AlcaBeamMonitor.cc lines 52--84) and the booking decisions of \<open>bookHistograms\<close>
  (lines 103--211), which leave some (variable, category) entries a null pointer.
  \<open>histosMap_\<close>, a map variable \<open>\<rightarrow>\<close> scope \<open>\<rightarrow>\<close> name \<open>\<rightarrow>\<close> \<open>MonitorElement*\<close>, is
  modelled as a function \<open>var \<Rightarrow> category \<Rightarrow> histo option\<close>: \<open>None\<close> is a null
  pointer or a key the catalog does not hold; every loop of the module skips both alike,
  since it only visits catalog keys and skips null entries.
\<close>

section \<open>Variables\<close>

datatype var = X | Y | Z | SigmaX | SigmaY | SigmaZ

definition var_name :: "var \<Rightarrow> string" where
  "var_name v = (case v of X \<Rightarrow> ''x'' | Y \<Rightarrow> ''y'' | Z \<Rightarrow> ''z''
     | SigmaX \<Rightarrow> ''sigmaX'' | SigmaY \<Rightarrow> ''sigmaY'' | SigmaZ \<Rightarrow> ''sigmaZ'')"

text \<open>Constructor, lines 52--57: the order in which globalEndLuminosityBlock visits them.\<close>

definition varNamesV :: "var list" where
  "varNamesV = [X, Y, Z, SigmaX, SigmaY, SigmaZ]"

definition is_position :: "var \<Rightarrow> bool" where
  "is_position v \<longleftrightarrow> v = X \<or> v = Y \<or> v = Z"

section \<open>Scopes, ordered as their names\<close>

text \<open>
  The keys of the multimap \<open>histoByCategoryNames_\<close> are the strings "lumi", "run" and
  "validation"; the multimap iterates them in string order. The instance below orders the
  scopes by rank, and \<open>scope_order_is_string_order\<close> shows it is the string order.
\<close>

datatype scope = Lumi | Run | Validation

definition scope_name :: "scope \<Rightarrow> string" where
  "scope_name s = (case s of Lumi \<Rightarrow> ''lumi'' | Run \<Rightarrow> ''run'' | Validation \<Rightarrow> ''validation'')"

definition scope_rank :: "scope \<Rightarrow> nat" where
  "scope_rank s = (case s of Lumi \<Rightarrow> 0 | Run \<Rightarrow> 1 | Validation \<Rightarrow> 2)"

lemma scope_rank_inj: "scope_rank s = scope_rank t \<Longrightarrow> s = t"
  by (cases s; cases t) (simp_all add: scope_rank_def)

instantiation scope :: linorder
begin

definition less_eq_scope :: "scope \<Rightarrow> scope \<Rightarrow> bool" where
  "less_eq_scope s t \<longleftrightarrow> scope_rank s \<le> scope_rank t"

definition less_scope :: "scope \<Rightarrow> scope \<Rightarrow> bool" where
  "less_scope s t \<longleftrightarrow> scope_rank s < scope_rank t"

instance
proof
  fix s t u :: scope
  show "s < t \<longleftrightarrow> s \<le> t \<and> \<not> t \<le> s" by (auto simp: less_eq_scope_def less_scope_def)
  show "s \<le> s" by (simp add: less_eq_scope_def)
  show "s \<le> t \<Longrightarrow> t \<le> u \<Longrightarrow> s \<le> u" by (simp add: less_eq_scope_def)
  show "s \<le> t \<Longrightarrow> t \<le> s \<Longrightarrow> s = t" by (auto simp: less_eq_scope_def intro: scope_rank_inj)
  show "s \<le> t \<or> t \<le> s" by (auto simp: less_eq_scope_def)
qed

end

section \<open>Categories\<close>

text \<open>The sixteen category names of lines 60--76, one constructor each.\<close>

datatype category =
    Coordinate | PV_fit_DataBase | PV_fit_BeamFit | PV_fit_Online
  | PV_DataBase | PV_BeamFit | PV_Online
  | LB_BeamSpotFit | LB_PrimaryVertex | LB_DataBase | LB_Online
  | LB_PV_DataBase_fit | LB_PV_Online_fit
  | LB_Online_DataBase_fit | LB_PV_DataBase | LB_PV_Online

definition category_name :: "category \<Rightarrow> string" where
  "category_name c = (case c of
       Coordinate \<Rightarrow> ''Coordinate''
     | PV_fit_DataBase \<Rightarrow> ''PrimaryVertex fit-DataBase''
     | PV_fit_BeamFit \<Rightarrow> ''PrimaryVertex fit-BeamFit''
     | PV_fit_Online \<Rightarrow> ''PrimaryVertex fit-Online''
     | PV_DataBase \<Rightarrow> ''PrimaryVertex-DataBase''
     | PV_BeamFit \<Rightarrow> ''PrimaryVertex-BeamFit''
     | PV_Online \<Rightarrow> ''PrimaryVertex-Online''
     | LB_BeamSpotFit \<Rightarrow> ''Lumibased BeamSpotFit''
     | LB_PrimaryVertex \<Rightarrow> ''Lumibased PrimaryVertex''
     | LB_DataBase \<Rightarrow> ''Lumibased DataBase''
     | LB_Online \<Rightarrow> ''Lumibased Online''
     | LB_PV_DataBase_fit \<Rightarrow> ''Lumibased PrimaryVertex-DataBase fit''
     | LB_PV_Online_fit \<Rightarrow> ''Lumibased PrimaryVertex-Online fit''
     | LB_Online_DataBase_fit \<Rightarrow> ''Lumibased Online-DataBase fit''
     | LB_PV_DataBase \<Rightarrow> ''Lumibased PrimaryVertex-DataBase''
     | LB_PV_Online \<Rightarrow> ''Lumibased PrimaryVertex-Online'')"

text \<open>Lines 59--77: the insertions into the multimap, in program order.\<close>

definition category_inserts :: "(scope \<times> category) list" where
  "category_inserts =
     [(Run, Coordinate), (Run, PV_fit_DataBase), (Run, PV_fit_BeamFit), (Run, PV_fit_Online),
      (Run, PV_DataBase), (Run, PV_BeamFit), (Run, PV_Online),
      (Lumi, LB_BeamSpotFit), (Lumi, LB_PrimaryVertex), (Lumi, LB_DataBase), (Lumi, LB_Online),
      (Lumi, LB_PV_DataBase_fit), (Lumi, LB_PV_Online_fit),
      (Validation, LB_Online_DataBase_fit), (Validation, LB_PV_DataBase),
      (Validation, LB_PV_Online)]"

text \<open>
  A \<open>std::multimap\<close> iterates its entries by key and, among equal keys, in insertion
  order: a stable sort of the insertions by scope. With \<open>perLSsaving\<close> the table is
  left empty.
\<close>

definition histoByCategoryNames :: "bool \<Rightarrow> (scope \<times> category) list" where
  "histoByCategoryNames perLSsaving = (if perLSsaving then [] else sort_key fst category_inserts)"

definition category_scope :: "category \<Rightarrow> scope" where
  "category_scope c =
     (if c \<in> {Coordinate, PV_fit_DataBase, PV_fit_BeamFit, PV_fit_Online, PV_DataBase, PV_BeamFit,
              PV_Online} then Run
      else if c \<in> {LB_Online_DataBase_fit, LB_PV_DataBase, LB_PV_Online} then Validation
      else Lumi)"

declare varNamesV_def [model_defs] is_position_def [model_defs] category_inserts_def [model_defs]
  histoByCategoryNames_def [model_defs] category_scope_def [model_defs]

section \<open>Booking\<close>

text \<open>
  bookHistograms, lines 106--107 and 182: every per-section series has one bin per
  section from \<open>firstLumi = 1\<close> to \<open>lastLumi = 3000\<close>, centred on the section number.
\<close>

definition book_firstLumi :: int where "book_firstLumi = 1"
definition book_lastLumi :: int where "book_lastLumi = 3000"

definition lumi_histo :: histo where
  "lumi_histo = book1D (nat (book_lastLumi - book_firstLumi + 1))
                       (of_int book_firstLumi - 0.5) (of_int book_lastLumi + 0.5)"

definition is_run_fit_diff :: "category \<Rightarrow> bool" where
  "is_run_fit_diff c \<longleftrightarrow> c \<in> {PV_fit_DataBase, PV_fit_BeamFit, PV_fit_Online}"

definition is_run_vertex_diff :: "category \<Rightarrow> bool" where
  "is_run_vertex_diff c \<longleftrightarrow> c \<in> {PV_DataBase, PV_BeamFit, PV_Online}"

text \<open>Lines 114--158: the "run" folder, by variable.\<close>

definition book_run_histo :: "var \<Rightarrow> category \<Rightarrow> histo option" where
  "book_run_histo v c =
     (if v = X \<or> v = Y then
        (if c = Coordinate then Some (book1D 1001 (-0.2525) 0.2525)
         else if is_run_fit_diff c \<or> is_run_vertex_diff c then Some (book1D 1001 (-0.02525) 0.02525)
         else None)
      else if v = Z then
        (if c = Coordinate then Some (book1D 101 (-5.05) 5.05)
         else if is_run_fit_diff c then Some (book1D 101 (-0.505) 0.505)
         else if is_run_vertex_diff c then Some (book1D 1001 (-5.005) 5.005)
         else None)
      else if v = SigmaX \<or> v = SigmaY then
        (if c = Coordinate then Some (book1D 100 0 0.015)
         else None)
      else
        (if c = Coordinate then Some (book1D 110 0 11)
         else if is_run_fit_diff c \<or> is_run_vertex_diff c then Some (book1D 101 (-5.05) 5.05)
         else None))"

text \<open>Lines 173--200: the "lumi" and "validation" folders.\<close>

definition book_lumi_histo :: "var \<Rightarrow> scope \<Rightarrow> category \<Rightarrow> histo option" where
  "book_lumi_histo v sc c =
     (if sc = Lumi then Some lumi_histo
      else if sc = Validation \<and> c = LB_Online_DataBase_fit then Some lumi_histo
      else if sc = Validation \<and> c \<noteq> LB_Online_DataBase_fit \<and> is_position v then Some lumi_histo
      else None)"

definition book_histo :: "var \<Rightarrow> scope \<Rightarrow> category \<Rightarrow> histo option" where
  "book_histo v sc c = (if sc = Run then book_run_histo v c else book_lumi_histo v sc c)"

type_synonym histos = "var \<Rightarrow> category \<Rightarrow> histo option"

type_synonym series = "category \<Rightarrow> histo option"

text \<open>
  The constructor leaves every catalog entry a null pointer (lines 79--84);
  bookHistograms replaces each catalog entry by its booking decision.
\<close>

definition in_catalog :: "bool \<Rightarrow> category \<Rightarrow> bool" where
  "in_catalog perLSsaving c \<longleftrightarrow> (category_scope c, c) \<in> set (histoByCategoryNames perLSsaving)"

definition bookHistograms_series :: "bool \<Rightarrow> histos \<Rightarrow> histos" where
  "bookHistograms_series perLSsaving hs =
     (\<lambda>v c. if in_catalog perLSsaving c then book_histo v (category_scope c) c else hs v c)"

declare book_firstLumi_def [model_defs] book_lastLumi_def [model_defs] lumi_histo_def [model_defs]
  is_run_fit_diff_def [model_defs] is_run_vertex_diff_def [model_defs] book_run_histo_def [model_defs]
  book_lumi_histo_def [model_defs] book_histo_def [model_defs] in_catalog_def [model_defs]
  bookHistograms_series_def [model_defs]

section \<open>Facts about the catalog\<close>

lemma scope_order_is_string_order: "s < t \<longleftrightarrow> scope_name s < scope_name t"
  by (cases s; cases t) (simp_all add: less_scope_def scope_rank_def scope_name_def less_char_def)

lemma histoByCategoryNames_eval:
  "histoByCategoryNames False =
     [(Lumi, LB_BeamSpotFit), (Lumi, LB_PrimaryVertex), (Lumi, LB_DataBase), (Lumi, LB_Online),
      (Lumi, LB_PV_DataBase_fit), (Lumi, LB_PV_Online_fit),
      (Run, Coordinate), (Run, PV_fit_DataBase), (Run, PV_fit_BeamFit), (Run, PV_fit_Online),
      (Run, PV_DataBase), (Run, PV_BeamFit), (Run, PV_Online),
      (Validation, LB_Online_DataBase_fit), (Validation, LB_PV_DataBase),
      (Validation, LB_PV_Online)]"
  by (simp add: histoByCategoryNames_def category_inserts_def less_eq_scope_def scope_rank_def)

lemma histoByCategoryNames_True [simp]: "histoByCategoryNames True = []"
  by (simp add: histoByCategoryNames_def)

lemma histoByCategoryNames_scope:
  "(sc, c) \<in> set (histoByCategoryNames p) \<Longrightarrow> sc = category_scope c"
  by (cases p) (auto simp: histoByCategoryNames_eval category_scope_def)

lemma in_catalog_False [simp]: "in_catalog False c"
  by (cases c) (simp_all add: in_catalog_def histoByCategoryNames_eval category_scope_def)

lemma in_catalog_True [simp]: "\<not> in_catalog True c"
  by (simp add: in_catalog_def)

lemma distinct_categories: "distinct (map snd (histoByCategoryNames p))"
  by (cases p) (simp_all add: histoByCategoryNames_eval)

lemma lumi_histo_nbins [simp]: "h_nbins lumi_histo = 3000"
  by (simp add: lumi_histo_def book_lastLumi_def book_firstLumi_def book1D_def)

lemma lumi_histo_bin_in_range [simp]: "bin_in_range lumi_histo b \<longleftrightarrow> 0 \<le> b \<and> b \<le> 3001"
  by (simp add: bin_in_range_def)


section \<open>Properties of the catalog\<close>

text \<open>
  C17. The width variables are booked asymmetrically: for sigmaX, sigmaY and sigmaZ the
  per-section difference series "PrimaryVertex-DataBase fit", "PrimaryVertex-Online fit"
  and "Online-DataBase fit" are booked (and so filled when a section closes), while the
  per-vertex validation series are null; in the "run" folder only sigmaZ books the fit
  differences.
\<close>

theorem width_series_booking:
  assumes "\<not> is_position v"
  shows "bookHistograms_series False hs v LB_PV_DataBase_fit = Some lumi_histo \<and>
         bookHistograms_series False hs v LB_PV_Online_fit = Some lumi_histo \<and>
         bookHistograms_series False hs v LB_Online_DataBase_fit = Some lumi_histo \<and>
         bookHistograms_series False hs v LB_PV_DataBase = None \<and>
         bookHistograms_series False hs v LB_PV_Online = None \<and>
         (bookHistograms_series False hs v PV_fit_DataBase \<noteq> None \<longleftrightarrow> v = SigmaZ)"
  using assms
  by (cases v) (simp_all add: bookHistograms_series_def book_histo_def book_lumi_histo_def
                              book_run_histo_def category_scope_def is_position_def is_run_fit_diff_def)

text \<open>
  C18. A section's number reaches a bin of the per-section series exactly when, as an
  unsigned 32-bit value, it is at most 3001: sections 1 to 3000 fill their own bin,
  section 0 the underflow bin and section 3001 the overflow bin; numbers from 3002 on,
  and those from \<open>2^31\<close> on (negative as \<open>int\<close>), are dropped by ROOT's range check.
\<close>

theorem lumi_bin_range: "bin_in_range lumi_histo (sint (l :: lumi)) \<longleftrightarrow> uint l \<le> 3001"
proof -
  have "uint l < 2 ^ 32" using uint_lt2p [of l] by (simp only: len_of_numeral_defs) simp
  then show ?thesis by (simp add: sint_lumi)
qed

end
