(* ===== verification/BeamSpot.thy ===== *)
theory BeamSpot
  imports Prelude
begin

text \<open>
  The data the monitor reads: \<open>reco::BeamSpot\<close> (DataFormats/BeamSpot), the conditions
  object \<open>BeamSpotObjects\<close> read from the database, \<open>reco::Vertex\<close>, \<open>reco::Track\<close>
  and the per-vertex record \<open>alcabeammonitor::pvPosAndErr\<close>. These types live outside
  src/ (only the module AlcaBeamMonitor.cc is there); they are modelled with the fields
  and accessors the module uses. The translation of a database object into a beam spot
  (globalBeginLuminosityBlock, lines 241--268) and the four source keys of the
  per-section map are the module's own code.
\<close>

section \<open>Beam spots\<close>

text \<open>\<open>reco::BeamSpot::BeamType\<close>: Unknown = -1, Fake = 0, LHC = 1, Tracker = 2.\<close>

datatype beam_type = Unknown | Fake | LHC | Tracker

text \<open>
  A beam spot: position, longitudinal size, slopes, transverse widths, the 7x7
  covariance matrix (\<open>reco::BeamSpot::dimension = 7\<close>), emittances, beta star and type.
\<close>

record beam_spot =
  bs_x0 :: real
  bs_y0 :: real
  bs_z0 :: real
  bs_sigma_z :: real
  bs_dxdz :: real
  bs_dydz :: real
  bs_width_x :: real
  bs_width_y :: real
  bs_cov :: "nat \<Rightarrow> nat \<Rightarrow> real"
  bs_emittance_x :: real
  bs_emittance_y :: real
  bs_beta_star :: real
  bs_type :: beam_type

text \<open>
  The error accessors of \<open>reco::BeamSpot\<close> read the diagonal of the covariance matrix;
  both beam-width errors read entry (6,6).
\<close>

definition x0Error :: "beam_spot \<Rightarrow> real" where
  "x0Error b = sqrt (bs_cov b 0 0)"

definition y0Error :: "beam_spot \<Rightarrow> real" where
  "y0Error b = sqrt (bs_cov b 1 1)"

definition z0Error :: "beam_spot \<Rightarrow> real" where
  "z0Error b = sqrt (bs_cov b 2 2)"

definition sigmaZ0Error :: "beam_spot \<Rightarrow> real" where
  "sigmaZ0Error b = sqrt (bs_cov b 3 3)"

definition BeamWidthXError :: "beam_spot \<Rightarrow> real" where
  "BeamWidthXError b = sqrt (bs_cov b 6 6)"

definition BeamWidthYError :: "beam_spot \<Rightarrow> real" where
  "BeamWidthYError b = sqrt (bs_cov b 6 6)"

declare x0Error_def [model_defs] y0Error_def [model_defs] z0Error_def [model_defs]
  sigmaZ0Error_def [model_defs] BeamWidthXError_def [model_defs] BeamWidthYError_def [model_defs]

text \<open>
  \<open>reco::BeamSpot(point, sigmaZ, dxdz, dydz, BeamWidthX, matrix)\<close>: the constructor
  used for the database spot. It sets both widths to \<open>BeamWidthX\<close> and the type to
  Unknown; emittances and beta star start at zero.
\<close>

definition make_beam_spot ::
  "real \<times> real \<times> real \<Rightarrow> real \<Rightarrow> real \<Rightarrow> real \<Rightarrow> real \<Rightarrow> (nat \<Rightarrow> nat \<Rightarrow> real) \<Rightarrow> beam_spot" where
  "make_beam_spot p sz dxdz dydz wx m =
     \<lparr>bs_x0 = fst p, bs_y0 = fst (snd p), bs_z0 = snd (snd p), bs_sigma_z = sz,
      bs_dxdz = dxdz, bs_dydz = dydz, bs_width_x = wx, bs_width_y = wx, bs_cov = m,
      bs_emittance_x = 0, bs_emittance_y = 0, bs_beta_star = 0, bs_type = Unknown\<rparr>"

declare make_beam_spot_def [model_defs]

section \<open>The database object\<close>

text \<open>\<open>BeamSpotObjects\<close> (CondFormats/BeamSpotObjects), the payload of the DB record.\<close>

record beam_spot_objects =
  db_x :: real
  db_y :: real
  db_z :: real
  db_sigma_z :: real
  db_dxdz :: real
  db_dydz :: real
  db_width_x :: real
  db_width_y :: real
  db_cov :: "nat \<Rightarrow> nat \<Rightarrow> real"
  db_emittance_x :: real
  db_emittance_y :: real
  db_beta_star :: real
  db_beam_type :: int

text \<open>
  globalBeginLuminosityBlock, lines 245--268: the covariance matrix is copied entry by
  entry for \<open>i, j < dimension\<close>, the spot is constructed, its second width, emittances
  and beta star are set, and its type is Tracker exactly when the payload's beam type is 2.
\<close>

definition beam_dimension :: nat where
  "beam_dimension = 7"

definition copy_covariance :: "(nat \<Rightarrow> nat \<Rightarrow> real) \<Rightarrow> nat \<Rightarrow> nat \<Rightarrow> real" where
  "copy_covariance c i j = (if i < beam_dimension \<and> j < beam_dimension then c i j else 0)"

definition spot_from_db :: "beam_spot_objects \<Rightarrow> beam_spot" where
  "spot_from_db spotDB =
     (let aSpot = make_beam_spot (db_x spotDB, db_y spotDB, db_z spotDB) (db_sigma_z spotDB)
                    (db_dxdz spotDB) (db_dydz spotDB) (db_width_x spotDB)
                    (copy_covariance (db_cov spotDB));
          aSpot = aSpot\<lparr>bs_width_y := db_width_y spotDB\<rparr>;
          aSpot = aSpot\<lparr>bs_emittance_x := db_emittance_x spotDB\<rparr>;
          aSpot = aSpot\<lparr>bs_emittance_y := db_emittance_y spotDB\<rparr>;
          aSpot = aSpot\<lparr>bs_beta_star := db_beta_star spotDB\<rparr>
      in if db_beam_type spotDB = 2 then aSpot\<lparr>bs_type := Tracker\<rparr>
         else aSpot\<lparr>bs_type := Fake\<rparr>)"

declare beam_dimension_def [model_defs] copy_covariance_def [model_defs] spot_from_db_def [model_defs]

section \<open>Source keys\<close>

text \<open>
  The keys of \<open>BeamSpotInfo::beamSpotMap_\<close>, a \<open>std::map<std::string, reco::BeamSpot>\<close>:
  the module only ever uses the four strings "BF" (track-based BeamFitter), "DB"
  (conditions database), "PV" (PVFitter) and "SC" (online scalers). The constructors
  are declared in the strings' order.
\<close>

datatype src_key = BF | DB | PV | SC

section \<open>Vertices and tracks\<close>

text \<open>The fields of \<open>reco::Vertex\<close> the module reads.\<close>

record vertex =
  vx_x :: real
  vx_y :: real
  vx_z :: real
  vx_x_err :: real
  vx_y_err :: real
  vx_z_err :: real
  vx_is_fake :: bool
  vx_tracks_size :: nat

text \<open>
  \<open>alcabeammonitor::pvPosAndErr\<close> (AlcaBeamMonitor.h): a vertex reduced to its three
  coordinates with their errors; \<open>xWithError()\<close> and friends return the pairs.
\<close>

record pv_pos_and_err =
  xWithError :: value_err
  yWithError :: value_err
  zWithError :: value_err

definition pv_of_vertex :: "vertex \<Rightarrow> pv_pos_and_err" where
  "pv_of_vertex pv = \<lparr>xWithError = (vx_x pv, vx_x_err pv), yWithError = (vx_y pv, vx_y_err pv),
                      zWithError = (vx_z pv, vx_z_err pv)\<rparr>"

declare pv_of_vertex_def [model_defs]

text \<open>
  analyze, lines 301--305: a vertex is sampled unless it is fake or has fewer than ten
  tracks.
\<close>

definition vertex_selected :: "vertex \<Rightarrow> bool" where
  "vertex_selected pv \<longleftrightarrow> \<not> (vx_is_fake pv \<or> vx_tracks_size pv < 10)"

definition select_vertices :: "vertex list \<Rightarrow> pv_pos_and_err list" where
  "select_vertices pvs = map pv_of_vertex (filter vertex_selected pvs)"

declare vertex_selected_def [model_defs] select_vertices_def [model_defs]

text \<open>
  The fields of \<open>reco::Track\<close> the module reads: the reference point, the transverse
  momentum components and the azimuth. \<open>dxy()\<close> is the transverse impact parameter
  with respect to the origin, \<open>dxy(p)\<close> with respect to the point \<open>p\<close>.
\<close>

record track =
  trk_vx :: real
  trk_vy :: real
  trk_px :: real
  trk_py :: real
  trk_phi :: real

definition trk_pt :: "track \<Rightarrow> real" where
  "trk_pt t = sqrt (trk_px t ^ 2 + trk_py t ^ 2)"

definition dxy_at :: "track \<Rightarrow> real \<times> real \<Rightarrow> real" where
  "dxy_at t p = (- (trk_vx t - fst p) * trk_py t + (trk_vy t - snd p) * trk_px t) / trk_pt t"

definition dxy :: "track \<Rightarrow> real" where
  "dxy t = dxy_at t (0, 0)"

declare trk_pt_def [model_defs] dxy_at_def [model_defs] dxy_def [model_defs]

section \<open>Basic facts\<close>

lemma spot_from_db_type:
  "bs_type (spot_from_db d) = (if db_beam_type d = 2 then Tracker else Fake)"
  by (simp add: spot_from_db_def Let_def make_beam_spot_def)

lemma spot_from_db_position:
  "bs_x0 (spot_from_db d) = db_x d \<and> bs_y0 (spot_from_db d) = db_y d \<and>
   bs_z0 (spot_from_db d) = db_z d"
  by (simp add: spot_from_db_def Let_def make_beam_spot_def)

lemma spot_from_db_widths:
  "bs_width_x (spot_from_db d) = db_width_x d \<and> bs_width_y (spot_from_db d) = db_width_y d \<and>
   bs_sigma_z (spot_from_db d) = db_sigma_z d"
  by (simp add: spot_from_db_def Let_def make_beam_spot_def)

lemma spot_from_db_cov:
  "i < 7 \<Longrightarrow> j < 7 \<Longrightarrow> bs_cov (spot_from_db d) i j = db_cov d i j"
  by (simp add: spot_from_db_def Let_def make_beam_spot_def copy_covariance_def beam_dimension_def)

lemma spot_from_db_never_unknown: "bs_type (spot_from_db d) \<noteq> Unknown"
  by (simp add: spot_from_db_type)

lemma select_vertices_length: "length (select_vertices pvs) \<le> length pvs"
  by (simp add: select_vertices_def)

lemma select_vertices_append:
  "select_vertices (xs @ ys) = select_vertices xs @ select_vertices ys"
  by (simp add: select_vertices_def)

lemma dxy_at_shift:
  "trk_pt t \<noteq> 0 \<Longrightarrow>
   dxy_at t p = dxy t + (fst p * trk_py t - snd p * trk_px t) / trk_pt t"
  by (simp add: dxy_at_def dxy_def field_simps)

end
