(* ===== verification/IntervalCache.thy ===== *)
theory IntervalCache
  imports BeamSpot
begin

text \<open>
  The per-section cache (IntervalCache): \<open>alcabeammonitor::BeamSpotInfo\<close>, the
  \<open>LuminosityBlockCache\<close> the framework keeps for each open luminosity section. It is
  created by globalBeginLuminosityBlock (AlcaBeamMonitor.cc lines 227--275), written by
  analyze for every event of the section (lines 296--323) and read by
  globalEndLuminosityBlock. This theory holds the cache, its creation and the per-event
  updates of the cache and of the two track distributions; the composition with the
  fitters and the module state is in theory Monitor.
\<close>

section \<open>The cache\<close>

record beam_spot_info =
  beamSpotMap :: "src_key \<rightharpoonup> beam_spot"
  vertices :: "pv_pos_and_err list list"

definition empty_info :: beam_spot_info where
  "empty_info = \<lparr>beamSpotMap = Map.empty, vertices = []\<rparr>"

text \<open>
  The result of \<open>iSetup.getHandle(beamSpotToken_)\<close>: it throws, or returns a handle
  that is invalid, or a valid handle to the payload.
\<close>

datatype db_lookup = DB_Exception | DB_Invalid | DB_Valid beam_spot_objects

text \<open>
  globalBeginLuminosityBlock: on an exception the function logs and returns
  \<open>nullptr\<close> (None): the section's cache is a null pointer. On an invalid handle the
  cache is empty; otherwise it holds the translated database spot under "DB".
\<close>

definition globalBeginLuminosityBlock :: "db_lookup \<Rightarrow> beam_spot_info option" where
  "globalBeginLuminosityBlock r =
     (case r of
        DB_Exception \<Rightarrow> None
      | DB_Invalid \<Rightarrow> Some empty_info
      | DB_Valid spotDB \<Rightarrow> Some (empty_info\<lparr>beamSpotMap := [DB \<mapsto> spot_from_db spotDB]\<rparr>))"

declare empty_info_def [model_defs] globalBeginLuminosityBlock_def [model_defs]

section \<open>Events\<close>

text \<open>
  What analyze reads from an event: its section, the track collection and the vertex
  collection (each None when the event has no such product) and the scaler beam spot
  (the handle may be invalid: None).
\<close>

record event =
  ev_lumi :: lumi
  ev_tracks :: "track list option"
  ev_pvs :: "vertex list option"
  ev_scaler :: "beam_spot option"

section \<open>The per-event updates of analyze\<close>

text \<open>
  Lines 285--294: only when the section has a database spot, the track collection is
  read and every track fills the \<open>hD0Phi0_\<close> profile with \<open>(phi, -dxy)\<close> and \<open>hDxyBS_\<close>
  with \<open>-dxy\<close> measured from the database position. The handle is not checked:
  \<open>product()\<close> on a missing collection throws, which is the value None.
\<close>

definition sample_track :: "beam_spot \<Rightarrow> track \<Rightarrow> (real \<times> real) list \<times> real list \<Rightarrow>
    (real \<times> real) list \<times> real list" where
  "sample_track db t acc =
     (fst acc @ [(trk_phi t, - dxy t)], snd acc @ [- dxy_at t (bs_x0 db, bs_y0 db)])"

definition sample_tracks :: "beam_spot_info \<Rightarrow> track list option \<Rightarrow> (real \<times> real) list \<times> real list \<Rightarrow>
    ((real \<times> real) list \<times> real list) option" where
  "sample_tracks info tracks acc =
     (case beamSpotMap info DB of
        None \<Rightarrow> Some acc
      | Some db \<Rightarrow> (case tracks of
                     None \<Rightarrow> None
                   | Some ts \<Rightarrow> Some (fold (sample_track db) ts acc)))"

text \<open>
  Lines 297--308: when the vertex collection is there, the selected vertices of the event
  are appended to the section's list as one more vector (possibly empty).
\<close>

definition record_vertices :: "event \<Rightarrow> beam_spot_info \<Rightarrow> beam_spot_info" where
  "record_vertices e info =
     (case ev_pvs e of
        None \<Rightarrow> info
      | Some pvs \<Rightarrow> info\<lparr>vertices := vertices info @ [select_vertices pvs]\<rparr>)"

text \<open>
  Lines 310--323: while the section has no "SC" spot, the event's scaler spot, if valid,
  is stored under "SC" with type Tracker when its width in x is non-zero and Fake
  otherwise; a missing scaler spot logs a warning and returns, which ends the function
  at a point where nothing is left to do.
\<close>

definition scaler_spot :: "beam_spot \<Rightarrow> beam_spot" where
  "scaler_spot b = b\<lparr>bs_type := (if bs_width_x b \<noteq> 0 then Tracker else Fake)\<rparr>"

definition record_scaler :: "event \<Rightarrow> beam_spot_info \<Rightarrow> beam_spot_info" where
  "record_scaler e info =
     (if beamSpotMap info SC = None then
        (case ev_scaler e of
           Some b \<Rightarrow> info\<lparr>beamSpotMap := (beamSpotMap info)(SC \<mapsto> scaler_spot b)\<rparr>
         | None \<Rightarrow> info)
      else info)"

text \<open>The cache part of analyze, in the order of the code.\<close>

definition analyze_info :: "event \<Rightarrow> beam_spot_info \<Rightarrow> beam_spot_info" where
  "analyze_info e info = record_scaler e (record_vertices e info)"

declare sample_track_def [model_defs] sample_tracks_def [model_defs] record_vertices_def [model_defs]
  scaler_spot_def [model_defs] record_scaler_def [model_defs] analyze_info_def [model_defs]

section \<open>Well-formed caches\<close>

text \<open>
  The spots the module itself creates have a decided type: "DB" and "SC" are Tracker or
  Fake, never Unknown or LHC (the fitters' spots are taken as they come).
\<close>

definition info_wf :: "beam_spot_info \<Rightarrow> bool" where
  "info_wf info \<longleftrightarrow>
     (\<forall>k b. k \<in> {DB, SC} \<longrightarrow> beamSpotMap info k = Some b \<longrightarrow> bs_type b \<in> {Tracker, Fake})"

section \<open>Facts about the per-event updates\<close>

lemma record_vertices_map [simp]: "beamSpotMap (record_vertices e info) = beamSpotMap info"
  by (simp add: record_vertices_def split: option.split)

lemma record_scaler_vertices [simp]: "vertices (record_scaler e info) = vertices info"
  by (simp add: record_scaler_def split: option.split)

lemma record_scaler_other:
  "k \<noteq> SC \<Longrightarrow> beamSpotMap (record_scaler e info) k = beamSpotMap info k"
  by (simp add: record_scaler_def split: option.split)

lemma record_scaler_present:
  "beamSpotMap info SC \<noteq> None \<Longrightarrow> record_scaler e info = info"
  by (auto simp: record_scaler_def)

lemma analyze_info_other:
  "k \<noteq> SC \<Longrightarrow> beamSpotMap (analyze_info e info) k = beamSpotMap info k"
  by (simp add: analyze_info_def record_scaler_other)

lemma analyze_info_vertices:
  "vertices (analyze_info e info) =
     vertices info @ (case ev_pvs e of None \<Rightarrow> [] | Some pvs \<Rightarrow> [select_vertices pvs])"
  by (simp add: analyze_info_def record_vertices_def split: option.split)

lemma analyze_info_SC_kept:
  "beamSpotMap info SC = Some b \<Longrightarrow> beamSpotMap (analyze_info e info) SC = Some b"
  by (simp add: analyze_info_def record_scaler_def)

lemma analyze_info_SC_new:
  "beamSpotMap info SC = None \<Longrightarrow>
   beamSpotMap (analyze_info e info) SC = map_option scaler_spot (ev_scaler e)"
  by (simp add: analyze_info_def record_scaler_def split: option.split)

lemma scaler_spot_type: "bs_type (scaler_spot b) = (if bs_width_x b \<noteq> 0 then Tracker else Fake)"
  by (simp add: scaler_spot_def)

lemma info_wf_empty [simp]: "info_wf empty_info"
  by (simp add: info_wf_def empty_info_def)

lemma info_wf_analyze: "info_wf info \<Longrightarrow> info_wf (analyze_info e info)"
  unfolding info_wf_def
  by (cases "beamSpotMap info SC")
     (auto simp: analyze_info_other analyze_info_SC_kept analyze_info_SC_new scaler_spot_type)

lemma info_wf_begin: "globalBeginLuminosityBlock r = Some info \<Longrightarrow> info_wf info"
  by (auto simp: globalBeginLuminosityBlock_def info_wf_def empty_info_def spot_from_db_type
           split: db_lookup.splits if_splits)

lemma sample_tracks_no_db: "beamSpotMap info DB = None \<Longrightarrow> sample_tracks info ts acc = Some acc"
  by (simp add: sample_tracks_def)

lemma fold_sample_track:
  "fold (sample_track db) ts acc =
     (fst acc @ map (\<lambda>t. (trk_phi t, - dxy t)) ts,
      snd acc @ map (\<lambda>t. - dxy_at t (bs_x0 db, bs_y0 db)) ts)"
  by (induction ts arbitrary: acc) (simp_all add: sample_track_def)

end
