(* ===== verification/Consistency.thy ===== *)
theory Consistency
  imports Catalog IntervalCache
begin

text \<open>
  The consistency engine: the body of globalEndLuminosityBlock after the fits
  (AlcaBeamMonitor.cc lines 344--500). For each variable it projects the section's spots
  of type Tracker onto (value, error) pairs (\<open>resultsMap\<close>), collects the sampled
  vertices' values (\<open>vertexResults\<close>) and visits the category table in multimap order,
  filling each non-null series by the category's formula. \<open>resultsMap\<close> is threaded
  through the loop as state, because the "Coordinate" branch reads \<open>resultsMap["DB"]\<close>
  with \<open>operator[]\<close>, which inserts a (0, 0) entry when the database spot is present but
  not of type Tracker; the categories visited later then see that entry.
\<close>

section \<open>Projections\<close>

definition project :: "var \<Rightarrow> beam_spot \<Rightarrow> value_err" where
  "project v b = (case v of
       X \<Rightarrow> (bs_x0 b, x0Error b)
     | Y \<Rightarrow> (bs_y0 b, y0Error b)
     | Z \<Rightarrow> (bs_z0 b, z0Error b)
     | SigmaX \<Rightarrow> (bs_width_x b, BeamWidthXError b)
     | SigmaY \<Rightarrow> (bs_width_y b, BeamWidthYError b)
     | SigmaZ \<Rightarrow> (bs_sigma_z b, sigmaZ0Error b))"

type_synonym results = "src_key \<rightharpoonup> value_err"

text \<open>Lines 349--372: only spots of type Tracker enter the results.\<close>

definition resultsMap :: "var \<Rightarrow> (src_key \<rightharpoonup> beam_spot) \<Rightarrow> results" where
  "resultsMap v m =
     (\<lambda>k. case m k of
            None \<Rightarrow> None
          | Some b \<Rightarrow> if bs_type b = Tracker then Some (project v b) else None)"

text \<open>Lines 373--389: the vertices' values of a position variable; none for a width.\<close>

definition pv_project :: "var \<Rightarrow> (pv_pos_and_err \<Rightarrow> value_err) option" where
  "pv_project v = (case v of
       X \<Rightarrow> Some xWithError | Y \<Rightarrow> Some yWithError | Z \<Rightarrow> Some zWithError
     | SigmaX \<Rightarrow> None | SigmaY \<Rightarrow> None | SigmaZ \<Rightarrow> None)"

definition vertexResults :: "var \<Rightarrow> pv_pos_and_err list list \<Rightarrow> value_err list" where
  "vertexResults v vs =
     (case pv_project v of None \<Rightarrow> [] | Some f \<Rightarrow> concat (map (map f) vs))"

text \<open>
  \<open>resultsMap[k]\<close> (\<open>std::map::operator[]\<close>): the entry, or a new \<open>(0, 0)\<close> entry
  inserted and returned.
\<close>

definition rm_index :: "results \<Rightarrow> src_key \<Rightarrow> results \<times> value_err" where
  "rm_index rm k = (case rm k of Some p \<Rightarrow> (rm, p) | None \<Rightarrow> (rm(k \<mapsto> (0, 0)), (0, 0)))"

definition rm_get :: "results \<Rightarrow> src_key \<Rightarrow> value_err" where
  "rm_get rm k = snd (rm_index rm k)"

declare project_def [model_defs] resultsMap_def [model_defs] pv_project_def [model_defs]
  vertexResults_def [model_defs] rm_index_def [model_defs] rm_get_def [model_defs]

section \<open>One category\<close>

text \<open>
  Lines 395--488, one branch per category. \<open>bin\<close> is the section number as the
  \<open>int\<close> bin index, \<open>db_present\<close> whether the section's spot map has a "DB" entry
  (the guard of "Coordinate"), \<open>vr\<close> the vertex values. Except in "Coordinate",
  \<open>operator[]\<close> is only applied to keys the branch has checked, where it changes nothing
  (\<open>rm_get\<close>); the function returns the results map and the series.
\<close>

definition fill_category ::
  "int \<Rightarrow> bool \<Rightarrow> value_err list \<Rightarrow> category \<Rightarrow> results \<Rightarrow> histo \<Rightarrow> results \<times> histo" where
  "fill_category bin db_present vr c rm h =
    (let has = (\<lambda>k. rm k \<noteq> None); val = (\<lambda>k. fst (rm_get rm k)); err = (\<lambda>k. snd (rm_get rm k))
     in
     if c = Coordinate then
       (if db_present then (fst (rm_index rm DB), Fill h (fst (snd (rm_index rm DB)))) else (rm, h))
     else if c = PV_fit_DataBase then
       (rm, if has PV \<and> has DB then Fill h (val PV - val DB) else h)
     else if c = PV_fit_BeamFit then
       (rm, if has PV \<and> has BF then Fill h (val PV - val BF) else h)
     else if c = PV_fit_Online then
       (rm, if has PV \<and> has SC then Fill h (val PV - val SC) else h)
     else if c = PV_DataBase then
       (rm, if has PV \<and> has DB then fold (\<lambda>p h. Fill h (fst p - val DB)) vr h else h)
     else if c = PV_BeamFit then
       (rm, if has PV \<and> has BF then fold (\<lambda>p h. Fill h (fst p - val BF)) vr h else h)
     else if c = PV_Online then
       (rm, if has PV \<and> has SC then fold (\<lambda>p h. Fill h (fst p - val SC)) vr h else h)
     else if c = LB_BeamSpotFit then
       (rm, if has BF then set_bin h bin (val BF, err BF) else h)
     else if c = LB_PrimaryVertex then
       (rm, if has PV then set_bin h bin (val PV, err PV) else h)
     else if c = LB_DataBase then
       (rm, if has DB then set_bin h bin (val DB, err DB) else h)
     else if c = LB_Online then
       (rm, if has SC then set_bin h bin (val SC, err SC) else h)
     else if c = LB_PV_DataBase_fit then
       (rm, if has PV \<and> has DB then set_bin h bin (val PV - val DB, quad_sum (err PV) (err DB)) else h)
     else if c = LB_PV_Online_fit then
       (rm, if has PV \<and> has SC then set_bin h bin (val PV - val SC, quad_sum (err PV) (err SC)) else h)
     else if c = LB_Online_DataBase_fit then
       (rm, if has SC \<and> has DB then set_bin h bin (val SC - val DB, quad_sum (err SC) (err DB)) else h)
     else if c = LB_PV_DataBase then
       (rm, if has DB \<and> vr \<noteq> [] then
              fold (\<lambda>p h. set_bin h bin (fst p - val DB, quad_sum (snd p) (err DB))) vr h else h)
     else
       (rm, if has SC \<and> vr \<noteq> [] then
              fold (\<lambda>p h. set_bin h bin (fst p - val SC, quad_sum (snd p) (err SC))) vr h else h))"

section \<open>The category loop of one variable\<close>

text \<open>Lines 391--394: a null series is skipped.\<close>

definition end_lumi_step ::
  "int \<Rightarrow> bool \<Rightarrow> value_err list \<Rightarrow> scope \<times> category \<Rightarrow> results \<times> series \<Rightarrow> results \<times> series" where
  "end_lumi_step bin db_present vr sc_c st =
     (let c = snd sc_c; rm = fst st; hv = snd st in
      case hv c of
        None \<Rightarrow> (rm, hv)
      | Some h \<Rightarrow> (let r = fill_category bin db_present vr c rm h in (fst r, hv(c := Some (snd r)))))"

definition fill_variable ::
  "int \<Rightarrow> beam_spot_info \<Rightarrow> (scope \<times> category) list \<Rightarrow> var \<Rightarrow> series \<Rightarrow> series" where
  "fill_variable bin info cats v hv =
     snd (fold (end_lumi_step bin (beamSpotMap info DB \<noteq> None) (vertexResults v (vertices info)))
               cats (resultsMap v (beamSpotMap info), hv))"

text \<open>Lines 348--500: the variables in the order of \<open>varNamesV_\<close>.\<close>

definition fill_all_variables :: "int \<Rightarrow> beam_spot_info \<Rightarrow> (scope \<times> category) list \<Rightarrow> histos \<Rightarrow> histos" where
  "fill_all_variables bin info cats hs =
     fold (\<lambda>v hs. hs(v := fill_variable bin info cats v (hs v))) varNamesV hs"

declare fill_category_def [model_defs] end_lumi_step_def [model_defs] fill_variable_def [model_defs]
  fill_all_variables_def [model_defs]

section \<open>Each step writes its own series\<close>

text \<open>What one branch does to the results map: only "Coordinate" can change it.\<close>

definition rm_after :: "bool \<Rightarrow> category \<Rightarrow> results \<Rightarrow> results" where
  "rm_after db_present c rm = (if c = Coordinate \<and> db_present then fst (rm_index rm DB) else rm)"

lemma fill_category_rm: "fst (fill_category bin dbp vr c rm h) = rm_after dbp c rm"
  by (simp add: fill_category_def rm_after_def Let_def)

lemma rm_after_other [simp]: "c \<noteq> Coordinate \<Longrightarrow> rm_after dbp c rm = rm"
  by (simp add: rm_after_def)

lemma end_lumi_step_eq:
  "end_lumi_step bin dbp vr (sc, c) (rm, hv) =
     (if hv c = None then rm else rm_after dbp c rm,
      hv(c := map_option (\<lambda>h. snd (fill_category bin dbp vr c rm h)) (hv c)))"
  by (cases "hv c") (simp_all add: end_lumi_step_def Let_def fill_category_rm fun_upd_idem)

text \<open>
  A stretch of the table without "Coordinate" leaves the results map alone and fills
  each of its categories once, from the same results map.
\<close>

lemma fold_steps_no_coordinate:
  assumes "Coordinate \<notin> snd ` set cs" and "distinct (map snd cs)"
  shows "fold (end_lumi_step bin dbp vr) cs (rm, hv) =
     (rm, \<lambda>c. if c \<in> snd ` set cs
               then map_option (\<lambda>h. snd (fill_category bin dbp vr c rm h)) (hv c) else hv c)"
  using assms
proof (induction cs arbitrary: hv)
  case Nil
  then show ?case by simp
next
  case (Cons a cs)
  obtain sc c where a: "a = (sc, c)" by (cases a)
  with Cons.prems have "c \<noteq> Coordinate" "c \<notin> snd ` set cs" by auto
  with a Cons show ?case
    by (auto simp: end_lumi_step_eq fun_eq_iff)
qed

text \<open>
  The position of the categories in the table: the "lumi" ones come before "Coordinate",
  so they see the projected results; the ones after it see the results as "Coordinate"
  left them.
\<close>

definition rm_seen :: "var \<Rightarrow> beam_spot_info \<Rightarrow> histo option \<Rightarrow> category \<Rightarrow> results" where
  "rm_seen v info hc c =
     (let rm = resultsMap v (beamSpotMap info)
      in if category_scope c = Lumi \<or> c = Coordinate \<or> hc = None then rm
         else rm_after (beamSpotMap info DB \<noteq> None) Coordinate rm)"

definition lumi_part :: "(scope \<times> category) list" where
  "lumi_part = [(Lumi, LB_BeamSpotFit), (Lumi, LB_PrimaryVertex), (Lumi, LB_DataBase), (Lumi, LB_Online),
      (Lumi, LB_PV_DataBase_fit), (Lumi, LB_PV_Online_fit)]"

definition after_coordinate :: "(scope \<times> category) list" where
  "after_coordinate = [(Run, PV_fit_DataBase), (Run, PV_fit_BeamFit), (Run, PV_fit_Online),
      (Run, PV_DataBase), (Run, PV_BeamFit), (Run, PV_Online),
      (Validation, LB_Online_DataBase_fit), (Validation, LB_PV_DataBase),
      (Validation, LB_PV_Online)]"

lemma histoByCategoryNames_split:
  "histoByCategoryNames False = lumi_part @ (Run, Coordinate) # after_coordinate"
  by (simp add: histoByCategoryNames_eval lumi_part_def after_coordinate_def)

theorem fill_variable_at:
  "fill_variable bin info (histoByCategoryNames False) v hv c =
     map_option (\<lambda>h. snd (fill_category bin (beamSpotMap info DB \<noteq> None)
                                        (vertexResults v (vertices info)) c
                                        (rm_seen v info (hv Coordinate) c) h)) (hv c)"
proof -
  define dbp where "dbp = (beamSpotMap info DB \<noteq> None)"
  define vr where "vr = vertexResults v (vertices info)"
  define rm0 where "rm0 = resultsMap v (beamSpotMap info)"
  define f where "f = (\<lambda>rm c h. snd (fill_category bin dbp vr c rm h))"
  define hv1 where "hv1 = (\<lambda>c. if c \<in> snd ` set lumi_part then map_option (f rm0 c) (hv c) else hv c)"
  define rm1 where "rm1 = (if hv Coordinate = None then rm0 else rm_after dbp Coordinate rm0)"
  define hv2 where "hv2 = hv1(Coordinate := map_option (f rm0 Coordinate) (hv1 Coordinate))"
  have s1: "fold (end_lumi_step bin dbp vr) lumi_part (rm0, hv) = (rm0, hv1)"
    unfolding hv1_def f_def by (rule fold_steps_no_coordinate) (simp_all add: lumi_part_def)
  have c1: "hv1 Coordinate = hv Coordinate"
    by (simp add: hv1_def lumi_part_def)
  have s2: "end_lumi_step bin dbp vr (Run, Coordinate) (rm0, hv1) = (rm1, hv2)"
    by (simp add: end_lumi_step_eq c1 rm1_def hv2_def f_def)
  have s3: "fold (end_lumi_step bin dbp vr) after_coordinate (rm1, hv2) =
     (rm1, \<lambda>c. if c \<in> snd ` set after_coordinate then map_option (f rm1 c) (hv2 c) else hv2 c)"
    unfolding f_def by (rule fold_steps_no_coordinate) (simp_all add: after_coordinate_def)
  have "fill_variable bin info (histoByCategoryNames False) v hv =
     snd (fold (end_lumi_step bin dbp vr) (histoByCategoryNames False) (rm0, hv))"
    by (simp add: fill_variable_def dbp_def vr_def rm0_def)
  also have "\<dots> =
     (\<lambda>c. if c \<in> snd ` set after_coordinate then map_option (f rm1 c) (hv2 c) else hv2 c)"
    by (simp add: histoByCategoryNames_split s1 s2 s3)
  finally have "fill_variable bin info (histoByCategoryNames False) v hv =
     (\<lambda>c. if c \<in> snd ` set after_coordinate then map_option (f rm1 c) (hv2 c) else hv2 c)" .
  moreover have "rm_seen v info (hv Coordinate) c =
     (if category_scope c = Lumi \<or> c = Coordinate then rm0 else rm1)"
    by (simp add: rm_seen_def rm1_def rm0_def dbp_def Let_def)
  ultimately show ?thesis
    by (cases c) (simp_all add: hv2_def hv1_def f_def lumi_part_def after_coordinate_def
                                category_scope_def dbp_def vr_def)
qed

lemma fill_variable_perLS: "fill_variable bin info (histoByCategoryNames True) v hv = hv"
  by (simp add: fill_variable_def)

lemma fill_all_variables_at:
  "fill_all_variables bin info cats hs v = fill_variable bin info cats v (hs v)"
  by (cases v) (simp_all add: fill_all_variables_def varNamesV_def)

section \<open>Reading the results map\<close>

lemma resultsMap_at:
  "m k = Some b \<Longrightarrow> resultsMap v m k = (if bs_type b = Tracker then Some (project v b) else None)"
  by (simp add: resultsMap_def)

lemma resultsMap_None: "m k = None \<Longrightarrow> resultsMap v m k = None"
  by (simp add: resultsMap_def)

lemma rm_get_Some [simp]: "rm k = Some p \<Longrightarrow> rm_get rm k = p"
  by (simp add: rm_get_def rm_index_def)

lemma rm_after_Coordinate_present: "rm DB \<noteq> None \<Longrightarrow> rm_after dbp Coordinate rm = rm"
  by (auto simp: rm_after_def rm_index_def)

lemma rm_after_Coordinate_absent:
  "rm DB = None \<Longrightarrow> rm_after True Coordinate rm = rm(DB \<mapsto> (0, 0))"
  by (simp add: rm_after_def rm_index_def)

section \<open>The loops inside a category\<close>

lemma fold_set_bin_last:
  "fold (\<lambda>p h. set_bin h b (g p)) xs h = (if xs = [] then h else set_bin h b (g (last xs)))"
  by (induction xs arbitrary: h) (auto simp: set_bin_overwrite)

lemma fold_Fill: "fold (\<lambda>p h. Fill h (g p)) xs h = h\<lparr>h_fills := h_fills h @ map g xs\<rparr>"
  by (induction xs arbitrary: h) (simp_all add: Fill_def)

lemmas fill_loops = fold_set_bin_last fold_Fill

text \<open>Two histograms agree on every bin but \<open>bin\<close>.\<close>

definition agree_off :: "int \<Rightarrow> histo \<Rightarrow> histo \<Rightarrow> bool" where
  "agree_off bin h h' \<longleftrightarrow> (\<forall>b. b \<noteq> bin \<longrightarrow> h_content h' b = h_content h b \<and> h_error h' b = h_error h b)"

lemma agree_off_refl [simp]: "agree_off bin h h"
  by (simp add: agree_off_def)

lemma agree_off_trans: "agree_off bin h1 h2 \<Longrightarrow> agree_off bin h2 h3 \<Longrightarrow> agree_off bin h1 h3"
  by (simp add: agree_off_def)

lemma agree_off_set_bin [simp]: "agree_off bin h (set_bin h bin ve)"
  by (simp add: agree_off_def set_bin_content set_bin_error)

lemma agree_off_fills [simp]: "agree_off bin h (h\<lparr>h_fills := xs\<rparr>)"
  by (simp add: agree_off_def)

lemma agree_off_Fill [simp]: "agree_off bin h (Fill h x)"
  by (simp add: agree_off_def)

lemma fill_category_agree_off: "agree_off bin h (snd (fill_category bin dbp vr c rm h))"
  by (cases c) (simp_all add: fill_category_def Let_def fill_loops)

lemma fold_steps_agree_off:
  "hv c = Some h \<Longrightarrow> snd (fold (end_lumi_step bin dbp vr) cs (rm, hv)) c = Some h' \<Longrightarrow>
   agree_off bin h h'"
proof (induction cs arbitrary: rm hv h)
  case Nil
  then show ?case by simp
next
  case (Cons a cs)
  obtain sc c' where a: "a = (sc, c')" by (cases a)
  obtain rm1 hv1 where st: "end_lumi_step bin dbp vr (sc, c') (rm, hv) = (rm1, hv1)"
    by (cases "end_lumi_step bin dbp vr (sc, c') (rm, hv)")
  then obtain h1 where h1: "hv1 c = Some h1" and ag: "agree_off bin h h1"
    using Cons.prems(1)
    by (cases "c = c'") (auto simp: end_lumi_step_eq fill_category_agree_off)
  from Cons.prems(2) a st have "snd (fold (end_lumi_step bin dbp vr) cs (rm1, hv1)) c = Some h'"
    by simp
  with h1 have "agree_off bin h1 h'" by (rule Cons.IH)
  with ag show ?case by (rule agree_off_trans)
qed

text \<open>Filling a "lumi" or "validation" series twice from the same results is filling it once.\<close>

lemma fill_category_twice:
  "category_scope c \<noteq> Run \<Longrightarrow>
   snd (fill_category bin dbp vr c rm (snd (fill_category bin dbp vr c rm h))) = snd (fill_category bin dbp vr c rm h)"
  by (cases c) (simp_all add: category_scope_def fill_category_def Let_def fill_loops set_bin_idem)

section \<open>Properties of the consistency engine\<close>

text \<open>
  C1. When the vertex fit and the database both delivered a spot of type Tracker, the
  section's bin of the "PrimaryVertex-DataBase fit" series holds the difference of the
  two values and, as its error, the two errors summed in quadrature; no other bin of the
  series changes.
\<close>

theorem lumi_fit_difference:
  assumes "beamSpotMap info PV = Some p" and "bs_type p = Tracker"
    and "beamSpotMap info DB = Some d" and "bs_type d = Tracker"
    and "hv LB_PV_DataBase_fit = Some h" and "bin_in_range h bin"
  shows "\<exists>h'. fill_variable bin info (histoByCategoryNames False) v hv LB_PV_DataBase_fit = Some h' \<and>
           h_content h' bin = fst (project v p) - fst (project v d) \<and>
           h_error h' bin = quad_sum (snd (project v p)) (snd (project v d)) \<and>
           agree_off bin h h'"
proof -
  have pv: "resultsMap v (beamSpotMap info) PV = Some (project v p)"
    and db: "resultsMap v (beamSpotMap info) DB = Some (project v d)"
    using assms(1-4) by (simp_all add: resultsMap_at)
  show ?thesis
    using assms(5,6) pv db
    by (simp add: fill_variable_at rm_seen_def category_scope_def fill_category_def
                  set_bin_content set_bin_error)
qed

text \<open>
  C2. A difference series has a gap, not a zero, in a section where one of its operands
  is missing or not of type Tracker: the "PrimaryVertex-DataBase fit" series is left as
  it was.
\<close>

theorem lumi_series_gap:
  assumes "resultsMap v (beamSpotMap info) PV = None \<or> resultsMap v (beamSpotMap info) DB = None"
  shows "fill_variable bin info (histoByCategoryNames False) v hv LB_PV_DataBase_fit =
           hv LB_PV_DataBase_fit"
  using assms
  by (cases "hv LB_PV_DataBase_fit")
     (auto simp: fill_variable_at rm_seen_def category_scope_def fill_category_def)

text \<open>
  C3. A database spot that is present but not of type Tracker is read as zero by the
  validation series: "Coordinate" inserts a (0, 0) "DB" entry into the results, so the
  "Online-DataBase fit" bin holds the online value itself, with the online error, while
  the "Lumibased DataBase" series of the same section stays empty.
\<close>

theorem phantom_database_entry:
  assumes "beamSpotMap info DB = Some d" and "bs_type d \<noteq> Tracker"
    and "beamSpotMap info SC = Some s" and "bs_type s = Tracker"
    and "hv Coordinate \<noteq> None"
    and "hv LB_Online_DataBase_fit = Some h" and "bin_in_range h bin"
  shows "(\<exists>h'. fill_variable bin info (histoByCategoryNames False) v hv LB_Online_DataBase_fit = Some h' \<and>
            h_content h' bin = fst (project v s) \<and> h_error h' bin = \<bar>snd (project v s)\<bar>) \<and>
         fill_variable bin info (histoByCategoryNames False) v hv LB_DataBase = hv LB_DataBase"
proof -
  let ?rm = "resultsMap v (beamSpotMap info)"
  have db: "?rm DB = None" and sc: "?rm SC = Some (project v s)"
    using assms(1-4) by (simp_all add: resultsMap_at)
  then have seen: "rm_seen v info (hv Coordinate) LB_Online_DataBase_fit = ?rm(DB \<mapsto> (0, 0))"
    using assms(1,5) by (auto simp: rm_seen_def category_scope_def Let_def rm_after_Coordinate_absent)
  show ?thesis
    using assms(6,7) db sc seen
    by (cases "hv LB_DataBase")
       (simp_all add: fill_variable_at rm_seen_def category_scope_def fill_category_def
                      set_bin_content set_bin_error)
qed

text \<open>
  C4. The per-vertex validation series "PrimaryVertex-DataBase" writes the same bin once
  per sampled vertex, so the section's bin ends up holding only the last vertex's
  difference to the database value, with the quadrature error of that vertex.
\<close>

theorem validation_vertex_last_wins:
  assumes "beamSpotMap info DB = Some d" and "bs_type d = Tracker"
    and "vertexResults v (vertices info) \<noteq> []"
    and "hv LB_PV_DataBase = Some h"
  shows "fill_variable bin info (histoByCategoryNames False) v hv LB_PV_DataBase =
     Some (set_bin h bin (fst (last (vertexResults v (vertices info))) - fst (project v d),
                          quad_sum (snd (last (vertexResults v (vertices info)))) (snd (project v d))))"
proof -
  have db: "resultsMap v (beamSpotMap info) DB = Some (project v d)"
    using assms(1,2) by (simp add: resultsMap_at)
  then have "rm_seen v info (hv Coordinate) LB_PV_DataBase = resultsMap v (beamSpotMap info)"
    by (simp add: rm_seen_def Let_def rm_after_Coordinate_present)
  with assms(3,4) db show ?thesis
    by (simp add: fill_variable_at fill_category_def fold_set_bin_last)
qed

text \<open>
  C5. Closing a section changes, in every "lumi" and "validation" series, at most the bin
  of that section: the bins of all other sections keep their contents and errors.
\<close>

theorem fill_variable_bins_local:
  assumes "category_scope c \<noteq> Run" and "hv c = Some h" and "fill_variable bin info cats v hv c = Some h'"
    and "b \<noteq> bin"
  shows "h_content h' b = h_content h b \<and> h_error h' b = h_error h b"
proof -
  have "agree_off bin h h'"
    using assms(2,3) unfolding fill_variable_def by (rule fold_steps_agree_off)
  with assms(4) show ?thesis by (simp add: agree_off_def)
qed

text \<open>
  C6. Running the end-of-section fill twice with the same cache leaves every "lumi" and
  "validation" series exactly as one run left it: the re-close overwrites the section's
  bin with the same value and error, as the spec's idempotent append requires.
\<close>

theorem fill_variable_idempotent_bins:
  assumes "category_scope c \<noteq> Run"
    and "fill_variable bin info (histoByCategoryNames False) v hv c = Some h1"
    and "fill_variable bin info (histoByCategoryNames False) v
           (fill_variable bin info (histoByCategoryNames False) v hv) c = Some h2"
  shows "h2 = h1"
proof -
  let ?F = "fill_variable bin info (histoByCategoryNames False) v"
  have coord: "(?F hv Coordinate = None) = (hv Coordinate = None)"
    by (simp add: fill_variable_at)
  then have "rm_seen v info (?F hv Coordinate) c = rm_seen v info (hv Coordinate) c"
    by (simp add: rm_seen_def)
  with assms show ?thesis
    by (auto simp: fill_variable_at fill_category_twice)
qed

end
