(* ===== verification/SeriesSpec.thy ===== *)
theory SeriesSpec
  imports Consistency
begin

text \<open>
  The contract of the per-section series (the spec's SeriesStore and its Table 1): a
  series is viewed as a map from bins to (value, error) pairs; closing a section appends
  to each per-section category the value the table gives for it, computed from the
  projections of the sources of type Tracker, or leaves a gap when an operand is
  missing; the "run" folder's series receive the table's values as fills. The theorems
  of this theory show that the consistency engine of theory Consistency implements this
  contract for the "lumi" folder and, when the database spot is absent or of type
  Tracker, for the "run" folder; and that the database payload reads back unchanged
  through the translation and the projection.
\<close>

section \<open>The abstract store\<close>

definition bin_view :: "histo \<Rightarrow> int \<Rightarrow> value_err" where
  "bin_view h = (\<lambda>b. (h_content h b, h_error h b))"

definition store_append :: "histo \<Rightarrow> int \<Rightarrow> value_err option \<Rightarrow> int \<Rightarrow> value_err" where
  "store_append h bin e =
     (case e of
        None \<Rightarrow> bin_view h
      | Some ve \<Rightarrow> if bin_in_range h bin then (bin_view h)(bin := ve) else bin_view h)"

text \<open>A difference entry: both operands present, the difference of the values and the
  errors summed in quadrature.\<close>

definition diff_entry :: "results \<Rightarrow> src_key \<Rightarrow> src_key \<Rightarrow> value_err option" where
  "diff_entry rm a b =
     (case (rm a, rm b) of
        (Some (x, e), Some (y, f)) \<Rightarrow> Some (x - y, quad_sum e f)
      | _ \<Rightarrow> None)"

text \<open>Table 1 for the per-section categories.\<close>

definition spec_entry :: "category \<Rightarrow> results \<Rightarrow> value_err option" where
  "spec_entry c rm =
     (case c of
        LB_BeamSpotFit \<Rightarrow> rm BF
      | LB_PrimaryVertex \<Rightarrow> rm PV
      | LB_DataBase \<Rightarrow> rm DB
      | LB_Online \<Rightarrow> rm SC
      | LB_PV_DataBase_fit \<Rightarrow> diff_entry rm PV DB
      | LB_PV_Online_fit \<Rightarrow> diff_entry rm PV SC
      | LB_Online_DataBase_fit \<Rightarrow> diff_entry rm SC DB
      | _ \<Rightarrow> None)"

text \<open>
  Table 1 for the "run" folder: each series receives values (its binning is display
  only): the database value, a fit difference, or one difference per sampled vertex.
\<close>

definition diff_value :: "results \<Rightarrow> src_key \<Rightarrow> src_key \<Rightarrow> real list" where
  "diff_value rm a b =
     (case (rm a, rm b) of (Some (x, _), Some (y, _)) \<Rightarrow> [x - y] | _ \<Rightarrow> [])"

definition vertex_diffs :: "results \<Rightarrow> src_key \<Rightarrow> value_err list \<Rightarrow> real list" where
  "vertex_diffs rm b vr = (case rm b of Some (y, _) \<Rightarrow> map (\<lambda>p. fst p - y) vr | None \<Rightarrow> [])"

definition run_spec_entries :: "category \<Rightarrow> results \<Rightarrow> value_err list \<Rightarrow> real list" where
  "run_spec_entries c rm vr =
     (case c of
        Coordinate \<Rightarrow> (case rm DB of Some (y, _) \<Rightarrow> [y] | None \<Rightarrow> [])
      | PV_fit_DataBase \<Rightarrow> diff_value rm PV DB
      | PV_fit_BeamFit \<Rightarrow> diff_value rm PV BF
      | PV_fit_Online \<Rightarrow> diff_value rm PV SC
      | PV_DataBase \<Rightarrow> vertex_diffs rm DB vr
      | PV_BeamFit \<Rightarrow> vertex_diffs rm BF vr
      | PV_Online \<Rightarrow> vertex_diffs rm SC vr
      | _ \<Rightarrow> [])"

section \<open>Refinement\<close>

lemma bin_view_set_bin:
  "bin_view (set_bin h b ve) = (if bin_in_range h b then (bin_view h)(b := ve) else bin_view h)"
  by (auto simp: bin_view_def set_bin_content set_bin_error)

lemma fill_category_lumi:
  assumes "category_scope c = Lumi"
  shows "bin_view (snd (fill_category bin dbp vr c rm h)) = store_append h bin (spec_entry c rm) \<and>
         h_fills (snd (fill_category bin dbp vr c rm h)) = h_fills h \<and>
         h_nbins (snd (fill_category bin dbp vr c rm h)) = h_nbins h"
  using assms
  by (cases c)
     (auto simp: category_scope_def fill_category_def spec_entry_def store_append_def diff_entry_def
                 bin_view_set_bin split: option.split)

text \<open>
  C20. Refinement of the SeriesStore contract: for every category of the "lumi" folder,
  closing a section changes the series' bin view exactly as appending the Table 1 entry
  at the section's bin (nothing when the entry is a gap, nothing outside ROOT's bin
  range), and leaves its fills and binning alone.
\<close>

lemma fill_category_run:
  assumes "category_scope c = Run" and "dbp \<longleftrightarrow> rm DB \<noteq> None"
  shows "h_fills (snd (fill_category bin dbp vr c rm h)) =
           h_fills h @ (if is_run_vertex_diff c \<and> rm PV = None then [] else run_spec_entries c rm vr)"
  using assms
  by (cases c)
     (auto simp: category_scope_def fill_category_def run_spec_entries_def diff_value_def
           vertex_diffs_def is_run_vertex_diff_def fill_loops bin_view_def rm_index_def
           split: option.split)

theorem lumi_series_refines_spec:
  assumes "category_scope c = Lumi" and "hv c = Some h"
  shows "\<exists>h'. fill_variable bin info (histoByCategoryNames False) v hv c = Some h' \<and>
           bin_view h' = store_append h bin (spec_entry c (resultsMap v (beamSpotMap info))) \<and>
           h_fills h' = h_fills h \<and> h_nbins h' = h_nbins h"
  using assms fill_category_lumi [OF assms(1)]
  by (simp add: fill_variable_at rm_seen_def)


text \<open>
  C27. Refinement for the "run" folder: when the database spot is absent or of type
  Tracker, closing a section appends to every run series' values exactly the Table 1
  entries, in order, except that the per-vertex categories also require the vertex fit
  (PV) to be present, a condition the spec does not have.
\<close>

theorem run_series_refines_spec:
  assumes "category_scope c = Run" and "hv c = Some h"
    and "\<forall>d. beamSpotMap info DB = Some d \<longrightarrow> bs_type d = Tracker"
  shows "\<exists>h'. fill_variable bin info (histoByCategoryNames False) v hv c = Some h' \<and>
           h_fills h' = h_fills h @
             (if is_run_vertex_diff c \<and> resultsMap v (beamSpotMap info) PV = None then []
              else run_spec_entries c (resultsMap v (beamSpotMap info)) (vertexResults v (vertices info)))"
proof -
  let ?rm = "resultsMap v (beamSpotMap info)"
  have db: "beamSpotMap info DB \<noteq> None \<longleftrightarrow> ?rm DB \<noteq> None"
    using assms(3) by (cases "beamSpotMap info DB") (simp_all add: resultsMap_def)
  have "rm_seen v info (hv Coordinate) c = ?rm"
    using db by (auto simp: rm_seen_def Let_def rm_after_def rm_index_def)
  then show ?thesis
    using assms(1,2) fill_category_run [where rm = ?rm and dbp = "beamSpotMap info DB \<noteq> None"
        and bin = bin and vr = "vertexResults v (vertices info)" and h = h, OF assms(1) db]
    by (simp add: fill_variable_at)
qed

section \<open>Reading back the database payload\<close>

text \<open>
  C23. Round trip of the database payload: translating a BeamSpotObjects payload into a
  beam spot (globalBeginLuminosityBlock, lines 241--268) and projecting it on a variable
  (lines 354--365) gives back the payload's value and the square root of its diagonal
  covariance entry (entry 6 for both widths, as reco::BeamSpot reads it), and the spot is
  of type Tracker exactly when the payload's beam type is 2.
\<close>

theorem db_payload_roundtrip:
  "project v (spot_from_db d) =
     (case v of
        X \<Rightarrow> (db_x d, sqrt (db_cov d 0 0))
      | Y \<Rightarrow> (db_y d, sqrt (db_cov d 1 1))
      | Z \<Rightarrow> (db_z d, sqrt (db_cov d 2 2))
      | SigmaX \<Rightarrow> (db_width_x d, sqrt (db_cov d 6 6))
      | SigmaY \<Rightarrow> (db_width_y d, sqrt (db_cov d 6 6))
      | SigmaZ \<Rightarrow> (db_sigma_z d, sqrt (db_cov d 3 3))) \<and>
   (bs_type (spot_from_db d) = Tracker \<longleftrightarrow> db_beam_type d = 2)"
  by (cases v)
     (simp_all add: project_def spot_from_db_def make_beam_spot_def copy_covariance_def
        beam_dimension_def Let_def x0Error_def y0Error_def z0Error_def sigmaZ0Error_def
        BeamWidthXError_def BeamWidthYError_def)

end
