(* ===== verification/RangeNormalizer.thy ===== *)
theory RangeNormalizer
  imports Catalog
begin

text \<open>
  The range normaliser: the histogram part of dqmEndRun (AlcaBeamMonitor.cc lines
  513--589). For each variable and each folder other than "run", a first pass scans every
  non-empty bin (\<open>GetBinError != 0 || GetBinContent != 0\<close>) of every series of the
  folder, pooling the "absolute" categories into one running (min, max) and the
  "difference" categories into another, both started at \<open>\<plusminus>bigNumber\<close>. A second pass
  sets each series' display bounds from its group's pair, padded by 0.1 (absolute) or 2
  (difference) times the spread, or widens the series' own \<open>GetMinimum\<close>/\<open>GetMaximum\<close>
  by 0.01 when the group saw no bin or a single value; finally it sets the section axis.
\<close>

section \<open>Definitions\<close>

definition bigNumber :: real where
  "bigNumber = 1000000"

definition is_abs_cat :: "category \<Rightarrow> bool" where
  "is_abs_cat c \<longleftrightarrow> c \<in> {LB_BeamSpotFit, LB_PrimaryVertex, LB_DataBase, LB_Online}"

definition is_delta_cat :: "category \<Rightarrow> bool" where
  "is_delta_cat c \<longleftrightarrow>
     c \<in> {LB_PV_DataBase_fit, LB_PV_Online_fit, LB_Online_DataBase_fit, LB_PV_DataBase, LB_PV_Online}"

text \<open>Line 527: the test for a non-empty bin.\<close>

definition bin_filled :: "histo \<Rightarrow> int \<Rightarrow> bool" where
  "bin_filled h b \<longleftrightarrow> GetBinError h b \<noteq> 0 \<or> h_content h b \<noteq> 0"

text \<open>The running \<open>(min, max, minDelta, maxDelta)\<close> of lines 516--519.\<close>

type_synonym extremes = "real \<times> real \<times> real \<times> real"

definition init_extremes :: extremes where
  "init_extremes = (bigNumber, - bigNumber, bigNumber, - bigNumber)"

text \<open>Lines 527--552: one bin.\<close>

definition scan_bin :: "category \<Rightarrow> histo \<Rightarrow> int \<Rightarrow> extremes \<Rightarrow> extremes" where
  "scan_bin c h b st =
     (case st of (mn, mx, mnD, mxD) \<Rightarrow>
        if bin_filled h b then
          (let v = h_content h b in
           if is_abs_cat c then (lower_to v mn, raise_to v mx, mnD, mxD)
           else if is_delta_cat c then (mn, mx, lower_to v mnD, raise_to v mxD)
           else st)
        else st)"

text \<open>Lines 523--555: every non-null series of the folder, every bin.\<close>

definition scan_series :: "category list \<Rightarrow> series \<Rightarrow> extremes \<Rightarrow> extremes" where
  "scan_series cats hv st =
     fold (\<lambda>c st. case hv c of None \<Rightarrow> st | Some h \<Rightarrow> fold (scan_bin c h) (histo_bins h) st) cats st"

text \<open>Lines 561--567 (and 573--579): one group's bounds, or the fallback.\<close>

definition pad_bounds :: "real \<Rightarrow> real \<Rightarrow> real \<Rightarrow> histo \<Rightarrow> histo" where
  "pad_bounds k mn mx h =
     (if (mx = - bigNumber \<and> mn = bigNumber) \<or> mx - mn = 0 then
        (let h1 = SetMinimum h (GetMinimum h - 0.01) in SetMaximum h1 (GetMaximum h1 + 0.01))
      else SetMaximum (SetMinimum h (mn - k * (mx - mn))) (mx + k * (mx - mn)))"

text \<open>Lines 558--585: one series of the second pass.\<close>

definition set_bounds :: "int \<Rightarrow> int \<Rightarrow> extremes \<Rightarrow> category \<Rightarrow> histo \<Rightarrow> histo" where
  "set_bounds firstLumi lastLumi st c h =
     (case st of (mn, mx, mnD, mxD) \<Rightarrow>
        let h' = (if is_abs_cat c then pad_bounds 0.1 mn mx h
                  else if is_delta_cat c then pad_bounds 2 mnD mxD h
                  else h)
        in SetRangeUser h' (of_int firstLumi - 0.5) (of_int lastLumi + 0.5))"

text \<open>
  The categories of one folder. \<open>histosMap_[v][scope]\<close> is a \<open>std::map\<close> keyed by the
  category name; both passes only take minima and maxima or write each series once, so
  the order of the visit does not matter and the model visits the folder's categories in
  table order.
\<close>

definition scope_categories :: "bool \<Rightarrow> scope \<Rightarrow> category list" where
  "scope_categories perLSsaving sc = map snd (filter (\<lambda>x. fst x = sc) (histoByCategoryNames perLSsaving))"

definition normalize_scope :: "bool \<Rightarrow> int \<Rightarrow> int \<Rightarrow> scope \<Rightarrow> series \<Rightarrow> series" where
  "normalize_scope perLSsaving firstLumi lastLumi sc hv =
     (let cats = scope_categories perLSsaving sc;
          st = scan_series cats hv init_extremes
      in fold (\<lambda>c hv. hv(c := map_option (set_bounds firstLumi lastLumi st c) (hv c))) cats hv)"

text \<open>Lines 514--522: the folders of a variable in map order, "run" skipped.\<close>

definition scopes_of :: "bool \<Rightarrow> scope list" where
  "scopes_of perLSsaving = remdups (map fst (histoByCategoryNames perLSsaving))"

definition normalize_variable :: "bool \<Rightarrow> int \<Rightarrow> int \<Rightarrow> series \<Rightarrow> series" where
  "normalize_variable perLSsaving firstLumi lastLumi hv =
     fold (\<lambda>sc hv. if sc \<noteq> Run then normalize_scope perLSsaving firstLumi lastLumi sc hv else hv)
          (scopes_of perLSsaving) hv"

declare bigNumber_def [model_defs] is_abs_cat_def [model_defs] is_delta_cat_def [model_defs]
  bin_filled_def [model_defs] init_extremes_def [model_defs] scan_bin_def [model_defs]
  scan_series_def [model_defs] pad_bounds_def [model_defs] set_bounds_def [model_defs]
  scope_categories_def [model_defs] normalize_scope_def [model_defs] scopes_of_def [model_defs]
  normalize_variable_def [model_defs]

section \<open>The scan computes the group extremes\<close>

text \<open>
  The values the scan sees: the contents of the non-empty bins of one series, and of
  every series of a group (absolute or difference) of a folder.
\<close>

definition filled_values :: "histo \<Rightarrow> int list \<Rightarrow> real list" where
  "filled_values h bs = map (h_content h) (filter (bin_filled h) bs)"

definition group_list :: "(category \<Rightarrow> bool) \<Rightarrow> category list \<Rightarrow> series \<Rightarrow> real list" where
  "group_list g cats hv =
     concat (map (\<lambda>c. if g c then (case hv c of None \<Rightarrow> [] | Some h \<Rightarrow> filled_values h (histo_bins h))
                       else []) cats)"

text \<open>The extremes the first pass leaves for a folder.\<close>

definition scope_extremes :: "bool \<Rightarrow> scope \<Rightarrow> series \<Rightarrow> extremes" where
  "scope_extremes p sc hv =
     (let A = set (group_list is_abs_cat (scope_categories p sc) hv);
          D = set (group_list is_delta_cat (scope_categories p sc) hv)
      in (Min (insert bigNumber A), Max (insert (- bigNumber) A),
          Min (insert bigNumber D), Max (insert (- bigNumber) D)))"


lemma abs_delta_disjoint: "is_abs_cat c \<Longrightarrow> \<not> is_delta_cat c"
  by (auto simp: is_abs_cat_def is_delta_cat_def)

lemma delta_not_abs: "is_delta_cat c \<Longrightarrow> \<not> is_abs_cat c"
  by (auto simp: is_abs_cat_def is_delta_cat_def)

lemma fold_scan_bin_fold:
  "fold (scan_bin c h) bs (mn, mx, mnD, mxD) =
     (if is_abs_cat c then
        (fold (\<lambda>v m. min m v) (filled_values h bs) mn, fold (\<lambda>v m. max m v) (filled_values h bs) mx,
         mnD, mxD)
      else if is_delta_cat c then
        (mn, mx, fold (\<lambda>v m. min m v) (filled_values h bs) mnD,
         fold (\<lambda>v m. max m v) (filled_values h bs) mxD)
      else (mn, mx, mnD, mxD))"
  by (induction bs arbitrary: mn mx mnD mxD)
     (simp_all add: scan_bin_def filled_values_def Let_def abs_delta_disjoint)

lemma set_filled_values: "set (filled_values h bs) = h_content h ` {b \<in> set bs. bin_filled h b}"
  by (auto simp: filled_values_def)

lemma fold_scan_bin:
  "fold (scan_bin c h) bs (mn, mx, mnD, mxD) =
     (if is_abs_cat c then
        (Min (insert mn (h_content h ` {b \<in> set bs. bin_filled h b})),
         Max (insert mx (h_content h ` {b \<in> set bs. bin_filled h b})), mnD, mxD)
      else if is_delta_cat c then
        (mn, mx, Min (insert mnD (h_content h ` {b \<in> set bs. bin_filled h b})),
         Max (insert mxD (h_content h ` {b \<in> set bs. bin_filled h b})))
      else (mn, mx, mnD, mxD))"
  by (simp add: fold_scan_bin_fold fold_min_Min fold_max_Max set_filled_values)

lemma scan_series_Nil [simp]: "scan_series [] hv st = st"
  by (simp add: scan_series_def)

lemma scan_series_Cons:
  "scan_series (c # cats) hv st =
     scan_series cats hv (case hv c of None \<Rightarrow> st | Some h \<Rightarrow> fold (scan_bin c h) (histo_bins h) st)"
  by (simp add: scan_series_def)

lemma scan_series_fold:
  "scan_series cats hv (mn, mx, mnD, mxD) =
     (fold (\<lambda>v m. min m v) (group_list is_abs_cat cats hv) mn,
      fold (\<lambda>v m. max m v) (group_list is_abs_cat cats hv) mx,
      fold (\<lambda>v m. min m v) (group_list is_delta_cat cats hv) mnD,
      fold (\<lambda>v m. max m v) (group_list is_delta_cat cats hv) mxD)"
proof (induction cats arbitrary: mn mx mnD mxD)
  case Nil
  then show ?case by (simp add: group_list_def)
next
  case (Cons c cats)
  then show ?case
    by (cases "hv c") (auto simp: scan_series_Cons group_list_def fold_scan_bin_fold abs_delta_disjoint)
qed

lemma scan_series_extremes:
  "scan_series (scope_categories p sc) hv init_extremes = scope_extremes p sc hv"
  by (simp add: init_extremes_def scan_series_fold scope_extremes_def fold_min_Min fold_max_Max Let_def)

section \<open>The second pass\<close>

lemma validation_categories:
  "scope_categories False Validation = [LB_Online_DataBase_fit, LB_PV_DataBase, LB_PV_Online]"
  by (simp add: scope_categories_def histoByCategoryNames_eval)

lemma lumi_categories_False:
  "scope_categories False Lumi = [LB_BeamSpotFit, LB_PrimaryVertex, LB_DataBase, LB_Online,
     LB_PV_DataBase_fit, LB_PV_Online_fit]"
  by (simp add: scope_categories_def histoByCategoryNames_eval)

lemma distinct_scope_categories: "distinct (scope_categories p sc)"
  using distinct_categories [of p] by (simp add: scope_categories_def distinct_map_filter)

lemma normalize_scope_at:
  "normalize_scope p firstLumi lastLumi sc hv c =
     (if c \<in> set (scope_categories p sc)
      then map_option (set_bounds firstLumi lastLumi (scope_extremes p sc hv) c) (hv c) else hv c)"
proof -
  have "fold (\<lambda>c hv. hv(c := map_option (set_bounds firstLumi lastLumi (scope_extremes p sc hv0) c) (hv c)))
          (scope_categories p sc) hv0 =
        (\<lambda>c. if c \<in> set (scope_categories p sc)
             then map_option (set_bounds firstLumi lastLumi (scope_extremes p sc hv0) c) (hv0 c) else hv0 c)"
    for hv0
    by (rule fold_update_distinct [OF distinct_scope_categories])
  then show ?thesis
    by (simp add: normalize_scope_def Let_def scan_series_extremes)
qed

lemma set_bounds_abs:
  "is_abs_cat c \<Longrightarrow> set_bounds f l (mn, mx, mnD, mxD) c h =
     SetRangeUser (pad_bounds 0.1 mn mx h) (of_int f - 0.5) (of_int l + 0.5)"
  by (simp add: set_bounds_def)

lemma set_bounds_delta:
  "is_delta_cat c \<Longrightarrow> set_bounds f l (mn, mx, mnD, mxD) c h =
     SetRangeUser (pad_bounds 2 mnD mxD h) (of_int f - 0.5) (of_int l + 0.5)"
  by (simp add: set_bounds_def delta_not_abs)

text \<open>A group's extremes bound each of its values.\<close>

lemma group_list_mem:
  assumes "c \<in> set cats" and "g c" and "hv c = Some h" and "b \<in> set (histo_bins h)" and "bin_filled h b"
  shows "h_content h b \<in> set (group_list g cats hv)"
proof -
  have "h_content h b \<in> set (filled_values h (histo_bins h))"
    using assms(4,5) by (simp add: filled_values_def)
  with assms(1-3) show ?thesis
    by (force simp: group_list_def)
qed

lemma Min_Max_insert_bounds:
  "v \<in> A \<Longrightarrow> finite A \<Longrightarrow> Min (insert a A) \<le> v \<and> v \<le> Max (insert a' A)"
  by simp

text \<open>
  Within \<open>\<plusminus>bigNumber\<close> the sentinels drop out: a non-empty group's extremes are the
  least and greatest of its values.
\<close>

lemma Min_insert_big:
  assumes "A \<noteq> {}" and "finite A" and "\<forall>v\<in>A. v < bigNumber"
  shows "Min (insert bigNumber A) = Min A"
proof -
  have lt: "Min A < bigNumber" using assms Min_in by blast
  have "Min (insert bigNumber A) = min bigNumber (Min A)" using assms(2,1) by (rule Min.insert)
  with lt show ?thesis by (metis min.absorb2 less_imp_le)
qed

lemma Max_insert_big:
  assumes "A \<noteq> {}" and "finite A" and "\<forall>v\<in>A. - bigNumber < v"
  shows "Max (insert (- bigNumber) A) = Max A"
proof -
  have lt: "- bigNumber < Max A" using assms Max_in by blast
  have "Max (insert (- bigNumber) A) = max (- bigNumber) (Max A)" using assms(2,1) by (rule Max.insert)
  with lt show ?thesis by (metis max.absorb2 less_imp_le)
qed

text \<open>
  Either branch of the padding gives bounds that contain a value \<open>v\<close> of the series
  lying between the group's extremes, and a range of positive width.
\<close>

lemma pad_bounds_contains:
  assumes "mn \<le> h_content h b" and "h_content h b \<le> mx" and "0 \<le> k"
    and "b \<in> set (histo_bins h)" and "\<bar>h_content h b\<bar> < FLT_MAX"
    and "h_minimum h = None" and "h_maximum h = None"
  shows "\<exists>lo hi. h_minimum (pad_bounds k mn mx h) = Some lo \<and> h_maximum (pad_bounds k mn mx h) = Some hi \<and>
           lo \<le> h_content h b \<and> h_content h b \<le> hi \<and> lo < hi"
proof (cases "(mx = - bigNumber \<and> mn = bigNumber) \<or> mx - mn = 0")
  case True
  have "GetMinimum h \<le> h_content h b"
    using assms(4-6) by (intro GetMinimum_le) auto
  moreover have "h_content h b \<le> GetMaximum h"
    using assms(4,5,7) by (intro GetMaximum_ge) auto
  ultimately show ?thesis
    using True by (simp add: pad_bounds_def Let_def)
next
  case False
  with assms(1,2) have lt: "mn < mx" by auto
  define d where "d = k * (mx - mn)"
  from assms(3) lt have "0 \<le> d" by (simp add: d_def)
  with lt assms(1,2) have "mn - d \<le> h_content h b" "h_content h b \<le> mx + d" "mn - d < mx + d"
    by linarith+
  moreover have "pad_bounds k mn mx h = SetMaximum (SetMinimum h (mn - d)) (mx + d)"
    unfolding pad_bounds_def by (subst if_not_P [OF False]) (simp add: d_def)
  ultimately show ?thesis by simp
qed

section \<open>Properties of the range normaliser\<close>

text \<open>
  C7. After the end-of-run pass, every series of the "lumi" and "validation" folders that
  had no bounds before gets a lower and an upper display bound, of positive width, that
  contain every non-empty bin of the series (within the float range).
\<close>

theorem normalize_bounds_contain:
  assumes "hv c = Some h" and "c \<in> set (scope_categories p sc)" and "is_abs_cat c \<or> is_delta_cat c"
    and "b \<in> set (histo_bins h)" and "bin_filled h b" and "\<bar>h_content h b\<bar> < FLT_MAX"
    and "h_minimum h = None" and "h_maximum h = None"
  shows "\<exists>h' lo hi. normalize_scope p firstLumi lastLumi sc hv c = Some h' \<and>
           h_minimum h' = Some lo \<and> h_maximum h' = Some hi \<and>
           lo \<le> h_content h b \<and> h_content h b \<le> hi \<and> lo < hi"
proof -
  let ?cats = "scope_categories p sc"
  let ?A = "set (group_list is_abs_cat ?cats hv)" and ?D = "set (group_list is_delta_cat ?cats hv)"
  obtain mn mx mnD mxD where st: "scope_extremes p sc hv = (mn, mx, mnD, mxD)"
    by (cases "scope_extremes p sc hv") auto
  then have ext: "mn = Min (insert bigNumber ?A)" "mx = Max (insert (- bigNumber) ?A)"
    "mnD = Min (insert bigNumber ?D)" "mxD = Max (insert (- bigNumber) ?D)"
    by (simp_all add: scope_extremes_def Let_def)
  have res: "normalize_scope p firstLumi lastLumi sc hv c =
               Some (set_bounds firstLumi lastLumi (mn, mx, mnD, mxD) c h)"
    using assms(1,2) st by (simp add: normalize_scope_at)
  show ?thesis
  proof (cases "is_abs_cat c")
    case True
    have "h_content h b \<in> ?A"
      using assms(1,2,4,5) True by (intro group_list_mem) auto
    then have "mn \<le> h_content h b \<and> h_content h b \<le> mx"
      unfolding ext by (meson Min_le Max_ge finite_set finite_insert insertI2)
    then show ?thesis
      using pad_bounds_contains [of mn h b mx "0.1"] assms(4,6-8) res True
      by (simp add: set_bounds_abs)
  next
    case False
    with assms(3) have d: "is_delta_cat c" by simp
    have "h_content h b \<in> ?D"
      using assms(1,2,4,5) d by (intro group_list_mem) auto
    then have "mnD \<le> h_content h b \<and> h_content h b \<le> mxD"
      unfolding ext by (meson Min_le Max_ge finite_set finite_insert insertI2)
    then show ?thesis
      using pad_bounds_contains [of mnD h b mxD 2] assms(4,6-8) res d
      by (simp add: set_bounds_delta)
  qed
qed

text \<open>
  C8. When the difference values of a folder are within \<open>\<plusminus>bigNumber\<close> and not all
  equal, each difference series gets the bounds \<open>min - 2 (max - min)\<close> and
  \<open>max + 2 (max - min)\<close> of the folder's pooled difference values, and the section axis
  \<open>[firstLumi - 0.5, lastLumi + 0.5]\<close>.
\<close>

theorem normalize_delta_bounds:
  fixes p :: bool and sc :: scope and hv :: series and D :: "real set"
  defines "D \<equiv> set (group_list is_delta_cat (scope_categories p sc) hv)"
  assumes "hv c = Some h" and "c \<in> set (scope_categories p sc)" and "is_delta_cat c"
    and "D \<noteq> {}" and "\<forall>v\<in>D. \<bar>v\<bar> < bigNumber" and "Min D \<noteq> Max D"
  shows "normalize_scope p firstLumi lastLumi sc hv c =
           Some (SetRangeUser (SetMaximum (SetMinimum h (Min D - 2 * (Max D - Min D)))
                                          (Max D + 2 * (Max D - Min D)))
                              (of_int firstLumi - 0.5) (of_int lastLumi + 0.5))"
proof -
  have fin: "finite D" by (simp add: D_def)
  obtain mn mx mnD mxD where st: "scope_extremes p sc hv = (mn, mx, mnD, mxD)"
    by (cases "scope_extremes p sc hv") auto
  then have "mnD = Min (insert bigNumber D)" "mxD = Max (insert (- bigNumber) D)"
    by (simp_all add: scope_extremes_def Let_def D_def)
  moreover have "Min (insert bigNumber D) = Min D"
    using assms(5,6) fin by (intro Min_insert_big) auto
  moreover have "Max (insert (- bigNumber) D) = Max D"
    using assms(5,6) fin by (intro Max_insert_big) auto
  ultimately have dd: "mnD = Min D" "mxD = Max D" by simp_all
  have "Min D \<in> D" using assms(5) fin by simp
  with assms(6) have "Min D < bigNumber" by auto
  with assms(7) have nd: "\<not> ((mxD = - bigNumber \<and> mnD = bigNumber) \<or> mxD - mnD = 0)"
    unfolding dd by auto
  have "pad_bounds 2 mnD mxD h =
          SetMaximum (SetMinimum h (Min D - 2 * (Max D - Min D))) (Max D + 2 * (Max D - Min D))"
    unfolding pad_bounds_def by (subst if_not_P [OF nd]) (simp add: dd)
  then show ?thesis
    using assms(2-4) st by (simp add: normalize_scope_at set_bounds_delta)
qed

text \<open>
  C9. When the absolute values of a folder are all one value within \<open>\<plusminus>bigNumber\<close>, or
  there are none, each absolute series falls back to its own minimum and maximum widened
  by 0.01, never to a range of zero width.
\<close>

theorem normalize_fallback:
  assumes "hv c = Some h" and "c \<in> set (scope_categories p sc)" and "is_abs_cat c"
    and "set (group_list is_abs_cat (scope_categories p sc) hv) \<subseteq> {x}" and "\<bar>x\<bar> < bigNumber"
  shows "normalize_scope p firstLumi lastLumi sc hv c =
           Some (SetRangeUser (SetMaximum (SetMinimum h (GetMinimum h - 0.01)) (GetMaximum h + 0.01))
                              (of_int firstLumi - 0.5) (of_int lastLumi + 0.5))"
proof -
  let ?A = "set (group_list is_abs_cat (scope_categories p sc) hv)"
  obtain mn mx mnD mxD where st: "scope_extremes p sc hv = (mn, mx, mnD, mxD)"
    by (cases "scope_extremes p sc hv") auto
  then have ext: "mn = Min (insert bigNumber ?A)" "mx = Max (insert (- bigNumber) ?A)"
    by (simp_all add: scope_extremes_def Let_def)
  have x: "x < bigNumber" "- bigNumber < x" using assms(5) by auto
  have "?A = {} \<or> ?A = {x}" using assms(4) by (simp add: subset_singleton_iff)
  then have fb: "(mx = - bigNumber \<and> mn = bigNumber) \<or> mx - mn = 0"
  proof
    assume "?A = {}"
    then show ?thesis unfolding ext by simp
  next
    assume "?A = {x}"
    with x show ?thesis unfolding ext by (simp add: min_def max_def)
  qed
  have "pad_bounds 0.1 mn mx h = SetMaximum (SetMinimum h (GetMinimum h - 0.01)) (GetMaximum h + 0.01)"
    unfolding pad_bounds_def by (subst if_P [OF fb]) (simp add: Let_def)
  then show ?thesis
    using assms(1-3) st by (simp add: normalize_scope_at set_bounds_abs)
qed

end
