(* ===== verification/Monitor.thy ===== *)
theory Monitor
  imports Consistency RangeNormalizer
begin

text \<open>
  The module as the framework drives it: the state of an \<open>AlcaBeamMonitor\<close> object
  (its series, the two track distributions, the processed sections, the two fitters'
  buffers) together with the per-section caches the framework keeps, the handlers
  (constructor, bookHistograms, globalBeginLuminosityBlock, analyze,
  globalEndLuminosityBlock, dqmEndRun) as functions on that state, and the framework's
  transitions as a step function, a run over a list of transitions and an inductive
  reachability relation under two protocols: the framework's (any number of open
  sections) and the serial one (one open section at a time).
\<close>

section \<open>The fitters\<close>

text \<open>
  BeamFitter and PVFitter are external engines. The module feeds them every event
  (\<open>readEvent\<close>), asks for a fit at the end of a section and resets them. They are modelled
  by what the module sees: the events read since the last reset, and a fit function from
  those events to an optional spot (\<open>runPVandTrkFitter\<close>/\<open>runFitter\<close> returning true and
  \<open>getBeamSpot\<close>).
\<close>

record fitters =
  runPVandTrkFitter :: "event list \<Rightarrow> beam_spot option"
  runFitter :: "event list \<Rightarrow> beam_spot option"

section \<open>The module state\<close>

text \<open>
  \<open>histosMap_\<close> (per variable, per category), the fills of \<open>hD0Phi0_\<close> and \<open>hDxyBS_\<close>,
  \<open>processedLumis_\<close>, the events buffered in the two fitters, and the framework's
  \<open>LuminosityBlockCache\<close>: None for a section that is not open, \<open>Some None\<close> for a cache
  that is a null pointer, \<open>Some (Some info)\<close> otherwise.
\<close>

record monitor_state =
  perLSsaving :: bool
  histosMap :: histos
  trackSamples :: "(real \<times> real) list \<times> real list"
  processedLumis :: "int list"
  bf_events :: "event list"
  pv_events :: "event list"
  lumi_cache :: "lumi \<Rightarrow> beam_spot_info option option"

text \<open>
  The constructor, lines 31--85: every catalog entry of every variable is a null
  pointer, \<open>processedLumis_\<close> is cleared and both fitters start empty.
\<close>

definition AlcaBeamMonitor :: "bool \<Rightarrow> monitor_state" where
  "AlcaBeamMonitor perLS =
     \<lparr>perLSsaving = perLS, histosMap = (\<lambda>_ _. None), trackSamples = ([], []),
      processedLumis = [], bf_events = [], pv_events = [], lumi_cache = (\<lambda>_. None)\<rparr>"

text \<open>bookHistograms, lines 103--224: the series of the catalog and the two track histograms.\<close>

definition bookHistograms :: "monitor_state \<Rightarrow> monitor_state" where
  "bookHistograms s =
     s\<lparr>histosMap := bookHistograms_series (perLSsaving s) (histosMap s), trackSamples := ([], [])\<rparr>"

datatype monitor_error = No_cache lumi | Null_cache lumi | No_track_product lumi

text \<open>
  \<open>luminosityBlockCache(index)\<close>: the cache of an open section. A section that is not open
  has no cache; a null cache is dereferenced by every caller, which is an error.
\<close>

definition luminosityBlockCache :: "monitor_state \<Rightarrow> lumi \<Rightarrow> monitor_error + beam_spot_info" where
  "luminosityBlockCache s l =
     (case lumi_cache s l of
        None \<Rightarrow> Inl (No_cache l)
      | Some None \<Rightarrow> Inl (Null_cache l)
      | Some (Some info) \<Rightarrow> Inr info)"

text \<open>
  The framework stores what globalBeginLuminosityBlock (lines 227--275) returns as the
  cache of the section it opens.
\<close>

definition beginLumi :: "lumi \<Rightarrow> db_lookup \<Rightarrow> monitor_state \<Rightarrow> monitor_state" where
  "beginLumi l r s = s\<lparr>lumi_cache := (lumi_cache s)(l := Some (globalBeginLuminosityBlock r))\<rparr>"

text \<open>
  analyze, lines 278--324: both fitters read the event, then the section's cache is
  fetched (and dereferenced), the tracks are sampled when the cache has a "DB" spot (an
  event without a track collection then throws in \<open>product()\<close>, line 289), and the
  vertices and the scaler spot are recorded.
\<close>

definition analyze :: "event \<Rightarrow> monitor_state \<Rightarrow> monitor_error + monitor_state" where
  "analyze e s =
     (let s1 = s\<lparr>bf_events := bf_events s @ [e], pv_events := pv_events s @ [e]\<rparr> in
      case luminosityBlockCache s1 (ev_lumi e) of
        Inl err \<Rightarrow> Inl err
      | Inr info \<Rightarrow>
          (case sample_tracks info (ev_tracks e) (trackSamples s1) of
             None \<Rightarrow> Inl (No_track_product (ev_lumi e))
           | Some ts \<Rightarrow>
               Inr (s1\<lparr>trackSamples := ts,
                       lumi_cache := (lumi_cache s1)(ev_lumi e := Some (Some (analyze_info e info)))\<rparr>)))"

text \<open>
  Lines 331--342: the track fit, stored under "BF" when it succeeds, then the vertex fit,
  stored under "PV"; each fitter is reset after its fit.
\<close>

definition run_fits :: "fitters \<Rightarrow> monitor_state \<Rightarrow> beam_spot_info \<Rightarrow> beam_spot_info" where
  "run_fits f s info =
     (let info1 = (case runPVandTrkFitter f (bf_events s) of
                     None \<Rightarrow> info
                   | Some b \<Rightarrow> info\<lparr>beamSpotMap := (beamSpotMap info)(BF \<mapsto> b)\<rparr>)
      in case runFitter f (pv_events s) of
           None \<Rightarrow> info1
         | Some b \<Rightarrow> info1\<lparr>beamSpotMap := (beamSpotMap info1)(PV \<mapsto> b)\<rparr>)"

text \<open>
  globalEndLuminosityBlock, lines 327--501: the section number (an unsigned 32-bit value)
  is pushed to \<open>processedLumis_\<close> as an \<open>int\<close>, the fits run on the cache, both fitters are
  reset, and every series of every variable is filled at the bin of that number.
\<close>

definition globalEndLuminosityBlock ::
    "fitters \<Rightarrow> lumi \<Rightarrow> monitor_state \<Rightarrow> monitor_error + monitor_state" where
  "globalEndLuminosityBlock f l s =
     (case luminosityBlockCache s l of
        Inl err \<Rightarrow> Inl err
      | Inr info \<Rightarrow>
          (let info' = run_fits f s info in
           Inr (s\<lparr>processedLumis := processedLumis s @ [sint l], bf_events := [], pv_events := [],
                  histosMap := fill_all_variables (sint l) info'
                                 (histoByCategoryNames (perLSsaving s)) (histosMap s),
                  lumi_cache := (lumi_cache s)(l := Some (Some info'))\<rparr>)))"

text \<open>
  dqmEndRun, lines 503--590: nothing when no section was processed; otherwise
  \<open>processedLumis_\<close> is sorted and every variable's series are normalised between its
  first and last element.
\<close>

definition dqmEndRun :: "monitor_state \<Rightarrow> monitor_state" where
  "dqmEndRun s =
     (if processedLumis s = [] then s
      else
        (let ls = sort (processedLumis s); firstLumi = hd ls; lastLumi = last ls in
         s\<lparr>processedLumis := ls,
           histosMap := (\<lambda>v. normalize_variable (perLSsaving s) firstLumi lastLumi (histosMap s v))\<rparr>))"

declare AlcaBeamMonitor_def [model_defs] bookHistograms_def [model_defs]
  luminosityBlockCache_def [model_defs] beginLumi_def [model_defs] analyze_def [model_defs]
  run_fits_def [model_defs] globalEndLuminosityBlock_def [model_defs] dqmEndRun_def [model_defs]

section \<open>The framework's transitions\<close>

text \<open>
  The transitions the framework delivers to the module: the start of a run (booking), the
  opening of a section with the outcome of its database lookup, an event, the closing of
  a section (after which the framework releases its cache) and the end of a run.
\<close>

datatype transition = BeginRun | BeginLumi lumi db_lookup | Event event | EndLumi lumi | EndRun

fun monitor_step :: "fitters \<Rightarrow> transition \<Rightarrow> monitor_state \<Rightarrow> monitor_error + monitor_state" where
  "monitor_step f BeginRun s = Inr (bookHistograms s)"
| "monitor_step f (BeginLumi l r) s = Inr (beginLumi l r s)"
| "monitor_step f (Event e) s = analyze e s"
| "monitor_step f (EndLumi l) s =
     (case globalEndLuminosityBlock f l s of
        Inl err \<Rightarrow> Inl err
      | Inr s' \<Rightarrow> Inr (s'\<lparr>lumi_cache := (lumi_cache s')(l := None)\<rparr>))"
| "monitor_step f EndRun s = Inr (dqmEndRun s)"

fun run_transitions :: "fitters \<Rightarrow> transition list \<Rightarrow> monitor_state \<Rightarrow> monitor_error + monitor_state" where
  "run_transitions f [] s = Inr s"
| "run_transitions f (tr # trs) s =
     (case monitor_step f tr s of Inl err \<Rightarrow> Inl err | Inr s' \<Rightarrow> run_transitions f trs s')"

text \<open>
  The framework opens a section once, delivers events only of open sections, closes only
  open sections and starts or ends a run with no section open. The serial protocol also
  opens a section only when no other is open.
\<close>

definition is_open :: "monitor_state \<Rightarrow> lumi \<Rightarrow> bool" where
  "is_open s l \<longleftrightarrow> lumi_cache s l \<noteq> None"

definition none_open :: "monitor_state \<Rightarrow> bool" where
  "none_open s \<longleftrightarrow> (\<forall>l. lumi_cache s l = None)"

fun framework_allows :: "monitor_state \<Rightarrow> transition \<Rightarrow> bool" where
  "framework_allows s BeginRun \<longleftrightarrow> none_open s"
| "framework_allows s (BeginLumi l r) \<longleftrightarrow> \<not> is_open s l"
| "framework_allows s (Event e) \<longleftrightarrow> is_open s (ev_lumi e)"
| "framework_allows s (EndLumi l) \<longleftrightarrow> is_open s l"
| "framework_allows s EndRun \<longleftrightarrow> none_open s"

fun serial_allows :: "monitor_state \<Rightarrow> transition \<Rightarrow> bool" where
  "serial_allows s (BeginLumi l r) \<longleftrightarrow> none_open s"
| "serial_allows s tr \<longleftrightarrow> framework_allows s tr"

inductive reachable ::
    "fitters \<Rightarrow> (monitor_state \<Rightarrow> transition \<Rightarrow> bool) \<Rightarrow> bool \<Rightarrow> monitor_state \<Rightarrow> bool"
  for f allows p where
  init: "reachable f allows p (AlcaBeamMonitor p)"
| step: "reachable f allows p s \<Longrightarrow> allows s tr \<Longrightarrow> monitor_step f tr s = Inr s' \<Longrightarrow>
         reachable f allows p s'"

declare is_open_def [model_defs] none_open_def [model_defs]

section \<open>Notions used by the properties\<close>

text \<open>
  The invariant of the serial protocol: both fitters hold the same events, all of open
  sections, and at most one section is open.
\<close>

definition fit_inv :: "monitor_state \<Rightarrow> bool" where
  "fit_inv s \<longleftrightarrow> bf_events s = pv_events s \<and> (\<forall>e\<in>set (bf_events s). is_open s (ev_lumi e)) \<and>
     (\<forall>l l'. is_open s l \<longrightarrow> is_open s l' \<longrightarrow> l = l')"

text \<open>An event of a section that carries no tracks, no vertices and no scaler spot.\<close>

definition idle_event :: "lumi \<Rightarrow> event" where
  "idle_event l = \<lparr>ev_lumi = l, ev_tracks = Some [], ev_pvs = None, ev_scaler = None\<rparr>"

text \<open>The vertex group an event adds to the cache of section \<open>l\<close>.\<close>

definition event_vertices :: "lumi \<Rightarrow> event \<Rightarrow> pv_pos_and_err list list" where
  "event_vertices l e =
     (if ev_lumi e = l then (case ev_pvs e of None \<Rightarrow> [] | Some pvs \<Rightarrow> [select_vertices pvs]) else [])"

text \<open>A section whose cache is open and not null.\<close>

definition live :: "monitor_state \<Rightarrow> lumi \<Rightarrow> bool" where
  "live s l \<longleftrightarrow> (\<exists>info. lumi_cache s l = Some (Some info))"

text \<open>The section numbers a list of transitions closes, as \<open>processedLumis_\<close> stores them.\<close>

fun ended_lumis :: "transition list \<Rightarrow> int list" where
  "ended_lumis [] = []"
| "ended_lumis (EndLumi l # trs) = sint l # ended_lumis trs"
| "ended_lumis (_ # trs) = ended_lumis trs"

section \<open>Facts about the handlers and the transitions\<close>

lemma analyze_cases:
  "analyze e s =
     (case lumi_cache s (ev_lumi e) of
        None \<Rightarrow> Inl (No_cache (ev_lumi e))
      | Some None \<Rightarrow> Inl (Null_cache (ev_lumi e))
      | Some (Some info) \<Rightarrow>
          (case sample_tracks info (ev_tracks e) (trackSamples s) of
             None \<Rightarrow> Inl (No_track_product (ev_lumi e))
           | Some ts \<Rightarrow>
               Inr (s\<lparr>bf_events := bf_events s @ [e], pv_events := pv_events s @ [e],
                      trackSamples := ts,
                      lumi_cache := (lumi_cache s)(ev_lumi e := Some (Some (analyze_info e info)))\<rparr>)))"
  by (simp add: analyze_def luminosityBlockCache_def split: option.split)

lemma run_transitions_append:
  "run_transitions f (xs @ ys) s =
     (case run_transitions f xs s of Inl err \<Rightarrow> Inl err | Inr s' \<Rightarrow> run_transitions f ys s')"
  by (induction xs arbitrary: s) (simp_all split: sum.split)

lemma bookHistograms_frame [simp]:
  "bf_events (bookHistograms s) = bf_events s" "pv_events (bookHistograms s) = pv_events s"
  "lumi_cache (bookHistograms s) = lumi_cache s" "processedLumis (bookHistograms s) = processedLumis s"
  "perLSsaving (bookHistograms s) = perLSsaving s"
  by (simp_all add: bookHistograms_def)

lemma dqmEndRun_frame [simp]:
  "bf_events (dqmEndRun s) = bf_events s" "pv_events (dqmEndRun s) = pv_events s"
  "lumi_cache (dqmEndRun s) = lumi_cache s" "perLSsaving (dqmEndRun s) = perLSsaving s"
  by (simp_all add: dqmEndRun_def Let_def)

lemma beginLumi_frame [simp]:
  "bf_events (beginLumi l r s) = bf_events s" "pv_events (beginLumi l r s) = pv_events s"
  "processedLumis (beginLumi l r s) = processedLumis s" "perLSsaving (beginLumi l r s) = perLSsaving s"
  "lumi_cache (beginLumi l r s) = (lumi_cache s)(l := Some (globalBeginLuminosityBlock r))"
  by (simp_all add: beginLumi_def)

lemma analyze_Inr:
  assumes "analyze e s = Inr s'"
  obtains info where "lumi_cache s (ev_lumi e) = Some (Some info)"
    and "bf_events s' = bf_events s @ [e]" and "pv_events s' = pv_events s @ [e]"
    and "lumi_cache s' = (lumi_cache s)(ev_lumi e := Some (Some (analyze_info e info)))"
    and "processedLumis s' = processedLumis s" and "perLSsaving s' = perLSsaving s"
    and "histosMap s' = histosMap s"
    and "sample_tracks info (ev_tracks e) (trackSamples s) = Some (trackSamples s')"
  using assms by (auto simp: analyze_cases split: option.splits)

lemma endLumi_Inr:
  assumes "monitor_step f (EndLumi l) s = Inr s'"
  obtains info where "lumi_cache s l = Some (Some info)"
    and "bf_events s' = []" and "pv_events s' = []"
    and "lumi_cache s' = (lumi_cache s)(l := None)"
    and "processedLumis s' = processedLumis s @ [sint l]" and "perLSsaving s' = perLSsaving s"
    and "histosMap s' = fill_all_variables (sint l) (run_fits f s info)
                          (histoByCategoryNames (perLSsaving s)) (histosMap s)"
  using assms
  by (auto simp: globalEndLuminosityBlock_def luminosityBlockCache_def Let_def
           split: option.splits sum.splits)

lemma dqmEndRun_nonempty:
  "processedLumis s \<noteq> [] \<Longrightarrow>
   dqmEndRun s = s\<lparr>processedLumis := sort (processedLumis s),
     histosMap := (\<lambda>v. normalize_variable (perLSsaving s) (Min (set (processedLumis s)))
                          (Max (set (processedLumis s))) (histosMap s v))\<rparr>"
  by (simp add: dqmEndRun_def Let_def)

lemma fit_inv_init: "fit_inv (AlcaBeamMonitor p)"
  by (simp add: fit_inv_def AlcaBeamMonitor_def is_open_def)

lemma none_open_buffer: "fit_inv s \<Longrightarrow> none_open s \<Longrightarrow> bf_events s = [] \<and> pv_events s = []"
  by (cases "bf_events s") (auto simp: fit_inv_def none_open_def is_open_def)

lemma fit_inv_step:
  assumes "fit_inv s" and "serial_allows s tr" and "monitor_step f tr s = Inr s'"
  shows "fit_inv s'"
proof (cases tr)
  case BeginRun
  then show ?thesis using assms by (auto simp: fit_inv_def is_open_def)
next
  case (BeginLumi l r)
  then have "bf_events s = [] \<and> pv_events s = []" "none_open s"
    using assms none_open_buffer by auto
  have s': "s' = beginLumi l r s" using assms BeginLumi by simp
  have "is_open s' l' \<longleftrightarrow> l' = l" for l'
    using \<open>none_open s\<close> by (simp add: s' is_open_def none_open_def)
  then show ?thesis using \<open>bf_events s = [] \<and> pv_events s = []\<close>
    by (simp add: fit_inv_def s')
next
  case (Event e)
  then have an: "analyze e s = Inr s'" using assms by simp
  then obtain info where c: "lumi_cache s (ev_lumi e) = Some (Some info)"
    and s': "bf_events s' = bf_events s @ [e]" "pv_events s' = pv_events s @ [e]"
      "lumi_cache s' = (lumi_cache s)(ev_lumi e := Some (Some (analyze_info e info)))"
    by (rule analyze_Inr)
  have "is_open s' l \<longleftrightarrow> is_open s l" for l using c s' by (auto simp: is_open_def)
  then show ?thesis using assms(1) s' c by (auto simp: fit_inv_def is_open_def)
next
  case (EndLumi l)
  then obtain info where "lumi_cache s' = (lumi_cache s)(l := None)" "bf_events s' = []"
      "pv_events s' = []"
    using assms by (blast elim: endLumi_Inr)
  then show ?thesis using assms(1) by (auto simp: fit_inv_def is_open_def)
next
  case EndRun
  then show ?thesis using assms by (auto simp: fit_inv_def is_open_def)
qed

lemma fit_inv_reachable: "reachable f serial_allows p s \<Longrightarrow> fit_inv s"
  by (induction rule: reachable.induct) (auto intro: fit_inv_init fit_inv_step)

lemma analyze_live:
  assumes "live s (ev_lumi e)" and "ev_tracks e \<noteq> None"
  shows "\<exists>s'. analyze e s = Inr s' \<and> bf_events s' = bf_events s @ [e] \<and>
           (\<forall>l. live s' l \<longleftrightarrow> live s l) \<and>
           (\<forall>l info. lumi_cache s l = Some (Some info) \<longrightarrow>
              (\<exists>info'. lumi_cache s' l = Some (Some info') \<and>
                 vertices info' = vertices info @ event_vertices l e))"
  using assms
  by (auto simp: live_def analyze_cases event_vertices_def analyze_info_vertices sample_tracks_def
           split: option.split)

lemma run_events:
  assumes "\<forall>e\<in>set es. live s (ev_lumi e) \<and> ev_tracks e \<noteq> None" and "lumi_cache s l = Some (Some info)"
  shows "\<exists>s' info'. run_transitions f (map Event es) s = Inr s' \<and> bf_events s' = bf_events s @ es \<and>
           lumi_cache s' l = Some (Some info') \<and>
           vertices info' = vertices info @ concat (map (event_vertices l) es)"
  using assms
proof (induction es arbitrary: s info)
  case Nil
  then show ?case by simp
next
  case (Cons e es)
  obtain s1 where a: "analyze e s = Inr s1" and b: "bf_events s1 = bf_events s @ [e]"
    and lv: "\<forall>l. live s1 l \<longleftrightarrow> live s l"
    and v: "\<forall>l info. lumi_cache s l = Some (Some info) \<longrightarrow>
              (\<exists>info'. lumi_cache s1 l = Some (Some info') \<and>
                 vertices info' = vertices info @ event_vertices l e)"
    using analyze_live [of s e] Cons.prems(1) by auto
  obtain info1 where c1: "lumi_cache s1 l = Some (Some info1)"
    and v1: "vertices info1 = vertices info @ event_vertices l e"
    using v Cons.prems(2) by blast
  have "\<forall>e\<in>set es. live s1 (ev_lumi e) \<and> ev_tracks e \<noteq> None" using Cons.prems(1) lv by simp
  from Cons.IH [OF this c1] show ?case using a b v1 by auto
qed

lemma mset_concat_concat_map:
  "mset (concat (concat (map h xs))) = sum_mset (image_mset (\<lambda>x. mset (concat (h x))) (mset xs))"
  by (induction xs) simp_all

lemma step_processedLumis:
  assumes "monitor_step f tr s = Inr s'"
  shows "mset (processedLumis s') = mset (processedLumis s) + mset (ended_lumis [tr])"
proof (cases tr)
  case (Event e)
  then show ?thesis using assms by (auto elim: analyze_Inr)
next
  case (EndLumi l)
  then have "monitor_step f (EndLumi l) s = Inr s'" using assms by simp
  then show ?thesis by (rule endLumi_Inr) (simp add: EndLumi)
next
  case EndRun
  then show ?thesis using assms by (auto simp: dqmEndRun_def Let_def)
qed (use assms in auto)

lemma scope_categories_mem:
  "c \<in> set (scope_categories p sc) \<longleftrightarrow> in_catalog p c \<and> sc = category_scope c"
proof -
  have "(sc, c) \<in> set (histoByCategoryNames p) \<longleftrightarrow> in_catalog p c \<and> sc = category_scope c"
    by (auto simp: in_catalog_def dest: histoByCategoryNames_scope)
  then show ?thesis by (force simp: scope_categories_def)
qed

lemma set_bounds_range:
  "h_range_user (set_bounds a b st c h) = Some (of_int a - 0.5, of_int b + 0.5)"
  by (simp add: set_bounds_def SetRangeUser_def split: prod.split)

lemma fold_normalize_at:
  assumes "category_scope c \<noteq> Run" and "in_catalog p c" and "hv c = Some h"
  shows "(category_scope c \<in> set scs \<longrightarrow>
           (\<exists>h'. fold (\<lambda>sc hv. if sc \<noteq> Run then normalize_scope p a b sc hv else hv) scs hv c = Some h' \<and>
                 h_range_user h' = Some (of_int a - 0.5, of_int b + 0.5))) \<and>
         (category_scope c \<notin> set scs \<longrightarrow>
           fold (\<lambda>sc hv. if sc \<noteq> Run then normalize_scope p a b sc hv else hv) scs hv c = Some h)"
  using assms(3)
proof (induction scs arbitrary: hv h)
  case (Cons sc scs)
  show ?case
  proof (cases "sc = category_scope c")
    case True
    then obtain h1 where h1: "normalize_scope p a b sc hv c = Some h1"
      "h_range_user h1 = Some (of_int a - 0.5, of_int b + 0.5)"
      using Cons.prems assms(1,2) by (simp add: normalize_scope_at scope_categories_mem set_bounds_range)
    then show ?thesis using Cons.IH [of "normalize_scope p a b sc hv" h1] True assms(1) by auto
  next
    case False
    then have "(if sc \<noteq> Run then normalize_scope p a b sc hv else hv) c = Some h"
      using Cons.prems by (simp add: normalize_scope_at scope_categories_mem)
    then show ?thesis using Cons.IH False by auto
  qed
qed simp

lemma scope_in_scopes_of: "in_catalog p c \<Longrightarrow> category_scope c \<in> set (scopes_of p)"
  by (force simp: scopes_of_def in_catalog_def)

section \<open>Properties of the module\<close>

text \<open>
  C10. Under the serial protocol, whenever a section is open, the two fitters have buffered
  the same events, and every one of them belongs to that section: the fits run when it
  closes see exactly its own events.
\<close>

theorem serial_fit_input:
  assumes "reachable f serial_allows p s" and "is_open s l"
  shows "bf_events s = pv_events s \<and> (\<forall>e\<in>set (bf_events s). ev_lumi e = l)"
  using fit_inv_reachable [OF assms(1)] assms(2) by (auto simp: fit_inv_def)

text \<open>
  C11. Under the framework's protocol, which lets sections overlap, the fitters are shared:
  there is a reachable state where sections 1 and 2 are open and the BeamFitter's buffer,
  which section 1's fit reads, holds only an event of section 2; closing section 1 then
  empties the buffer, so section 2's fit never sees that event.
\<close>

theorem concurrent_sections_share_fitters:
  "\<exists>s. reachable f framework_allows p s \<and> is_open s 1 \<and> is_open s 2 \<and>
       bf_events s = [idle_event 2] \<and>
       (\<exists>s'. monitor_step f (EndLumi 1) s = Inr s' \<and> is_open s' 2 \<and> bf_events s' = [])"
proof -
  let ?s2 = "beginLumi 2 DB_Invalid (beginLumi 1 DB_Invalid (AlcaBeamMonitor p))"
  have c2: "lumi_cache ?s2 = (\<lambda>_. None)(1 := Some (Some empty_info), 2 := Some (Some empty_info))"
    by (simp add: AlcaBeamMonitor_def globalBeginLuminosityBlock_def)
  have r1: "reachable f framework_allows p (beginLumi 1 DB_Invalid (AlcaBeamMonitor p))"
    using reachable.step [OF reachable.init, where tr = "BeginLumi 1 DB_Invalid"]
    by (simp add: is_open_def AlcaBeamMonitor_def)
  have r2: "reachable f framework_allows p ?s2"
    using reachable.step [OF r1, where tr = "BeginLumi 2 DB_Invalid"]
    by (simp add: is_open_def AlcaBeamMonitor_def)
  obtain s3 where a: "analyze (idle_event 2) ?s2 = Inr s3" and
    s3: "lumi_cache s3 = (lumi_cache ?s2)(2 := Some (Some (analyze_info (idle_event 2) empty_info)))"
      "bf_events s3 = [idle_event 2]"
    by (simp add: analyze_cases idle_event_def AlcaBeamMonitor_def globalBeginLuminosityBlock_def
          sample_tracks_def empty_info_def)
  have r3: "reachable f framework_allows p s3"
    using reachable.step [OF r2, where tr = "Event (idle_event 2)"] a
    by (simp add: is_open_def c2 idle_event_def)
  have o3: "lumi_cache s3 1 = Some (Some empty_info)" "is_open s3 2"
    using s3 by (simp_all add: is_open_def AlcaBeamMonitor_def globalBeginLuminosityBlock_def)
  obtain s4 where st4: "monitor_step f (EndLumi 1) s3 = Inr s4"
    using o3 by (simp add: globalEndLuminosityBlock_def luminosityBlockCache_def Let_def)
  obtain info where "bf_events s4 = []" "lumi_cache s4 = (lumi_cache s3)(1 := None)"
    by (rule endLumi_Inr [OF st4]) blast
  then show ?thesis using st4 r3 o3 s3 by (auto simp: is_open_def)
qed

text \<open>
  C12. A section whose database lookup threw has a null cache: every event of that section
  and the closing of the section fail with a null-cache error instead of proceeding with
  the database entry absent.
\<close>

theorem db_exception_null_cache:
  assumes "lumi_cache s l = Some (globalBeginLuminosityBlock DB_Exception)"
  shows "(\<forall>e. ev_lumi e = l \<longrightarrow> monitor_step f (Event e) s = Inl (Null_cache l)) \<and>
         monitor_step f (EndLumi l) s = Inl (Null_cache l)"
  using assms
  by (simp add: analyze_cases globalEndLuminosityBlock_def luminosityBlockCache_def
        globalBeginLuminosityBlock_def)

text \<open>
  C13. While a section stays open, every allowed transition other than its own closing keeps
  its cache: the database entry never changes, a scaler entry once set is never replaced,
  and the list of sampled vertex groups only grows at its end.
\<close>

theorem open_cache_stable:
  assumes "lumi_cache s l = Some (Some info)" and "framework_allows s tr" and "tr \<noteq> EndLumi l"
    and "monitor_step f tr s = Inr s'"
  shows "\<exists>info'. lumi_cache s' l = Some (Some info') \<and> beamSpotMap info' DB = beamSpotMap info DB \<and>
           (beamSpotMap info SC \<noteq> None \<longrightarrow> beamSpotMap info' SC = beamSpotMap info SC) \<and>
           (\<exists>vs. vertices info' = vertices info @ vs)"
proof (cases tr)
  case (BeginLumi l' r)
  then have "l' \<noteq> l" using assms(1,2) by (auto simp: is_open_def)
  then show ?thesis using assms BeginLumi by auto
next
  case (Event e)
  then obtain info0 where "lumi_cache s (ev_lumi e) = Some (Some info0)"
    and c: "lumi_cache s' = (lumi_cache s)(ev_lumi e := Some (Some (analyze_info e info0)))"
    using assms(4) by (auto elim: analyze_Inr)
  then show ?thesis using assms(1)
    by (cases "ev_lumi e = l")
       (auto simp: analyze_info_other analyze_info_vertices analyze_info_SC_kept)
next
  case (EndLumi l')
  then obtain info0 where "lumi_cache s' = (lumi_cache s)(l' := None)"
    using assms(4) by (blast elim: endLumi_Inr)
  then show ?thesis using assms(1,3) EndLumi by auto
qed (use assms in auto)

text \<open>
  C14. Any order in which the events of open sections arrive (any permutation of them),
  every event carrying its track collection, succeeds and leaves in a section's cache
  exactly its previous vertices plus the selected vertices of its own events, as a
  multiset: none is lost or duplicated.
\<close>

theorem interleaving_keeps_vertices:
  assumes "\<forall>e\<in>set es. live s (ev_lumi e) \<and> ev_tracks e \<noteq> None" and "lumi_cache s l = Some (Some info)"
    and "mset es' = mset es"
  shows "\<exists>s' info'. run_transitions f (map Event es') s = Inr s' \<and> lumi_cache s' l = Some (Some info') \<and>
           mset (concat (vertices info')) =
             mset (concat (vertices info)) + mset (concat (concat (map (event_vertices l) es)))"
proof -
  have "\<forall>e\<in>set es'. live s (ev_lumi e) \<and> ev_tracks e \<noteq> None" using assms(1,3) by (metis mset_eq_setD)
  then obtain s' info' where "run_transitions f (map Event es') s = Inr s'"
    and "lumi_cache s' l = Some (Some info')"
    and "vertices info' = vertices info @ concat (map (event_vertices l) es')"
    using run_events [OF _ assms(2)] by blast
  moreover have "mset (concat (concat (map (event_vertices l) es'))) =
                 mset (concat (concat (map (event_vertices l) es)))"
    by (simp only: mset_concat_concat_map assms(3))
  ultimately show ?thesis by auto
qed

text \<open>
  C15. Over any run of transitions, processedLumis_ grows by exactly the (signed) numbers of
  the sections closed, as a multiset; nothing removes an entry, not even the start of a
  new run.
\<close>

theorem processed_lumis_accumulate:
  "run_transitions f trs s = Inr s' \<Longrightarrow>
   mset (processedLumis s') = mset (processedLumis s) + mset (ended_lumis trs)"
proof (induction trs arbitrary: s)
  case (Cons tr trs)
  then obtain s1 where "monitor_step f tr s = Inr s1" "run_transitions f trs s1 = Inr s'"
    by (auto split: sum.splits)
  with Cons.IH step_processedLumis show ?case
    by (cases tr) (fastforce simp: add.assoc)+
qed simp

text \<open>
  C16. At the end of a run with processed sections, every booked series of the 'lumi' and
  'validation' folders gets the x range [min - 0.5, max + 0.5] over the processed
  section numbers.
\<close>

theorem end_run_axis_range:
  assumes "processedLumis s \<noteq> []" and "histosMap s v c = Some h" and "category_scope c \<noteq> Run"
    and "in_catalog (perLSsaving s) c"
  shows "\<exists>h'. histosMap (dqmEndRun s) v c = Some h' \<and>
           h_range_user h' = Some (of_int (Min (set (processedLumis s))) - 0.5,
                                   of_int (Max (set (processedLumis s))) + 0.5)"
proof -
  let ?ls = "processedLumis s"
  have "category_scope c \<in> set (scopes_of (perLSsaving s))"
    using assms(4) by (rule scope_in_scopes_of)
  then show ?thesis
    using fold_normalize_at [where c = c and p = "perLSsaving s" and hv = "histosMap s v" and h = h
        and scs = "scopes_of (perLSsaving s)" and a = "Min (set ?ls)" and b = "Max (set ?ls)",
        OF assms(3,4,2)]
    by (simp add: dqmEndRun_nonempty [OF assms(1)] normalize_variable_def)
qed

end
