(* ===== verification/Invariants.thy ===== *)
theory Invariants
  imports Monitor
begin

text \<open>
  Invariants of the reachable states of the module, whatever the protocol, and the
  errors of its handlers: the types of the spots the module itself stores, the only two
  ways an allowed step fails (a null cache, an event without tracks in a section with a
  database spot), the track sampling of analyze, and that only the bins of processed
  sections are filled in the "lumi" and "validation" series, so the end-of-run x range
  shows them.
\<close>

section \<open>Well-typed caches\<close>


text \<open>The module has no series at all: every entry of \<open>histosMap_\<close> is absent or null.\<close>

definition no_series :: "monitor_state \<Rightarrow> bool" where
  "no_series s \<longleftrightarrow> histosMap s = (\<lambda>_ _. None) \<and> perLSsaving s"

text \<open>
  Every non-empty bin of every "lumi" or "validation" series is the bin of a processed
  section: only globalEndLuminosityBlock writes their bins, and it writes only the bin of
  the section it pushes to \<open>processedLumis_\<close>. (The "run" series are filled by value, not
  by section, and are not constrained.)
\<close>

definition bins_processed :: "monitor_state \<Rightarrow> bool" where
  "bins_processed s \<longleftrightarrow>
     (\<forall>v c h b. category_scope c \<noteq> Run \<longrightarrow> histosMap s v c = Some h \<longrightarrow> bin_filled h b \<longrightarrow>
        b \<in> set (processedLumis s))"

section \<open>Facts about the invariants\<close>




lemma fill_category_empty: "snd (fill_category bin False [] c Map.empty h) = h"
  by (cases c) (simp_all add: fill_category_def)

lemma fill_variable_empty:
  "fill_variable bin empty_info (histoByCategoryNames p) v hv = hv"
proof (cases p)
  case False
  have "resultsMap v Map.empty = Map.empty" by (simp add: resultsMap_def)
  moreover have "vertexResults v [] = []" by (simp add: vertexResults_def split: option.split)
  ultimately show ?thesis using False
    by (intro ext) (simp add: fill_variable_at empty_info_def rm_seen_def Let_def rm_after_def
                              fill_category_empty option.map_ident)
qed (simp add: fill_variable_def)

lemma fill_all_variables_empty:
  "fill_all_variables bin empty_info (histoByCategoryNames p) hs = hs"
  by (simp add: fun_eq_iff fill_all_variables_at fill_variable_empty)

lemma fill_all_variables_no_categories: "fill_all_variables bin info [] hs = hs"
  by (simp add: fun_eq_iff fill_all_variables_at fill_variable_def)

lemma no_series_step:
  assumes "no_series s" and "monitor_step f tr s = Inr s'"
  shows "no_series s'"
proof (cases tr)
  case BeginRun
  then show ?thesis using assms
    by (auto simp: no_series_def bookHistograms_def bookHistograms_series_def)
next
  case (Event e)
  then show ?thesis using assms by (auto simp: no_series_def elim: analyze_Inr)
next
  case (EndLumi l)
  then have "monitor_step f (EndLumi l) s = Inr s'" using assms(2) by simp
  then show ?thesis
    by (rule endLumi_Inr) (use assms(1) in \<open>simp add: no_series_def fill_all_variables_no_categories\<close>)
next
  case EndRun
  then show ?thesis using assms
    by (auto simp: no_series_def dqmEndRun_def Let_def normalize_variable_def scopes_of_def)
qed (use assms in \<open>auto simp: no_series_def beginLumi_def\<close>)

lemma book1D_not_filled [simp]: "\<not> bin_filled (book1D n lo hi) b"
  by (simp add: bin_filled_def GetBinError_def book1D_def)

lemma book_histo_not_filled: "book_histo v sc c = Some h \<Longrightarrow> \<not> bin_filled h b"
  by (auto simp: book_histo_def book_run_histo_def book_lumi_histo_def lumi_histo_def split: if_splits)

lemma agree_off_filled: "agree_off bin h h' \<Longrightarrow> bin_filled h' b \<Longrightarrow> b \<noteq> bin \<Longrightarrow> bin_filled h b"
  by (simp add: agree_off_def bin_filled_def GetBinError_def)

lemma fold_steps_from:
  "snd (fold (end_lumi_step bin dbp vr) cs (rm, hv)) c = Some h' \<Longrightarrow> \<exists>h. hv c = Some h \<and> agree_off bin h h'"
proof (induction cs arbitrary: rm hv)
  case (Cons a cs)
  obtain sc c' where a: "a = (sc, c')" by (cases a)
  obtain rm1 hv1 where st: "end_lumi_step bin dbp vr (sc, c') (rm, hv) = (rm1, hv1)"
    by (cases "end_lumi_step bin dbp vr (sc, c') (rm, hv)")
  with Cons obtain h1 where h1: "hv1 c = Some h1" by (auto simp: a)
  then have "\<exists>h. hv c = Some h" using st by (auto simp: end_lumi_step_eq split: if_splits)
  then obtain h where "hv c = Some h" ..
  then show ?case using Cons.prems fold_steps_agree_off by blast
qed simp

lemma fill_all_variables_from:
  "fill_all_variables bin info cats hs v c = Some h' \<Longrightarrow> \<exists>h. hs v c = Some h \<and> agree_off bin h h'"
  by (simp add: fill_all_variables_at fill_variable_def fold_steps_from)

lemma set_bounds_bins [simp]:
  "h_content (set_bounds a b st c h) = h_content h" "h_error (set_bounds a b st c h) = h_error h"
  by (simp_all add: set_bounds_def pad_bounds_def SetMinimum_def SetMaximum_def SetRangeUser_def
                    Let_def split: prod.split)

lemma fold_normalize_from:
  "fold (\<lambda>sc hv. if sc \<noteq> Run then normalize_scope p a b sc hv else hv) scs hv c = Some h' \<Longrightarrow>
   \<exists>h. hv c = Some h \<and> h_content h' = h_content h \<and> h_error h' = h_error h"
proof (induction scs arbitrary: hv)
  case (Cons sc scs)
  then obtain h1 where h1: "(if sc \<noteq> Run then normalize_scope p a b sc hv else hv) c = Some h1"
    and "h_content h' = h_content h1" "h_error h' = h_error h1"
    by fastforce
  moreover from h1 obtain h where "hv c = Some h" "h_content h1 = h_content h" "h_error h1 = h_error h"
    by (auto simp: normalize_scope_at split: if_splits)
  ultimately show ?case by simp
qed simp

lemma dqmEndRun_from:
  "histosMap (dqmEndRun s) v c = Some h' \<Longrightarrow>
   \<exists>h. histosMap s v c = Some h \<and> h_content h' = h_content h \<and> h_error h' = h_error h"
  by (auto simp: dqmEndRun_def Let_def normalize_variable_def split: if_splits dest: fold_normalize_from)

lemma dqmEndRun_processed: "set (processedLumis (dqmEndRun s)) = set (processedLumis s)"
  by (simp add: dqmEndRun_def Let_def)

lemma bins_processed_init: "bins_processed (AlcaBeamMonitor p)"
  by (simp add: bins_processed_def AlcaBeamMonitor_def)

lemma bins_processed_step:
  assumes "bins_processed s" and "monitor_step f tr s = Inr s'"
  shows "bins_processed s'"
proof (cases tr)
  case BeginRun
  then show ?thesis using assms
    by (auto simp: bins_processed_def bookHistograms_def bookHistograms_series_def
             split: if_splits dest: book_histo_not_filled)
next
  case (Event e)
  then show ?thesis using assms by (auto simp: bins_processed_def elim: analyze_Inr)
next
  case (EndLumi l)
  then have "monitor_step f (EndLumi l) s = Inr s'" using assms(2) by simp
  then show ?thesis
  proof (rule endLumi_Inr)
    fix info
    assume p: "processedLumis s' = processedLumis s @ [sint l]"
      and hs: "histosMap s' = fill_all_variables (sint l) (run_fits f s info)
                 (histoByCategoryNames (perLSsaving s)) (histosMap s)"
    show ?thesis
      unfolding bins_processed_def p hs
      using assms(1) by (auto simp: bins_processed_def dest!: fill_all_variables_from agree_off_filled)
  qed
next
  case EndRun
  then show ?thesis using assms
    by (auto simp: bins_processed_def dqmEndRun_processed bin_filled_def GetBinError_def
             dest!: dqmEndRun_from)
qed (use assms in \<open>auto simp: bins_processed_def beginLumi_def\<close>)

lemma bins_processed_reachable: "reachable f allows p s \<Longrightarrow> bins_processed s"
  by (induction rule: reachable.induct) (auto intro: bins_processed_init bins_processed_step)

lemma run_transitions_reachable:
  "run_transitions f trs s = Inr s' \<Longrightarrow> reachable f (\<lambda>_ _. True) p s \<Longrightarrow> reachable f (\<lambda>_ _. True) p s'"
proof (induction trs arbitrary: s)
  case (Cons tr trs)
  then obtain s1 where "monitor_step f tr s = Inr s1" "run_transitions f trs s1 = Inr s'"
    by (auto split: sum.splits)
  with Cons show ?case by (blast intro: reachable.step)
qed simp

lemma fold_steps_keep:
  "hv c = Some h \<Longrightarrow> \<exists>h'. snd (fold (end_lumi_step bin dbp vr) cs (rm, hv)) c = Some h'"
proof (induction cs arbitrary: rm hv h)
  case (Cons a cs)
  obtain sc c' where a: "a = (sc, c')" by (cases a)
  obtain h1 where "snd (end_lumi_step bin dbp vr (sc, c') (rm, hv)) c = Some h1"
    using Cons.prems by (cases "c = c'") (auto simp: end_lumi_step_eq)
  then show ?case
    using Cons.IH [of "snd (end_lumi_step bin dbp vr (sc, c') (rm, hv))" h1
                      "fst (end_lumi_step bin dbp vr (sc, c') (rm, hv))"] a by simp
qed simp

lemma fill_all_variables_keep:
  "hs v c = Some h \<Longrightarrow> \<exists>h'. fill_all_variables bin info cats hs v c = Some h' \<and> agree_off bin h h'"
  unfolding fill_all_variables_at fill_variable_def by (metis fold_steps_keep fold_steps_agree_off)

lemma fold_normalize_keep:
  "hv c = Some h \<Longrightarrow> \<exists>h'. fold (\<lambda>sc hv. if sc \<noteq> Run then normalize_scope p a b sc hv else hv) scs hv c = Some h'"
proof (induction scs arbitrary: hv h)
  case (Cons sc scs)
  have "\<exists>h1. (if sc \<noteq> Run then normalize_scope p a b sc hv else hv) c = Some h1"
    using Cons.prems by (simp add: normalize_scope_at)
  then obtain h1 where "(if sc \<noteq> Run then normalize_scope p a b sc hv else hv) c = Some h1" ..
  with Cons.IH [where hv = "if sc \<noteq> Run then normalize_scope p a b sc hv else hv" and h = h1]
  show ?case by simp
qed simp

lemma dqmEndRun_keep:
  assumes "histosMap s v c = Some h"
  shows "\<exists>h'. histosMap (dqmEndRun s) v c = Some h' \<and> h_content h' = h_content h \<and> h_error h' = h_error h"
proof -
  obtain h' where h': "histosMap (dqmEndRun s) v c = Some h'"
    using assms fold_normalize_keep by (fastforce simp: dqmEndRun_def Let_def normalize_variable_def)
  with dqmEndRun_from [OF h'] assms show ?thesis by auto
qed

section \<open>Properties\<close>


text \<open>
  C22. The errors of the module: a step the framework allows fails only when a section's
  cache is a null pointer (the database lookup threw), or when an event of a section
  whose cache has a database spot carries no track collection, since analyze calls
  \<open>product()\<close> on the track handle without checking it (line 289).
\<close>

theorem step_progress:
  assumes "framework_allows s tr" and "monitor_step f tr s = Inl err"
  shows "(\<exists>l. err = Null_cache l \<and> lumi_cache s l = Some None) \<or>
         (\<exists>e info db. tr = Event e \<and> err = No_track_product (ev_lumi e) \<and> ev_tracks e = None \<and>
            lumi_cache s (ev_lumi e) = Some (Some info) \<and> beamSpotMap info DB = Some db)"
proof (cases tr)
  case (Event e)
  then obtain c where c: "lumi_cache s (ev_lumi e) = Some c"
    using assms(1) by (auto simp: is_open_def)
  then show ?thesis using assms(2) Event
    by (cases c) (auto simp: analyze_cases sample_tracks_def split: option.splits)
next
  case (EndLumi l)
  then obtain c where "lumi_cache s l = Some c"
    using assms(1) by (auto simp: is_open_def)
  then show ?thesis using assms(2) EndLumi
    by (cases c) (auto simp: globalEndLuminosityBlock_def luminosityBlockCache_def Let_def)
qed (use assms(2) in auto)

text \<open>
  C24. Track sampling in analyze depends on the database spot only: for an event of a
  section with a live cache, the track collection is read exactly when the cache has a
  "DB" spot; then each track adds \<open>(phi, -dxy)\<close> to hD0Phi0 and \<open>-dxy\<close> measured from the
  database position to hDxyBS, and an event without a track collection throws. Without
  a "DB" spot nothing is sampled and a missing collection is harmless; the scaler spot
  plays no part.
\<close>

theorem analyze_track_sampling:
  assumes "lumi_cache s (ev_lumi e) = Some (Some info)"
  shows "case beamSpotMap info DB of
           None \<Rightarrow> (\<exists>s'. analyze e s = Inr s' \<and> trackSamples s' = trackSamples s)
         | Some db \<Rightarrow>
             (case ev_tracks e of
                None \<Rightarrow> analyze e s = Inl (No_track_product (ev_lumi e))
              | Some ts \<Rightarrow>
                  (\<exists>s'. analyze e s = Inr s' \<and>
                     trackSamples s' = (fst (trackSamples s) @ map (\<lambda>t. (trk_phi t, - dxy t)) ts,
                                        snd (trackSamples s) @ map (\<lambda>t. - dxy_at t (bs_x0 db, bs_y0 db)) ts)))"
  using assms
  by (simp add: analyze_cases sample_tracks_def fold_sample_track split: option.split)


text \<open>
  C25. A section that received no events and got no fit (an empty cache, both fitters
  without a result) closes without error, leaves every series exactly as it was (every
  category has a gap at its bin), records its number and has its cache released.
\<close>

theorem empty_section_leaves_gaps:
  assumes "lumi_cache s l = Some (Some empty_info)"
    and "runPVandTrkFitter f (bf_events s) = None" and "runFitter f (pv_events s) = None"
  shows "\<exists>s'. monitor_step f (EndLumi l) s = Inr s' \<and> histosMap s' = histosMap s \<and>
           processedLumis s' = processedLumis s @ [sint l] \<and> lumi_cache s' l = None"
  using assms
  by (simp add: globalEndLuminosityBlock_def luminosityBlockCache_def run_fits_def Let_def
                fill_all_variables_empty)

text \<open>
  C26. With \<open>perLSsaving\<close> set, the category table is empty, so in every reachable state
  the module has no series: nothing is booked, filled or normalised, although the fits
  still run and the caches are still kept.
\<close>

theorem perLS_no_series:
  "reachable f allows True s \<Longrightarrow> histosMap s = (\<lambda>_ _. None)"
proof -
  assume "reachable f allows True s"
  then have "no_series s"
    by (induction rule: reachable.induct)
       (simp add: no_series_def AlcaBeamMonitor_def, blast intro: no_series_step)
  then show ?thesis by (simp add: no_series_def)
qed


text \<open>
  C29. In every reachable state, under any protocol, with processed sections: at the end
  of the run every booked series of the "lumi" and "validation" folders gets an x range,
  and every non-empty bin of the series lies strictly inside it. The invariant behind it
  (\<open>bins_processed\<close>) is that only the bins of processed sections are ever filled,
  and the range is set from the smallest to the largest processed section.
\<close>

theorem end_run_range_shows_filled:
  assumes "reachable f allows p s" and "processedLumis s \<noteq> []"
    and "category_scope c \<noteq> Run" and "in_catalog (perLSsaving s) c" and "histosMap s v c = Some h"
  shows "\<exists>h' lo hi. histosMap (dqmEndRun s) v c = Some h' \<and> h_range_user h' = Some (lo, hi) \<and>
           (\<forall>b. bin_filled h' b \<longrightarrow> lo < of_int b \<and> of_int b < hi)"
proof -
  let ?ls = "processedLumis s"
  have "category_scope c \<in> set (scopes_of (perLSsaving s))"
    using assms(4) by (rule scope_in_scopes_of)
  then obtain h' where h': "histosMap (dqmEndRun s) v c = Some h'"
    and r: "h_range_user h' = Some (of_int (Min (set ?ls)) - 0.5, of_int (Max (set ?ls)) + 0.5)"
    using fold_normalize_at [where c = c and p = "perLSsaving s" and hv = "histosMap s v" and h = h
        and scs = "scopes_of (perLSsaving s)" and a = "Min (set ?ls)" and b = "Max (set ?ls)",
        OF assms(3,4,5)]
    by (auto simp: dqmEndRun_nonempty [OF assms(2)] normalize_variable_def)
  have "lo < of_int b \<and> of_int b < hi"
    if "h_range_user h' = Some (lo, hi)" and "bin_filled h' b" for lo hi b
  proof -
    have "bin_filled h b"
      using dqmEndRun_from [OF h'] assms(5) that(2) by (auto simp: bin_filled_def GetBinError_def)
    then have "b \<in> set ?ls"
      using bins_processed_reachable [OF assms(1)] assms(3,5) by (auto simp: bins_processed_def)
    then have "Min (set ?ls) \<le> b" "b \<le> Max (set ?ls)" by simp_all
    then show ?thesis using r that(1) by (auto simp: of_int_le_iff [symmetric])
  qed
  with h' r show ?thesis by blast
qed


text \<open>
  C30. Sections are independent in the series: a transition other than the start of a
  run (which books the series afresh) leaves bin \<open>b\<close> of every "lumi" and "validation"
  series exactly as it was,
  value and error, unless it closes the section whose signed number is \<open>b\<close>. Missing
  data in one section, and the end-of-run normalisation, never change another section's
  bin.
\<close>

theorem other_sections_bins_kept:
  assumes "monitor_step f tr s = Inr s'" and "tr \<noteq> BeginRun" and "\<forall>l. tr = EndLumi l \<longrightarrow> sint l \<noteq> b"
    and "category_scope c \<noteq> Run" and "histosMap s v c = Some h"
  shows "\<exists>h'. histosMap s' v c = Some h' \<and> h_content h' b = h_content h b \<and> h_error h' b = h_error h b"
proof (cases tr)
  case (Event e)
  then show ?thesis using assms(1,5) by (auto elim: analyze_Inr)
next
  case (EndLumi l)
  then have st: "monitor_step f (EndLumi l) s = Inr s'" and lb: "sint l \<noteq> b" using assms(1,3) by simp_all
  obtain info where "histosMap s' = fill_all_variables (sint l) (run_fits f s info)
                          (histoByCategoryNames (perLSsaving s)) (histosMap s)"
    by (rule endLumi_Inr [OF st])
  then show ?thesis
    using fill_all_variables_keep [where hs = "histosMap s" and v = v and c = c and bin = "sint l", OF assms(5)] lb
    by (fastforce simp: agree_off_def)
next
  case EndRun
  then show ?thesis using assms(1) dqmEndRun_keep [OF assms(5)] by auto
qed (use assms in \<open>auto simp: beginLumi_def\<close>)

end
