(* ===== verification/Configuration.thy ===== *)
theory Configuration
  imports Monitor "HOL-Library.AList"
begin

text \<open>
  The module's configuration: the ParameterSet the framework hands to the constructor,
  the description \<open>fillDescriptions\<close> registers for it (AlcaBeamMonitor.cc lines 86--99),
  the framework's validation of a configuration against that description, the parameter
  reads of the constructor's initialiser list (lines 31--40), and the construction of the
  module from a configuration. The nested descriptions of BeamFitter and PVFitter are
  parameters of the model, and a nested ParameterSet is checked by its type only.
\<close>

section \<open>Parameter sets\<close>

datatype param_type = TString | TInputTag | TBool | TDouble | TInt | TPSet

text \<open>
  A parameter value. An \<open>edm::InputTag\<close> is kept as its encoded string
  ("label:instance:process"); a nested ParameterSet as its list of entries.
\<close>

datatype param_value =
    PString string | PInputTag string | PBool bool | PDouble real | PInt int
  | PPSet "(string \<times> bool \<times> param_value) list"

fun param_type_of :: "param_value \<Rightarrow> param_type" where
  "param_type_of (PString _) = TString"
| "param_type_of (PInputTag _) = TInputTag"
| "param_type_of (PBool _) = TBool"
| "param_type_of (PDouble _) = TDouble"
| "param_type_of (PInt _) = TInt"
| "param_type_of (PPSet _) = TPSet"

text \<open>
  An \<open>edm::ParameterSet\<close>: entries keyed by name, each tracked or untracked, with at most
  one entry per name (a \<open>std::map\<close> in the framework, an association list here).
\<close>

type_synonym parameter_set = "(string \<times> bool \<times> param_value) list"

datatype config_error =
    Missing_required string | Wrong_type string | Wrong_trackiness string
  | Illegal_parameters "string list" | Missing_parameter string

section \<open>The description\<close>

text \<open>
  One entry of an \<open>edm::ParameterSetDescription\<close>: \<open>addUntracked<T>(label, value)\<close>
  declares a parameter with a default, \<open>addUntracked<T>(label)\<close> one without.
\<close>

record param_desc =
  pd_label :: string
  pd_type :: param_type
  pd_tracked :: bool
  pd_default :: "param_value option"

definition untracked_desc :: "string \<Rightarrow> param_type \<Rightarrow> param_value option \<Rightarrow> param_desc" where
  "untracked_desc l t d = \<lparr>pd_label = l, pd_type = t, pd_tracked = False, pd_default = d\<rparr>"

text \<open>
  fillDescriptions, lines 86--99: the module's five parameters, then the descriptions that
  \<open>BeamFitter::fillDescription\<close> and \<open>PVFitter::fillDescription\<close> add. Only
  "MonitorName" has a default; "perLSsaving" has none.
\<close>

definition fillDescriptions :: "param_desc list \<Rightarrow> param_desc list \<Rightarrow> param_desc list" where
  "fillDescriptions beamFitterDesc pvFitterDesc =
     [untracked_desc ''MonitorName'' TString (Some (PString ''YourSubsystemName'')),
      untracked_desc ''PrimaryVertexLabel'' TInputTag None,
      untracked_desc ''TrackLabel'' TInputTag None,
      untracked_desc ''ScalerLabel'' TInputTag None,
      untracked_desc ''perLSsaving'' TBool None] @ beamFitterDesc @ pvFitterDesc"

text \<open>A description entry whose default has the declared type.\<close>

definition desc_wf :: "param_desc \<Rightarrow> bool" where
  "desc_wf d \<longleftrightarrow> (case pd_default d of None \<Rightarrow> True | Some v \<Rightarrow> param_type_of v = pd_type d)"

section \<open>Validation by the framework\<close>

text \<open>
  \<open>ParameterDescriptionBase::validate\<close>: a parameter present with the declared type and
  trackiness is accepted; present with the declared type but the other trackiness, or
  with another type, it is an error; absent, its default is inserted, and without a
  default it is a missing required parameter.
\<close>

definition validate_param :: "param_desc \<Rightarrow> parameter_set \<Rightarrow> config_error + parameter_set" where
  "validate_param d ps =
     (case map_of ps (pd_label d) of
        None \<Rightarrow> (case pd_default d of
                  None \<Rightarrow> Inl (Missing_required (pd_label d))
                | Some v \<Rightarrow> Inr (AList.update (pd_label d) (pd_tracked d, v) ps))
      | Some (tr, v) \<Rightarrow>
          if param_type_of v \<noteq> pd_type d then Inl (Wrong_type (pd_label d))
          else if tr \<noteq> pd_tracked d then Inl (Wrong_trackiness (pd_label d))
          else Inr ps)"

fun validate_descs :: "param_desc list \<Rightarrow> parameter_set \<Rightarrow> config_error + parameter_set" where
  "validate_descs [] ps = Inr ps"
| "validate_descs (d # ds) ps =
     (case validate_param d ps of Inl e \<Rightarrow> Inl e | Inr ps' \<Rightarrow> validate_descs ds ps')"

text \<open>
  The three labels the framework inserts into every module's ParameterSet are allowed
  without a description; any other undescribed parameter is illegal.
\<close>

definition framework_labels :: "string list" where
  "framework_labels = [''@module_label'', ''@module_type'', ''@module_edm_type'']"

definition illegal_labels :: "param_desc list \<Rightarrow> parameter_set \<Rightarrow> string list" where
  "illegal_labels ds ps =
     filter (\<lambda>l. l \<notin> set (map pd_label ds) \<and> l \<notin> set framework_labels) (map fst ps)"

text \<open>\<open>ParameterSetDescription::validate\<close>: every entry, then the illegal parameters.\<close>

definition validate :: "param_desc list \<Rightarrow> parameter_set \<Rightarrow> config_error + parameter_set" where
  "validate ds ps =
     (case validate_descs ds ps of
        Inl e \<Rightarrow> Inl e
      | Inr ps' \<Rightarrow> (let ill = illegal_labels ds ps' in
                    if ill = [] then Inr ps' else Inl (Illegal_parameters ill)))"

section \<open>The constructor's parameter reads\<close>

text \<open>
  \<open>ParameterSet::getUntrackedParameter<T>(name)\<close>: the untracked entry of that name and
  type, an exception otherwise; with a default, an absent entry gives the default.
\<close>

definition get_untracked :: "param_type \<Rightarrow> string \<Rightarrow> parameter_set \<Rightarrow> config_error + param_value" where
  "get_untracked t x ps =
     (case map_of ps x of
        None \<Rightarrow> Inl (Missing_parameter x)
      | Some (tr, v) \<Rightarrow>
          if tr then Inl (Wrong_trackiness x)
          else if param_type_of v \<noteq> t then Inl (Wrong_type x) else Inr v)"

definition get_untracked_default ::
    "param_type \<Rightarrow> string \<Rightarrow> param_value \<Rightarrow> parameter_set \<Rightarrow> config_error + param_value" where
  "get_untracked_default t x d ps = (case map_of ps x of None \<Rightarrow> Inr d | Some _ \<Rightarrow> get_untracked t x ps)"

fun param_string :: "param_value \<Rightarrow> string" where
  "param_string (PString s) = s"
| "param_string (PInputTag s) = s"
| "param_string _ = []"

fun param_bool :: "param_value \<Rightarrow> bool" where
  "param_bool (PBool b) = b"
| "param_bool _ = False"

text \<open>Lines 39--40: a non-empty monitor name becomes a folder prefix ending in "/".\<close>

definition folder_prefix :: "string \<Rightarrow> string" where
  "folder_prefix m = (if m = [] then [] else m @ ''/'')"

record module_config =
  monitorName :: string
  primaryVertexLabel :: string
  trackLabel :: string
  scalerLabel :: string
  cfg_perLSsaving :: bool

text \<open>Sequencing of reads that may throw: the first exception ends the constructor.\<close>

definition sbind :: "'e + 'a \<Rightarrow> ('a \<Rightarrow> 'e + 'b) \<Rightarrow> 'e + 'b" where
  "sbind m f = (case m of Inl e \<Rightarrow> Inl e | Inr x \<Rightarrow> f x)"

text \<open>The initialiser list, lines 31--40, in the order it is written.\<close>

definition read_parameters :: "parameter_set \<Rightarrow> config_error + module_config" where
  "read_parameters ps =
     sbind (get_untracked TString ''MonitorName'' ps) (\<lambda>mn.
     sbind (get_untracked TInputTag ''PrimaryVertexLabel'' ps) (\<lambda>pv.
     sbind (get_untracked TInputTag ''TrackLabel'' ps) (\<lambda>tk.
     sbind (get_untracked TInputTag ''ScalerLabel'' ps) (\<lambda>sc.
     sbind (get_untracked_default TBool ''perLSsaving'' (PBool False) ps) (\<lambda>pl.
       Inr \<lparr>monitorName = folder_prefix (param_string mn), primaryVertexLabel = param_string pv,
            trackLabel = param_string tk, scalerLabel = param_string sc,
            cfg_perLSsaving = param_bool pl\<rparr>)))))"

text \<open>
  The framework validates the module's configuration against the registered description,
  then runs the constructor on the validated ParameterSet.
\<close>

definition construct ::
    "param_desc list \<Rightarrow> param_desc list \<Rightarrow> parameter_set \<Rightarrow> config_error + module_config \<times> monitor_state" where
  "construct bf pv ps =
     sbind (validate (fillDescriptions bf pv) ps) (\<lambda>ps'.
     sbind (read_parameters ps') (\<lambda>cfg. Inr (cfg, AlcaBeamMonitor (cfg_perLSsaving cfg))))"

declare param_type_of.simps [model_defs] untracked_desc_def [model_defs] fillDescriptions_def [model_defs]
  validate_param_def [model_defs] framework_labels_def [model_defs] illegal_labels_def [model_defs]
  validate_def [model_defs] get_untracked_def [model_defs] get_untracked_default_def [model_defs]
  folder_prefix_def [model_defs] read_parameters_def [model_defs] construct_def [model_defs]

text \<open>An entry that satisfies a description entry.\<close>

definition satisfies :: "parameter_set \<Rightarrow> param_desc \<Rightarrow> bool" where
  "satisfies ps d \<longleftrightarrow>
     (\<exists>v. map_of ps (pd_label d) = Some (pd_tracked d, v) \<and> param_type_of v = pd_type d)"

text \<open>The five entries of the module itself.\<close>

definition module_descs :: "param_desc list" where
  "module_descs = take 5 (fillDescriptions [] [])"

section \<open>Facts about validation\<close>

lemma sbind_Inr_iff: "sbind m f = Inr y \<longleftrightarrow> (\<exists>x. m = Inr x \<and> f x = Inr y)"
  by (cases m) (simp_all add: sbind_def)

lemma sbind_simps [simp]: "sbind (Inl e) f = Inl e" "sbind (Inr x) f = f x"
  by (simp_all add: sbind_def)

lemma validate_param_keeps: "validate_param d ps = Inr ps' \<Longrightarrow> map_of ps x = Some e \<Longrightarrow> map_of ps' x = Some e"
  by (auto simp: validate_param_def update_conv' split: option.splits if_splits)

lemma validate_param_ok: "validate_param d ps = Inr ps' \<Longrightarrow> desc_wf d \<Longrightarrow> satisfies ps' d"
  by (auto simp: validate_param_def satisfies_def desc_wf_def update_conv' split: option.splits if_splits)

lemma validate_descs_keeps:
  "validate_descs ds ps = Inr ps' \<Longrightarrow> map_of ps x = Some e \<Longrightarrow> map_of ps' x = Some e"
  by (induction ds arbitrary: ps) (auto split: sum.splits dest: validate_param_keeps)

lemma satisfies_keeps: "(\<And>e. map_of ps (pd_label d) = Some e \<Longrightarrow> map_of ps' (pd_label d) = Some e) \<Longrightarrow>
  satisfies ps d \<Longrightarrow> satisfies ps' d"
  by (auto simp: satisfies_def)

lemma validate_descs_ok:
  "validate_descs ds ps = Inr ps' \<Longrightarrow> d \<in> set ds \<Longrightarrow> desc_wf d \<Longrightarrow> satisfies ps' d"
proof (induction ds arbitrary: ps)
  case (Cons d' ds)
  then obtain ps1 where v1: "validate_param d' ps = Inr ps1" and v2: "validate_descs ds ps1 = Inr ps'"
    by (auto split: sum.splits)
  show ?case
  proof (cases "d \<in> set ds")
    case True
    with Cons.IH [OF v2] Cons.prems(3) show ?thesis by blast
  next
    case False
    with Cons.prems(2) have "d = d'" by simp
    with v1 Cons.prems(3) have "satisfies ps1 d" by (simp add: validate_param_ok)
    then show ?thesis by (rule satisfies_keeps [rotated]) (use v2 validate_descs_keeps in blast)
  qed
qed simp

lemma validate_Inr:
  assumes "validate ds ps = Inr ps'"
  shows "validate_descs ds ps = Inr ps'" and "illegal_labels ds ps' = []"
  using assms by (auto simp: validate_def Let_def split: sum.splits if_splits)

lemma param_type_of_iff:
  "param_type_of v = TString \<longleftrightarrow> (\<exists>s. v = PString s)"
  "param_type_of v = TInputTag \<longleftrightarrow> (\<exists>s. v = PInputTag s)"
  "param_type_of v = TBool \<longleftrightarrow> (\<exists>b. v = PBool b)"
  by (cases v; simp)+

lemma validate_param_other: "validate_param d ps = Inr ps' \<Longrightarrow> x \<noteq> pd_label d \<Longrightarrow> map_of ps' x = map_of ps x"
  by (auto simp: validate_param_def update_conv' split: option.splits if_splits)

text \<open>
  A required entry without a default must be in the configuration, unless an earlier
  entry of the same label inserted a default.
\<close>

lemma validate_descs_required:
  "validate_descs (pre @ d # post) ps = Inr ps' \<Longrightarrow> pd_label d \<notin> pd_label ` set pre \<Longrightarrow>
   pd_default d = None \<Longrightarrow> map_of ps (pd_label d) \<noteq> None"
proof (induction pre arbitrary: ps)
  case Nil
  then show ?case by (auto simp: validate_param_def split: sum.splits option.splits)
next
  case (Cons d' pre)
  then obtain ps1 where v1: "validate_param d' ps = Inr ps1"
    and "validate_descs (pre @ d # post) ps1 = Inr ps'" by (auto split: sum.splits)
  with Cons have "map_of ps1 (pd_label d) \<noteq> None" by simp
  with v1 Cons.prems(2) show ?case by (simp add: validate_param_other)
qed

lemma validate_descs_default:
  "validate_descs (d # ds) ps = Inr ps' \<Longrightarrow> map_of ps (pd_label d) = None \<Longrightarrow> pd_default d = Some v \<Longrightarrow>
   map_of ps' (pd_label d) = Some (pd_tracked d, v)"
  by (auto simp: validate_param_def update_conv' split: sum.splits dest: validate_descs_keeps)

lemma fillDescriptions_module: "fillDescriptions bf pv = module_descs @ bf @ pv"
  by (simp add: fillDescriptions_def module_descs_def)

lemma module_descs_validated:
  assumes "validate (fillDescriptions bf pv) ps = Inr ps'" and "d \<in> set module_descs"
  shows "satisfies ps' d"
proof -
  have "validate_descs (fillDescriptions bf pv) ps = Inr ps'" using assms(1) by (rule validate_Inr)
  moreover have "desc_wf d" using assms(2)
    by (auto simp: module_descs_def fillDescriptions_def desc_wf_def untracked_desc_def)
  ultimately show ?thesis using assms(2) by (auto simp: fillDescriptions_module intro: validate_descs_ok)
qed

lemma read_parameters_ok:
  assumes "\<And>d. d \<in> set module_descs \<Longrightarrow> satisfies ps d"
  obtains mn pvl tk sc b where "read_parameters ps =
       Inr \<lparr>monitorName = folder_prefix mn, primaryVertexLabel = pvl, trackLabel = tk, scalerLabel = sc,
            cfg_perLSsaving = b\<rparr>"
    and "map_of ps ''MonitorName'' = Some (False, PString mn)"
    and "map_of ps ''perLSsaving'' = Some (False, PBool b)"
proof -
  have m: "satisfies ps (untracked_desc ''MonitorName'' TString (Some (PString ''YourSubsystemName'')))"
    "satisfies ps (untracked_desc ''PrimaryVertexLabel'' TInputTag None)"
    "satisfies ps (untracked_desc ''TrackLabel'' TInputTag None)"
    "satisfies ps (untracked_desc ''ScalerLabel'' TInputTag None)"
    "satisfies ps (untracked_desc ''perLSsaving'' TBool None)"
    by (simp_all add: assms module_descs_def fillDescriptions_def)
  from m(1) obtain mn where 1: "map_of ps ''MonitorName'' = Some (False, PString mn)"
    by (auto simp: satisfies_def untracked_desc_def param_type_of_iff)
  from m(2) obtain pvl where 2: "map_of ps ''PrimaryVertexLabel'' = Some (False, PInputTag pvl)"
    by (auto simp: satisfies_def untracked_desc_def param_type_of_iff)
  from m(3) obtain tk where 3: "map_of ps ''TrackLabel'' = Some (False, PInputTag tk)"
    by (auto simp: satisfies_def untracked_desc_def param_type_of_iff)
  from m(4) obtain sc where 4: "map_of ps ''ScalerLabel'' = Some (False, PInputTag sc)"
    by (auto simp: satisfies_def untracked_desc_def param_type_of_iff)
  from m(5) obtain b where 5: "map_of ps ''perLSsaving'' = Some (False, PBool b)"
    by (auto simp: satisfies_def untracked_desc_def param_type_of_iff)
  show ?thesis
    by (rule that [of mn pvl tk sc b]) (simp_all add: read_parameters_def get_untracked_def
          get_untracked_default_def 1 2 3 4 5)
qed

lemma construct_Inr:
  assumes "construct bf pv ps = Inr (cfg, s)"
  obtains ps' where "validate (fillDescriptions bf pv) ps = Inr ps'" and "read_parameters ps' = Inr cfg"
    and "s = AlcaBeamMonitor (cfg_perLSsaving cfg)"
  using assms by (auto simp: construct_def sbind_Inr_iff)

section \<open>Properties of the configuration\<close>

text \<open>
  C31. The constructor never throws on a configuration the framework accepted: building
  the module fails exactly when the validation against fillDescriptions' description
  fails, whatever the two fitters add to the description.
\<close>

theorem construct_fails_iff_invalid:
  "isl (construct bf pv ps) \<longleftrightarrow> isl (validate (fillDescriptions bf pv) ps)"
proof (cases "validate (fillDescriptions bf pv) ps")
  case (Inr ps')
  then have "\<And>d. d \<in> set module_descs \<Longrightarrow> satisfies ps' d" by (rule module_descs_validated)
  then obtain cfg where "read_parameters ps' = Inr cfg" by (rule read_parameters_ok) blast
  then show ?thesis using Inr by (simp add: construct_def)
qed (simp add: construct_def)

text \<open>
  C32. The default \<open>false\<close> of \<open>getUntrackedParameter<bool>("perLSsaving", false)\<close>
  (line 37) is never used: fillDescriptions declares "perLSsaving" without a default, so
  every module that is built took the flag, untracked and boolean, from the
  configuration, and a configuration that omits it is rejected.
\<close>

theorem perLSsaving_from_configuration:
  assumes "construct bf pv ps = Inr (cfg, s)"
  shows "map_of ps ''perLSsaving'' = Some (False, PBool (cfg_perLSsaving cfg)) \<and>
         s = AlcaBeamMonitor (cfg_perLSsaving cfg)"
proof -
  obtain ps' where v: "validate (fillDescriptions bf pv) ps = Inr ps'" and r: "read_parameters ps' = Inr cfg"
    and s: "s = AlcaBeamMonitor (cfg_perLSsaving cfg)"
    using assms by (rule construct_Inr)
  have "\<And>d. d \<in> set module_descs \<Longrightarrow> satisfies ps' d" using v by (rule module_descs_validated)
  then obtain mn pvl tk sc b where r': "read_parameters ps' =
       Inr \<lparr>monitorName = folder_prefix mn, primaryVertexLabel = pvl, trackLabel = tk, scalerLabel = sc,
            cfg_perLSsaving = b\<rparr>"
    and p': "map_of ps' ''perLSsaving'' = Some (False, PBool b)"
    by (rule read_parameters_ok)
  have b: "cfg_perLSsaving cfg = b" using r r' by auto
  have vd: "validate_descs (take 4 module_descs @ untracked_desc ''perLSsaving'' TBool None # bf @ pv) ps = Inr ps'"
    using validate_Inr(1) [OF v] by (simp add: fillDescriptions_def module_descs_def)
  have "map_of ps ''perLSsaving'' \<noteq> None"
    using validate_descs_required [OF vd] by (simp add: module_descs_def fillDescriptions_def untracked_desc_def)
  then obtain e where e: "map_of ps ''perLSsaving'' = Some e" by blast
  then have "map_of ps' ''perLSsaving'' = Some e"
    using validate_Inr(1) [OF v] by (rule validate_descs_keeps [rotated])
  with p' e b s show ?thesis by simp
qed

text \<open>
  C33. The folder prefix of a built module is the configured "MonitorName", or the
  description's default "YourSubsystemName" when the configuration has none, followed by
  a "/" unless it is empty.
\<close>

theorem monitor_name_prefix:
  assumes "construct bf pv ps = Inr (cfg, s)"
  shows "monitorName cfg =
           (let m = (case map_of ps ''MonitorName'' of
                       None \<Rightarrow> ''YourSubsystemName''
                     | Some (_, v) \<Rightarrow> param_string v)
            in if m = [] then [] else m @ ''/'')"
proof -
  obtain ps' where v: "validate (fillDescriptions bf pv) ps = Inr ps'" and r: "read_parameters ps' = Inr cfg"
    using assms by (rule construct_Inr)
  have vd: "validate_descs (fillDescriptions bf pv) ps = Inr ps'" using v by (rule validate_Inr)
  have "\<And>d. d \<in> set module_descs \<Longrightarrow> satisfies ps' d" using v by (rule module_descs_validated)
  then obtain mn where r': "monitorName cfg = folder_prefix mn"
    and m': "map_of ps' ''MonitorName'' = Some (False, PString mn)"
    by (rule read_parameters_ok) (use r in auto)
  show ?thesis
  proof (cases "map_of ps ''MonitorName''")
    case None
    then have "map_of ps' ''MonitorName'' = Some (False, PString ''YourSubsystemName'')"
      using validate_descs_default [where d = "untracked_desc ''MonitorName'' TString (Some (PString ''YourSubsystemName''))"]
        vd by (simp add: fillDescriptions_def untracked_desc_def)
    with None m' r' show ?thesis by (simp add: folder_prefix_def)
  next
    case (Some e)
    with vd have "map_of ps' ''MonitorName'' = Some e" by (rule validate_descs_keeps)
    with Some m' r' show ?thesis by (auto simp: folder_prefix_def)
  qed
qed

end
