(* ===== verification/Booking.thy ===== *)
theory Booking
  imports Configuration
begin

text \<open>
  Where bookHistograms (AlcaBeamMonitor.cc lines 103--224) puts each MonitorElement and
  what it calls it: the folder under the configured prefix, the name
  \<open>"h" + variable + category\<close>, and the full path the DQM store keys it by. Booking
  sizes and null entries are in Catalog.
\<close>

section \<open>Definitions\<close>

text \<open>Lines 109, 181, 185--195: "run" and "lumi" series go to Debug, "validation" ones to Validation.\<close>

definition folder_name :: "scope \<Rightarrow> string" where
  "folder_name sc = (case sc of Validation \<Rightarrow> ''Validation'' | _ \<Rightarrow> ''Debug'')"

text \<open>Lines 112 and 172: \<open>name = string("h") + itM->first + itMM->first\<close>.\<close>

definition me_name :: "var \<Rightarrow> category \<Rightarrow> string" where
  "me_name v c = ''h'' @ var_name v @ category_name c"

text \<open>The DQM store's key of a MonitorElement: its folder, a slash, its name.\<close>

definition me_path :: "module_config \<Rightarrow> var \<Rightarrow> category \<Rightarrow> string" where
  "me_path cfg v c = monitorName cfg @ folder_name (category_scope c) @ ''/'' @ me_name v c"

text \<open>Lines 215--222: the two track histograms.\<close>

definition track_paths :: "module_config \<Rightarrow> string list" where
  "track_paths cfg = [monitorName cfg @ ''Validation/hD0Phi0'', monitorName cfg @ ''Debug/hDxyBS'']"

declare folder_name_def [model_defs] me_name_def [model_defs] me_path_def [model_defs]
  track_paths_def [model_defs]

section \<open>Facts about the names\<close>

text \<open>No variable name is a prefix of another, so a name followed by anything determines it.\<close>

lemma var_name_append_inj: "var_name v @ xs = var_name v' @ ys \<longleftrightarrow> v = v' \<and> xs = ys"
  by (cases v; cases v') (simp_all add: var_name_def)

lemma category_name_inj: "category_name c = category_name c' \<longleftrightarrow> c = c'"
  by (cases c; cases c') (simp_all add: category_name_def)

lemma folder_name_slash:
  "folder_name s @ CHR ''/'' # xs = folder_name s' @ CHR ''/'' # ys \<longleftrightarrow>
   folder_name s = folder_name s' \<and> xs = ys"
  by (cases s; cases s') (simp_all add: folder_name_def)

lemma var_name_hd: "var_name v \<noteq> [] \<and> hd (var_name v) \<in> {CHR ''x'', CHR ''y'', CHR ''z'', CHR ''s''}"
  by (cases v) (simp_all add: var_name_def)

section \<open>Properties\<close>

text \<open>
  C34. Every MonitorElement bookHistograms creates has its own path in the DQM store:
  two series have the same path only if they are the same (variable, category), and no
  series has the path of one of the two track histograms, which differ from each other.
\<close>

theorem booking_paths_distinct:
  "(me_path cfg v c = me_path cfg v' c' \<longleftrightarrow> v = v' \<and> c = c') \<and>
   me_path cfg v c \<notin> set (track_paths cfg) \<and> distinct (track_paths cfg)"
proof (intro conjI)
  show "me_path cfg v c = me_path cfg v' c' \<longleftrightarrow> v = v' \<and> c = c'"
    by (auto simp: me_path_def me_name_def folder_name_slash var_name_append_inj category_name_inj)
  obtain a r where "var_name v = a # r" and "a \<in> {CHR ''x'', CHR ''y'', CHR ''z'', CHR ''s''}"
    using var_name_hd [of v] by (cases "var_name v") auto
  then show "me_path cfg v c \<notin> set (track_paths cfg)"
    by (cases "category_scope c") (auto simp: me_path_def me_name_def track_paths_def folder_name_def)
  show "distinct (track_paths cfg)" by (simp add: track_paths_def)
qed

end
