(* ===== verification/Spec2Isabelle.thy ===== *)
theory Spec2Isabelle
  imports SeriesSpec Invariants Booking
begin

text \<open>
  \<^bold>\<open>A verification model of the AlcaBeamMonitor DQM module\<close>
  (src/DQM/BeamMonitor/plugins/AlcaBeamMonitor.cc).

  \<^bold>\<open>The program.\<close> The module compares four estimates of the beam spot, per luminosity
  section (LS): the conditions database ("DB", read when the section opens), the online
  scalers ("SC", taken from the first event that carries one), the track-based
  BeamFitter ("BF") and the vertex-based PVFitter ("PV"), both run when the section
  closes. Its parts and how they interact:
  \<^item> the catalog of time series (constructor, bookHistograms): six variables times
    sixteen categories in three folders, some left null;
  \<^item> the per-section cache \<open>BeamSpotInfo\<close> (globalBeginLuminosityBlock creates it,
    analyze writes it for every event, globalEndLuminosityBlock reads it);
  \<^item> the consistency engine (globalEndLuminosityBlock): fits, projections of the spots of
    type Tracker, and the per-category formulas that fill each series;
  \<^item> the range normaliser (dqmEndRun): display bounds from the filled bins;
  \<^item> the module state shared by all sections: the fitters' event buffers, the list of
    processed sections and the two track distributions.

  \<^bold>\<open>Theories.\<close>
  \<^item> \<open>Prelude\<close>: type names (\<open>lumi\<close> = 32-bit words, \<open>value_err\<close>), theorem collections
    \<open>model_defs\<close> and \<open>frame_simps\<close>, folds that compute \<open>Min\<close>/\<open>Max\<close>, the
    overwrite-one-slot fold, sorted-list extremes, \<open>quad_sum\<close>, and \<open>sint_lumi\<close> (a
    section number read as a signed \<open>int\<close>).
  \<^item> \<open>BeamSpot\<close>: \<open>reco::BeamSpot\<close> with its error accessors, \<open>BeamSpotObjects\<close> and its
    translation \<open>spot_from_db\<close> (lines 241--268), source keys, vertices and their
    selection (lines 301--305), tracks and their impact parameters.
  \<^item> \<open>Histogram\<close>: the ROOT/MonitorElement operations used (booking, \<open>Fill\<close>, bin
    setters with ROOT's range rule, the \<open>GetMinimum\<close>/\<open>GetMaximum\<close> scans, bounds).
    \<open>Fill\<close> records the filled value and does not update bin contents.
  \<^item> \<open>Catalog\<close>: variables, scopes (a \<open>linorder\<close> instance equal to the string order of
    the multimap keys), categories, the multimap order (\<open>histoByCategoryNames\<close>) and the
    booking table (\<open>book_histo\<close>, \<open>bookHistograms_series\<close>).
  \<^item> \<open>IntervalCache\<close>: \<open>beam_spot_info\<close>, \<open>globalBeginLuminosityBlock\<close>, and the per-event
    updates of analyze (\<open>sample_tracks\<close>, \<open>record_vertices\<close>, \<open>record_scaler\<close>).
  \<^item> \<open>Consistency\<close>: \<open>resultsMap\<close>, \<open>vertexResults\<close>, \<open>rm_index\<close> (\<open>operator[]\<close>),
    \<open>fill_category\<close> (one branch per category, lines 395--488), the category loop
    \<open>fill_variable\<close> with the results map threaded as state, \<open>fill_all_variables\<close>.
    Its main lemma \<open>fill_variable_at\<close> says what each series receives.
  \<^item> \<open>RangeNormalizer\<close>: the two passes of dqmEndRun per folder (\<open>scan_series\<close>,
    \<open>set_bounds\<close>, \<open>normalize_scope\<close>, \<open>normalize_variable\<close>); the scan is shown to
    compute the pooled group extremes (\<open>scan_series_extremes\<close>).
  \<^item> \<open>SeriesSpec\<close>: the spec's SeriesStore contract (a series as a bin view, Table 1 as
    \<open>spec_entry\<close> and \<open>run_spec_entries\<close>) and the refinement of it by the engine.
  \<^item> \<open>Monitor\<close>: the module state (\<open>monitor_state\<close>), the handlers as functions on it
    (\<open>AlcaBeamMonitor\<close>, \<open>bookHistograms\<close>, \<open>analyze\<close>, \<open>globalEndLuminosityBlock\<close>,
    \<open>dqmEndRun\<close>), the framework as \<open>monitor_step\<close> over a \<open>transition\<close> datatype, a run
    \<open>run_transitions\<close>, and \<open>reachable\<close>, an inductive relation parameterised by the
    protocol (\<open>framework_allows\<close>: overlapping sections; \<open>serial_allows\<close>: one at a time).
  \<^item> \<open>Invariants\<close>: invariants of the reachable states (rule induction on
    \<open>reachable\<close>: \<open>caches_wf\<close>, \<open>no_series\<close>, \<open>bins_processed\<close>) and the progress
    of the handlers.
  \<^item> \<open>Configuration\<close>: the ParameterSet (\<open>parameter_set\<close>, typed and tracked or
    untracked entries), the description \<open>fillDescriptions\<close> registers (lines 86--100),
    the framework's validation against it (\<open>validate\<close>: defaults inserted, missing,
    wrong type, wrong trackiness and illegal parameters as \<open>config_error\<close> values), the
    constructor's reads (\<open>read_parameters\<close>, lines 31--40, with \<open>getUntrackedParameter\<close>
    as \<open>get_untracked\<close>), and \<open>construct\<close>: validation, then the constructor, then
    \<open>AlcaBeamMonitor\<close> with the configured flag.
  \<^item> \<open>Booking\<close>: the folder, name and DQM path of every MonitorElement bookHistograms
    creates (\<open>me_path\<close>, \<open>track_paths\<close>).
  \<^item> this theory: example inputs (the spec's scenarios, a configuration), the witnesses,
    and the end-to-end property.

  \<^bold>\<open>What is proved.\<close>
  \<^item> Consistency engine: a difference series holds the difference with the quadrature
    error (C1); a missing operand leaves a gap (C2); a DB spot not of type Tracker is read
    as zero by the validation series (C3, a defect: \<open>operator[]\<close> inserts (0,0)); the
    per-vertex validation bin keeps only the last vertex (C4); closing touches only the
    section's bin of a "lumi" or "validation" series (C5) and closing twice leaves such a
    series as closing once (C6); the engine
    refines the SeriesStore contract on the "lumi" folder (C20) and on the "run" folder
    when the DB spot is absent or Tracker, on the values it appends (C27); the spec's
    end-to-end example (C19).
  \<^item> Range normaliser: bounds contain every filled bin (C7), the difference padding
    \<open>k = 2\<close> over the folder's pooled extremes (C8), the \<open>\<plusminus>0.01\<close> fallback (C9), and
    the x range is \<open>[min - 0.5, max + 0.5]\<close> of the processed sections (C16).
  \<^item> Module: serial sections feed each fit exactly its own events (C10), overlapping
    sections mix them (C11, a counterexample); a DB exception yields a null cache on
    which events and the close fail (C12); an open cache keeps its DB spot and its SC spot
    once set, and its vertices only grow (C13); any order of events records every
    selected vertex once when every event carries its tracks (C14); processedLumis_
    accumulates across runs (C15); cached DB/SC spots are Tracker or Fake (C21); an
    allowed step fails only on a null cache or on an event without a track collection in
    a section with a DB spot (C22, \<open>product()\<close> is not checked); tracks are read and
    sampled iff the DB spot is present (C24); an empty section closes leaving gaps (C25);
    with perLSsaving nothing is ever booked (C26); the per-vertex validation bin
    depends on the order of the section's events (C28, a counterexample); only processed
    sections' bins of the "lumi" and "validation" series are ever filled (the invariant
    \<open>bins_processed\<close>), so the x range set at the end of the run strictly contains every
    non-empty bin (C29); no transition but the start of a run and the closing of section
    \<open>b\<close> changes bin \<open>b\<close> of those series (C30).
  \<^item> Data: the DB payload reads back through the projection (C23); the width variables'
    booking asymmetry (C17); section numbers reach a bin iff \<open>uint l \<le> 3001\<close> (C18).
  \<^item> Configuration: the constructor never throws on a validated configuration (C31); its
    default for "perLSsaving" is dead, the flag always comes from the configuration (C32,
    a defect); the folder prefix is the configured or default monitor name with a "/"
    (C33).
  \<^item> Booking: every MonitorElement has its own DQM path (C34).

  \<^bold>\<open>Modelling choices.\<close> Doubles are reals (no rounding; the spec's "within
  floating-point tolerance" is exact here). Section numbers are 32-bit words, converted
  to the signed \<open>int\<close> bin index with \<open>sint\<close> as the C++ conversion does. The framework's
  \<open>LuminosityBlockCache\<close> is a map from section numbers to \<open>None\<close> (not open),
  \<open>Some None\<close> (null pointer) or the cache; the framework keys it by a reused
  \<open>LuminosityBlockIndex\<close>, which the model does not represent, so no claim rests on
  the missing-cache error. A dereference of a null cache and \<open>product()\<close> on a missing
  track collection are error values (\<open>monitor_error\<close>), not undefined behaviour.
  \<open>Fill\<close> keeps the filled values and leaves bin contents alone, so the bins of the "run"
  series are not modelled and every claim about bins is stated for the "lumi" and
  "validation" series. \<open>std::multimap\<close> order is
  a stable sort on the keys; \<open>std::map::operator[]\<close> is \<open>rm_index\<close>. Every loop of the
  module is a fold over a finite list (tracks, vertices, categories, variables, bins),
  so every definition is total by construction; \<open>run_transitions\<close> is structural
  recursion on the transition list. The bin loops of dqmEndRun are folds over
  \<open>histo_bins\<close> (bins 1 to \<open>GetNbinsX()\<close>, which never reaches \<open>INT_MAX\<close> here).

  \<^bold>\<open>Not modelled.\<close> The fit algorithms of BeamFitter and PVFitter (external engines;
  modelled as arbitrary functions from the events read since the last reset to an
  optional spot); the profile binning of \<open>hD0Phi0_\<close> and the binning of run-level
  histograms (the model keeps the filled values); plot and axis titles and
  \<open>setEfficiencyFlag\<close> (display only); the contents of
  the fitters' nested descriptions (parameters of \<open>fillDescriptions\<close>; a nested
  ParameterSet is checked by its type only); \<open>DEFINE_FWK_MODULE\<close> and the
  \<open>consumes\<close>/\<open>esConsumes\<close> tokens (plugin registration and product access: the
  products they fetch are the inputs of the model); logging, which has no effect on the
  state. Beyond these, every line of AlcaBeamMonitor.cc is translated by a definition.
\<close>

section \<open>Example inputs\<close>

text \<open>
  The scenario of the spec's end-to-end example: section 5, a database spot at
  x = 0.01 (error 0.001), a vertex fit at x = 0.012 (error 0.002) and three sampled
  vertices at x = 0.011, 0.013 and 0.009 (error 0.003 each).
\<close>

definition ex_spot :: "real \<Rightarrow> real \<Rightarrow> beam_type \<Rightarrow> beam_spot" where
  "ex_spot x var_x t =
     (make_beam_spot (x, 0, 0) 0 0 0 0 (\<lambda>i j. if i = 0 \<and> j = 0 then var_x else 0))\<lparr>bs_type := t\<rparr>"

definition ex_db :: beam_spot where "ex_db = ex_spot 0.01 0.000001 Tracker"
definition ex_pv :: beam_spot where "ex_pv = ex_spot 0.012 0.000004 Tracker"
definition ex_sc :: beam_spot where "ex_sc = ex_spot 0.011 0.000009 Tracker"
definition ex_fake_db :: beam_spot where "ex_fake_db = ex_spot 0.01 0.000001 Fake"

definition ex_vertex :: "real \<Rightarrow> pv_pos_and_err" where
  "ex_vertex x = \<lparr>xWithError = (x, 0.003), yWithError = (0, 0), zWithError = (0, 0)\<rparr>"

definition ex_info :: beam_spot_info where
  "ex_info = \<lparr>beamSpotMap = [DB \<mapsto> ex_db, PV \<mapsto> ex_pv],
              vertices = [[ex_vertex 0.011, ex_vertex 0.013, ex_vertex 0.009]]\<rparr>"

definition ex_info_fake_db :: beam_spot_info where
  "ex_info_fake_db = \<lparr>beamSpotMap = [DB \<mapsto> ex_fake_db, SC \<mapsto> ex_sc], vertices = []\<rparr>"

definition ex_info_no_pv :: beam_spot_info where
  "ex_info_no_pv = \<lparr>beamSpotMap = [DB \<mapsto> ex_db], vertices = []\<rparr>"

definition ex_series :: series where
  "ex_series = bookHistograms_series False (\<lambda>_ _. None) X"

text \<open>
  Two three-bin series for the end-of-run pass: a difference series holding 10, 20 and 30
  (the spec's example of the \<open>k = 2\<close> padding) and an absolute series holding one
  value, 5.
\<close>

definition ex_delta :: histo where
  "ex_delta = setBinContent (setBinContent (setBinContent (book1D 3 0.5 3.5) 1 10) 2 20) 3 30"

definition ex_delta_series :: series where
  "ex_delta_series = (\<lambda>c. if c = LB_PV_DataBase then Some ex_delta else None)"

definition ex_abs :: histo where
  "ex_abs = setBinContent (book1D 3 0.5 3.5) 2 5"

definition ex_abs_series :: series where
  "ex_abs_series = (\<lambda>c. if c = LB_DataBase then Some ex_abs else None)"

text \<open>
  Inputs of the module-level examples: fitters whose vertex fit succeeds on any non-empty
  buffer, raw vertices, events, a section opened with an invalid database handle, and a
  job of two runs.
\<close>

definition ex_fitters :: fitters where
  "ex_fitters = \<lparr>runPVandTrkFitter = (\<lambda>_. None), runFitter = (\<lambda>es. if es = [] then None else Some (make_beam_spot (0.012, 0, 0) 0 0 0 0 (\<lambda>_ _. 0)))\<rparr>"

definition ex_raw_vertex :: "real \<Rightarrow> nat \<Rightarrow> vertex" where
  "ex_raw_vertex x n = \<lparr>vx_x = x, vx_y = 0, vx_z = 0, vx_x_err = 0.003, vx_y_err = 0, vx_z_err = 0,
                        vx_is_fake = False, vx_tracks_size = n\<rparr>"

definition ex_event :: "lumi \<Rightarrow> vertex list option \<Rightarrow> event" where
  "ex_event l pvs = \<lparr>ev_lumi = l, ev_tracks = Some [], ev_pvs = pvs, ev_scaler = None\<rparr>"

definition ex_open :: "lumi \<Rightarrow> monitor_state" where
  "ex_open l = beginLumi l DB_Invalid (AlcaBeamMonitor False)"

definition ex_two_runs :: "transition list" where
  "ex_two_runs = [BeginRun, BeginLumi 1 DB_Invalid, EndLumi 1, EndRun,
                  BeginRun, BeginLumi 5 DB_Invalid, EndLumi 5, EndRun]"

text \<open>
  The spec's end-to-end scenario driven through the framework: a run is started,
  section 5 opens with a database payload at x = 0.01 (variance \<open>10^-6\<close>, type 2 =
  Tracker), one event brings three selected vertices at x = 0.011, 0.013 and 0.009, and
  the vertex fit returns x = 0.012 with error 0.002 when the section closes.
\<close>

definition ex_db_objects :: beam_spot_objects where
  "ex_db_objects =
     \<lparr>db_x = 0.01, db_y = 0, db_z = 0, db_sigma_z = 0, db_dxdz = 0, db_dydz = 0, db_width_x = 0,
      db_width_y = 0, db_cov = (\<lambda>i j. if i = 0 \<and> j = 0 then 0.000001 else 0), db_emittance_x = 0,
      db_emittance_y = 0, db_beta_star = 0, db_beam_type = 2\<rparr>"

definition ex_pv_fitters :: fitters where
  "ex_pv_fitters = \<lparr>runPVandTrkFitter = (\<lambda>_. None), runFitter = (\<lambda>_. Some ex_pv)\<rparr>"

definition ex_event5 :: event where
  "ex_event5 = ex_event 5 (Some [ex_raw_vertex 0.011 12, ex_raw_vertex 0.013 12, ex_raw_vertex 0.009 12])"

definition ex_section5_run :: "transition list" where
  "ex_section5_run = [BeginRun, BeginLumi 5 (DB_Valid ex_db_objects), Event ex_event5, EndLumi 5]"

definition ex_info_vs :: "pv_pos_and_err list list \<Rightarrow> beam_spot_info" where
  "ex_info_vs vs = \<lparr>beamSpotMap = [DB \<mapsto> spot_from_db ex_db_objects, PV \<mapsto> ex_pv], vertices = vs\<rparr>"

definition ex_info5 :: beam_spot_info where
  "ex_info5 = ex_info_vs [[pv_of_vertex (ex_raw_vertex 0.011 12), pv_of_vertex (ex_raw_vertex 0.013 12),
                           pv_of_vertex (ex_raw_vertex 0.009 12)]]"

text \<open>The same section with two events of one vertex each, in a given order.\<close>

definition ex_run5 :: "event list \<Rightarrow> transition list" where
  "ex_run5 es = [BeginRun, BeginLumi 5 (DB_Valid ex_db_objects)] @ map Event es @ [EndLumi 5]"

definition ex_event_at :: "real \<Rightarrow> event" where
  "ex_event_at x = ex_event 5 (Some [ex_raw_vertex x 12])"

text \<open>A section opened with the database payload, and a track of transverse momentum 1
  passing 0.02 from the origin.\<close>

definition ex_db_open :: monitor_state where
  "ex_db_open = beginLumi 1 (DB_Valid ex_db_objects) (AlcaBeamMonitor False)"

definition ex_track :: track where
  "ex_track = \<lparr>trk_vx = 0.02, trk_vy = 0, trk_px = 0, trk_py = 1, trk_phi = 1.5\<rparr>"

text \<open>
  A configuration: the fitters' nested descriptions, and ParameterSets with the framework's
  labels and the module's input tags, with and without "MonitorName" and "perLSsaving".
\<close>

definition ex_bf_descs :: "param_desc list" where
  "ex_bf_descs = [\<lparr>pd_label = ''BeamFitter'', pd_type = TPSet, pd_tracked = True, pd_default = Some (PPSet [])\<rparr>]"

definition ex_pv_descs :: "param_desc list" where
  "ex_pv_descs = [\<lparr>pd_label = ''PVFitter'', pd_type = TPSet, pd_tracked = True, pd_default = Some (PPSet [])\<rparr>]"

definition ex_pset_base :: parameter_set where
  "ex_pset_base =
     [(''@module_label'', True, PString ''alcaBeamMonitor''),
      (''@module_type'', True, PString ''AlcaBeamMonitor''),
      (''PrimaryVertexLabel'', False, PInputTag ''offlinePrimaryVertices''),
      (''TrackLabel'', False, PInputTag ''generalTracks''),
      (''ScalerLabel'', False, PInputTag ''scalerBeamSpot'')]"

definition ex_pset :: parameter_set where
  "ex_pset = ex_pset_base @ [(''MonitorName'', False, PString ''AlcaBeamMonitor''),
                             (''perLSsaving'', False, PBool True)]"

definition ex_pset_unnamed :: parameter_set where
  "ex_pset_unnamed = ex_pset_base @ [(''perLSsaving'', False, PBool False)]"

lemmas config_eval = construct_def validate_def fillDescriptions_def untracked_desc_def validate_param_def
  illegal_labels_def framework_labels_def read_parameters_def get_untracked_def get_untracked_default_def
  folder_prefix_def update_conv'

lemmas ex_config_defs = ex_bf_descs_def ex_pv_descs_def ex_pset_def ex_pset_unnamed_def ex_pset_base_def

lemmas ex_defs = ex_spot_def ex_db_def ex_pv_def ex_sc_def ex_fake_db_def ex_vertex_def
  ex_info_def ex_info_fake_db_def ex_info_no_pv_def

lemma ex_series_at [simp]: "ex_series c = Some lumi_histo \<or> category_scope c = Run"
  by (cases c) (simp_all add: ex_series_def bookHistograms_series_def book_histo_def
                              book_lumi_histo_def category_scope_def is_position_def)

lemma ex_series_lumi:
  "category_scope c \<noteq> Run \<Longrightarrow> ex_series c = Some lumi_histo"
  using ex_series_at [of c] by simp

lemma ex_series_Coordinate: "ex_series Coordinate = Some (book1D 1001 (-0.2525) 0.2525)"
  by (simp add: ex_series_def bookHistograms_series_def book_histo_def book_run_histo_def
                category_scope_def)

lemma ex_spot_project_X: "project X (ex_spot x e t) = (x, sqrt e)"
  by (simp add: ex_spot_def project_def x0Error_def make_beam_spot_def)

lemma ex_spot_type [simp]: "bs_type (ex_spot x e t) = t"
  by (simp add: ex_spot_def)

lemma ex_delta_at: "ex_delta_series LB_PV_DataBase = Some ex_delta"
  by (simp add: ex_delta_series_def)

lemma ex_delta_values:
  "group_list is_delta_cat [LB_Online_DataBase_fit, LB_PV_DataBase, LB_PV_Online] ex_delta_series =
     [10, 20, 30]"
  by (simp add: upt_rec group_list_def ex_delta_series_def is_delta_cat_def filled_values_def
        ex_delta_def bin_filled_def histo_bins_def book1D_def setBinContent_def GetBinError_def
        bin_in_range_def)

lemma ex_abs_at: "ex_abs_series LB_DataBase = Some ex_abs"
  by (simp add: ex_abs_series_def)

lemma ex_abs_values:
  "group_list is_abs_cat [LB_BeamSpotFit, LB_PrimaryVertex, LB_DataBase, LB_Online,
     LB_PV_DataBase_fit, LB_PV_Online_fit] ex_abs_series = [5]"
  by (simp add: upt_rec group_list_def ex_abs_series_def is_abs_cat_def filled_values_def ex_abs_def
        bin_filled_def histo_bins_def book1D_def setBinContent_def GetBinError_def bin_in_range_def)

lemma ex_open_buffers:
  "bf_events (ex_open l) = []" "pv_events (ex_open l) = []" "processedLumis (ex_open l) = []"
  by (simp_all add: ex_open_def AlcaBeamMonitor_def)

lemma ex_open_cache: "lumi_cache (ex_open l) = (\<lambda>_. None)(l := Some (Some empty_info))"
  by (simp add: ex_open_def AlcaBeamMonitor_def globalBeginLuminosityBlock_def)

lemma sqrt_square_lit: "0 \<le> y \<Longrightarrow> y * y = x \<Longrightarrow> sqrt x = y"
  by (metis real_sqrt_abs2 abs_of_nonneg)

lemma sqrt_1: "sqrt (1 / 1000000) = (1 / 1000 :: real)"
  by (rule sqrt_square_lit) simp_all

lemma sqrt_4: "sqrt (1 / 250000) = (1 / 500 :: real)"
  by (rule sqrt_square_lit) simp_all

lemma sqrt_9: "sqrt (9 / 1000000) = (3 / 1000 :: real)"
  by (rule sqrt_square_lit) simp_all

lemmas ex_sqrts = sqrt_1 sqrt_4 sqrt_9

lemma ex_db_objects_X:
  "project X (spot_from_db ex_db_objects) = (0.01, 0.001)"
  "bs_type (spot_from_db ex_db_objects) = Tracker"
  by (simp_all add: project_def spot_from_db_def ex_db_objects_def make_beam_spot_def x0Error_def
        copy_covariance_def beam_dimension_def Let_def ex_sqrts)

lemma ex_pv_X: "project X ex_pv = (0.012, 0.002)" "bs_type ex_pv = Tracker"
  by (simp_all add: ex_pv_def ex_spot_project_X ex_sqrts)

lemma ex_section5_state:
  obtains s where "run_transitions ex_pv_fitters ex_section5_run (AlcaBeamMonitor False) = Inr s"
    and "histosMap s = fill_all_variables 5 ex_info5 (histoByCategoryNames False)
                         (bookHistograms_series False (\<lambda>_ _. None))"
  by (simp add: ex_section5_run_def analyze_cases globalEndLuminosityBlock_def luminosityBlockCache_def
        Let_def run_fits_def ex_pv_fitters_def ex_info5_def ex_info_vs_def ex_event5_def ex_event_def bookHistograms_def
        AlcaBeamMonitor_def globalBeginLuminosityBlock_def empty_info_def beginLumi_def select_vertices_def
        vertex_selected_def ex_raw_vertex_def analyze_info_def record_vertices_def record_scaler_def sample_tracks_def)

lemma ex_section5_processed:
  "run_transitions ex_pv_fitters ex_section5_run (AlcaBeamMonitor False) = Inr s \<Longrightarrow>
   processedLumis s = [5] \<and> perLSsaving s = False"
  by (auto simp: ex_section5_run_def analyze_cases globalEndLuminosityBlock_def luminosityBlockCache_def
        Let_def run_fits_def ex_pv_fitters_def ex_event5_def ex_event_def bookHistograms_def
        AlcaBeamMonitor_def beginLumi_def sample_tracks_def split: option.splits)

lemma ex_info_vs_series:
  "fill_all_variables 5 (ex_info_vs vs) (histoByCategoryNames False) (bookHistograms_series False (\<lambda>_ _. None)) X c =
     map_option (\<lambda>h. snd (fill_category 5 True (vertexResults X vs) c
        [DB \<mapsto> (0.01, 0.001), PV \<mapsto> (0.012, 0.002)] h)) (ex_series c)"
proof -
  have rm: "resultsMap X (beamSpotMap (ex_info_vs vs)) = [DB \<mapsto> (0.01, 0.001), PV \<mapsto> (0.012, 0.002)]"
  proof
    fix k show "resultsMap X (beamSpotMap (ex_info_vs vs)) k = [DB \<mapsto> (0.01, 0.001), PV \<mapsto> (0.012, 0.002)] k"
      by (cases k) (simp_all add: resultsMap_def ex_info_vs_def ex_db_objects_X ex_pv_X)
  qed
  have "rm_seen X (ex_info_vs vs) (ex_series Coordinate) c = [DB \<mapsto> (0.01, 0.001), PV \<mapsto> (0.012, 0.002)]"
    by (simp add: rm_seen_def Let_def rm rm_after_Coordinate_present)
  moreover have "beamSpotMap (ex_info_vs vs) DB \<noteq> None" by (simp add: ex_info_vs_def)
  ultimately show ?thesis
    by (simp add: fill_all_variables_at fill_variable_at ex_series_def [symmetric] ex_info_vs_def)
qed

lemma ex_info5_series:
  "fill_all_variables 5 ex_info5 (histoByCategoryNames False) (bookHistograms_series False (\<lambda>_ _. None)) X c =
     map_option (\<lambda>h. snd (fill_category 5 True [(0.011, 0.003), (0.013, 0.003), (0.009, 0.003)] c
        [DB \<mapsto> (0.01, 0.001), PV \<mapsto> (0.012, 0.002)] h)) (ex_series c)"
  unfolding ex_info5_def ex_info_vs_series
  by (simp add: vertexResults_def pv_project_def pv_of_vertex_def ex_raw_vertex_def)

lemma ex_run5_state:
  obtains s where "run_transitions ex_pv_fitters (ex_run5 [ex_event_at a, ex_event_at b]) (AlcaBeamMonitor False) = Inr s"
    and "histosMap s = fill_all_variables 5
           (ex_info_vs [[pv_of_vertex (ex_raw_vertex a 12)], [pv_of_vertex (ex_raw_vertex b 12)]])
           (histoByCategoryNames False) (bookHistograms_series False (\<lambda>_ _. None))"
  by (simp add: ex_run5_def ex_event_at_def analyze_cases globalEndLuminosityBlock_def luminosityBlockCache_def
        Let_def run_fits_def ex_pv_fitters_def ex_info_vs_def ex_event_def bookHistograms_def
        AlcaBeamMonitor_def globalBeginLuminosityBlock_def empty_info_def beginLumi_def select_vertices_def
        vertex_selected_def ex_raw_vertex_def analyze_info_def record_vertices_def record_scaler_def sample_tracks_def)

lemma ex_run5_validation:
  assumes "run_transitions ex_pv_fitters (ex_run5 [ex_event_at a, ex_event_at b]) (AlcaBeamMonitor False) = Inr s"
    and "histosMap s = fill_all_variables 5
           (ex_info_vs [[pv_of_vertex (ex_raw_vertex a 12)], [pv_of_vertex (ex_raw_vertex b 12)]])
           (histoByCategoryNames False) (bookHistograms_series False (\<lambda>_ _. None))"
  shows "histosMap s X LB_PV_DataBase = Some (set_bin lumi_histo 5 (b - 0.01, quad_sum 0.003 0.001))"
  using assms(2)
  by (simp add: ex_info_vs_series ex_series_lumi category_scope_def fill_category_def vertexResults_def
        pv_project_def pv_of_vertex_def ex_raw_vertex_def set_bin_overwrite del: not_None_eq)

lemma ex_construct:
  "construct ex_bf_descs ex_pv_descs ex_pset =
     Inr (\<lparr>monitorName = ''AlcaBeamMonitor/'', primaryVertexLabel = ''offlinePrimaryVertices'',
           trackLabel = ''generalTracks'', scalerLabel = ''scalerBeamSpot'', cfg_perLSsaving = True\<rparr>,
          AlcaBeamMonitor True)"
  by (simp add: config_eval ex_config_defs)

section \<open>Witnesses of the consistency engine\<close>

theorem lumi_fit_difference_witness:
  "\<exists>h'. fill_variable 5 ex_info (histoByCategoryNames False) X ex_series LB_PV_DataBase_fit = Some h' \<and>
     h_content h' 5 = 0.012 - 0.01 \<and> h_error h' 5 = quad_sum (sqrt 0.000004) (sqrt 0.000001) \<and>
     agree_off 5 lumi_histo h'"
  using Consistency.lumi_fit_difference
          [where info = ex_info and p = ex_pv and d = ex_db and hv = ex_series and h = lumi_histo
             and bin = 5 and v = X]
  by (simp add: ex_info_def ex_db_def ex_pv_def ex_spot_project_X ex_series_lumi category_scope_def)

theorem lumi_series_gap_witness:
  "fill_variable 5 ex_info_no_pv (histoByCategoryNames False) X ex_series LB_PV_DataBase_fit =
     Some lumi_histo"
  using Consistency.lumi_series_gap [where info = ex_info_no_pv and v = X and bin = 5 and hv = ex_series]
  by (simp add: ex_info_no_pv_def resultsMap_None ex_series_lumi category_scope_def)

theorem phantom_database_entry_witness:
  "(\<exists>h'. fill_variable 5 ex_info_fake_db (histoByCategoryNames False) X ex_series LB_Online_DataBase_fit
          = Some h' \<and> h_content h' 5 = 0.011 \<and> h_error h' 5 = sqrt 0.000009) \<and>
   fill_variable 5 ex_info_fake_db (histoByCategoryNames False) X ex_series LB_DataBase = Some lumi_histo"
  using Consistency.phantom_database_entry
          [where info = ex_info_fake_db and d = ex_fake_db and s = ex_sc and hv = ex_series
             and h = lumi_histo and bin = 5 and v = X]
  by (simp add: ex_info_fake_db_def ex_fake_db_def ex_sc_def ex_spot_project_X ex_series_lumi
                ex_series_Coordinate category_scope_def)

theorem validation_vertex_last_wins_witness:
  "fill_variable 5 ex_info (histoByCategoryNames False) X ex_series LB_PV_DataBase =
     Some (set_bin lumi_histo 5 (0.009 - 0.01, quad_sum 0.003 (sqrt 0.000001)))"
  using Consistency.validation_vertex_last_wins
          [where info = ex_info and d = ex_db and hv = ex_series and h = lumi_histo and bin = 5 and v = X]
  by (simp add: ex_info_def ex_db_def ex_vertex_def ex_spot_project_X ex_series_lumi
                category_scope_def vertexResults_def pv_project_def)

theorem fill_variable_bins_local_witness:
  "h_content (the (fill_variable 5 ex_info (histoByCategoryNames False) X ex_series LB_PV_DataBase_fit)) 6
     = h_content lumi_histo 6"
proof -
  have "fill_variable 5 ex_info (histoByCategoryNames False) X ex_series LB_PV_DataBase_fit =
        Some (the (fill_variable 5 ex_info (histoByCategoryNames False) X ex_series LB_PV_DataBase_fit))"
    by (simp add: fill_variable_at ex_series_lumi category_scope_def)
  then show ?thesis
    using Consistency.fill_variable_bins_local
            [where hv = ex_series and c = LB_PV_DataBase_fit and h = lumi_histo and bin = 5
               and info = ex_info and cats = "histoByCategoryNames False" and v = X and b = 6]
    by (simp add: ex_series_lumi category_scope_def)
qed

theorem fill_variable_idempotent_bins_witness:
  "fill_variable 5 ex_info (histoByCategoryNames False) X
     (fill_variable 5 ex_info (histoByCategoryNames False) X ex_series) LB_PV_DataBase =
   fill_variable 5 ex_info (histoByCategoryNames False) X ex_series LB_PV_DataBase"
proof -
  let ?F = "fill_variable 5 ex_info (histoByCategoryNames False) X"
  have sc: "category_scope LB_PV_DataBase \<noteq> Run" by (simp add: category_scope_def)
  have s1: "?F ex_series LB_PV_DataBase = Some (the (?F ex_series LB_PV_DataBase))"
    by (simp add: fill_variable_at ex_series_lumi category_scope_def)
  have s2: "?F (?F ex_series) LB_PV_DataBase = Some (the (?F (?F ex_series) LB_PV_DataBase))"
    by (simp add: fill_variable_at ex_series_lumi category_scope_def)
  have "the (?F (?F ex_series) LB_PV_DataBase) = the (?F ex_series LB_PV_DataBase)"
    using Consistency.fill_variable_idempotent_bins [OF sc s1 s2] .
  then show ?thesis using s1 s2 by simp
qed

section \<open>Witnesses of the range normaliser\<close>

theorem normalize_bounds_contain_witness:
  "\<exists>h' lo hi. normalize_scope False 1 3 Validation ex_delta_series LB_PV_DataBase = Some h' \<and>
      h_minimum h' = Some lo \<and> h_maximum h' = Some hi \<and> lo \<le> 20 \<and> 20 \<le> hi \<and> lo < hi"
  using RangeNormalizer.normalize_bounds_contain [where p = False and sc = Validation
      and hv = ex_delta_series and c = LB_PV_DataBase and h = ex_delta and b = 2
      and firstLumi = 1 and lastLumi = 3]
  by (simp add: ex_delta_at validation_categories is_delta_cat_def upt_rec ex_delta_def
        histo_bins_def bin_filled_def book1D_def setBinContent_def bin_in_range_def
        GetBinError_def FLT_MAX_def)

theorem normalize_delta_bounds_witness:
  "normalize_scope False 1 3 Validation ex_delta_series LB_PV_DataBase =
     Some (SetRangeUser (SetMaximum (SetMinimum ex_delta (- 30)) 70) 0.5 3.5)"
  using RangeNormalizer.normalize_delta_bounds [where p = False and sc = Validation
      and hv = ex_delta_series and c = LB_PV_DataBase and h = ex_delta
      and firstLumi = 1 and lastLumi = 3]
  by (simp add: ex_delta_values bigNumber_def ex_delta_at validation_categories is_delta_cat_def)

theorem normalize_fallback_witness:
  "normalize_scope False 1 3 Lumi ex_abs_series LB_DataBase =
     Some (SetRangeUser (SetMaximum (SetMinimum ex_abs (GetMinimum ex_abs - 0.01))
                                    (GetMaximum ex_abs + 0.01)) 0.5 3.5)"
  using RangeNormalizer.normalize_fallback [where p = False and sc = Lumi and hv = ex_abs_series
      and c = LB_DataBase and h = ex_abs and x = 5 and firstLumi = 1 and lastLumi = 3]
  by (simp add: ex_abs_values bigNumber_def ex_abs_at lumi_categories_False is_abs_cat_def)

section \<open>Witnesses of the module\<close>

theorem serial_fit_input_witness:
  "\<exists>s. analyze (ex_event 1 None) (ex_open 1) = Inr s \<and> reachable ex_fitters serial_allows False s \<and>
       bf_events s = pv_events s \<and> map ev_lumi (bf_events s) = [1]"
proof -
  have r1: "reachable ex_fitters serial_allows False (ex_open 1)"
    using reachable.step [OF reachable.init, where tr = "BeginLumi 1 DB_Invalid"]
    by (simp add: ex_open_def none_open_def AlcaBeamMonitor_def)
  obtain s where a: "analyze (ex_event 1 None) (ex_open 1) = Inr s"
    by (simp add: analyze_cases ex_open_cache ex_event_def sample_tracks_def empty_info_def)
  have r: "reachable ex_fitters serial_allows False s"
    using reachable.step [OF r1, where tr = "Event (ex_event 1 None)"] a
    by (simp add: is_open_def ex_open_cache ex_event_def)
  have "is_open s 1" using a by (auto elim!: analyze_Inr simp: is_open_def ex_event_def)
  then have fi: "bf_events s = pv_events s \<and> (\<forall>e\<in>set (bf_events s). ev_lumi e = 1)"
    by (rule Monitor.serial_fit_input [OF r])
  have "bf_events s \<noteq> []" using a
    by (auto elim!: analyze_Inr simp: ex_open_def AlcaBeamMonitor_def)
  then have "map ev_lumi (bf_events s) = replicate (length (bf_events s)) 1"
    using fi by (simp add: map_replicate_const [symmetric] cong: map_cong)
  moreover have "length (bf_events s) = 1" using a
    by (auto elim!: analyze_Inr simp: ex_open_def AlcaBeamMonitor_def)
  ultimately show ?thesis using a r fi by simp
qed

theorem db_exception_null_cache_witness:
  "monitor_step ex_fitters (Event (ex_event 7 None)) (beginLumi 7 DB_Exception (AlcaBeamMonitor False)) =
     Inl (Null_cache 7) \<and>
   monitor_step ex_fitters (EndLumi 7) (beginLumi 7 DB_Exception (AlcaBeamMonitor False)) =
     Inl (Null_cache 7)"
  using Monitor.db_exception_null_cache [where s = "beginLumi 7 DB_Exception (AlcaBeamMonitor False)"
      and l = 7 and f = ex_fitters]
  by (simp add: ex_event_def)

theorem open_cache_stable_witness:
  "\<exists>s'. monitor_step ex_fitters (Event (ex_event 1 (Some [ex_raw_vertex 0.011 12]))) (ex_open 1) = Inr s' \<and>
      (\<exists>info'. lumi_cache s' 1 = Some (Some info') \<and> beamSpotMap info' DB = None \<and>
               (\<exists>vs. vertices info' = vs))"
proof -
  let ?e = "ex_event 1 (Some [ex_raw_vertex 0.011 12])"
  obtain s' where st: "monitor_step ex_fitters (Event ?e) (ex_open 1) = Inr s'"
    by (simp add: analyze_cases ex_open_cache ex_event_def sample_tracks_def empty_info_def)
  have "\<exists>info'. lumi_cache s' 1 = Some (Some info') \<and>
          beamSpotMap info' DB = beamSpotMap empty_info DB \<and>
          (beamSpotMap empty_info SC \<noteq> None \<longrightarrow> beamSpotMap info' SC = beamSpotMap empty_info SC) \<and>
          (\<exists>vs. vertices info' = vertices empty_info @ vs)"
    by (rule Monitor.open_cache_stable [OF _ _ _ st])
       (simp_all add: ex_open_cache is_open_def ex_event_def)
  then show ?thesis using st by (auto simp: empty_info_def)
qed

theorem interleaving_keeps_vertices_witness:
  "\<exists>s' info'. run_transitions ex_fitters (map Event [ex_event 1 None, ex_event 1 (Some [ex_raw_vertex 0.011 12, ex_raw_vertex 0.013 3])])
        (ex_open 1) = Inr s' \<and> lumi_cache s' 1 = Some (Some info') \<and>
      mset (concat (vertices info')) = {#pv_of_vertex (ex_raw_vertex 0.011 12)#}"
  using Monitor.interleaving_keeps_vertices [where s = "ex_open 1" and l = 1 and info = empty_info
      and f = ex_fitters and es = "[ex_event 1 (Some [ex_raw_vertex 0.011 12, ex_raw_vertex 0.013 3]), ex_event 1 None]"
      and es' = "[ex_event 1 None, ex_event 1 (Some [ex_raw_vertex 0.011 12, ex_raw_vertex 0.013 3])]"]
  by (simp add: ex_open_cache live_def ex_event_def empty_info_def event_vertices_def select_vertices_def
        vertex_selected_def ex_raw_vertex_def)

theorem processed_lumis_accumulate_witness:
  "\<exists>s. run_transitions ex_fitters ex_two_runs (AlcaBeamMonitor False) = Inr s \<and>
       mset (processedLumis s) = {#1, 5#}"
proof -
  obtain s where r: "run_transitions ex_fitters ex_two_runs (AlcaBeamMonitor False) = Inr s"
    by (simp add: ex_two_runs_def globalEndLuminosityBlock_def luminosityBlockCache_def Let_def
          AlcaBeamMonitor_def globalBeginLuminosityBlock_def split: sum.split)
  show ?thesis using Monitor.processed_lumis_accumulate [OF r] r
    by (simp add: ex_two_runs_def AlcaBeamMonitor_def)
qed

theorem end_run_axis_range_witness:
  "\<exists>h'. histosMap (dqmEndRun ((bookHistograms (AlcaBeamMonitor False))\<lparr>processedLumis := [5, 1, 3]\<rparr>))
          X LB_DataBase = Some h' \<and> h_range_user h' = Some (0.5, 5.5)"
  using Monitor.end_run_axis_range [where s = "(bookHistograms (AlcaBeamMonitor False))\<lparr>processedLumis := [5, 1, 3]\<rparr>"
      and v = X and c = LB_DataBase and h = lumi_histo]
  by (simp add: bookHistograms_def AlcaBeamMonitor_def bookHistograms_series_def book_histo_def
        book_lumi_histo_def category_scope_def)

theorem width_series_booking_witness:
  "bookHistograms_series False (\<lambda>_ _. None) SigmaX LB_PV_DataBase_fit = Some lumi_histo \<and>
   bookHistograms_series False (\<lambda>_ _. None) SigmaX LB_Online_DataBase_fit = Some lumi_histo \<and>
   bookHistograms_series False (\<lambda>_ _. None) SigmaX LB_PV_DataBase = None \<and>
   bookHistograms_series False (\<lambda>_ _. None) SigmaX PV_fit_DataBase = None"
  using Catalog.width_series_booking [where v = SigmaX and hs = "\<lambda>_ _. None"]
  by (simp add: is_position_def)

theorem lumi_series_refines_spec_witness:
  "\<exists>h'. fill_variable 5 ex_info (histoByCategoryNames False) X ex_series LB_PV_DataBase_fit = Some h' \<and>
        bin_view h' 5 = (0.012 - 0.01, quad_sum (sqrt 0.000004) (sqrt 0.000001)) \<and>
        bin_view h' 6 = (0, 0)"
proof -
  obtain h' where f: "fill_variable 5 ex_info (histoByCategoryNames False) X ex_series LB_PV_DataBase_fit = Some h'"
    and bv: "bin_view h' = store_append lumi_histo 5
                             (spec_entry LB_PV_DataBase_fit (resultsMap X (beamSpotMap ex_info)))"
    using SeriesSpec.lumi_series_refines_spec [where c = LB_PV_DataBase_fit and hv = ex_series
        and h = lumi_histo and bin = 5 and info = ex_info and v = X]
    by (auto simp: ex_series_lumi category_scope_def)
  have "spec_entry LB_PV_DataBase_fit (resultsMap X (beamSpotMap ex_info)) =
          Some (0.012 - 0.01, quad_sum (sqrt 0.000004) (sqrt 0.000001))"
    by (simp add: spec_entry_def diff_entry_def ex_info_def resultsMap_def ex_pv_def ex_db_def
          ex_spot_project_X)
  moreover have "bin_view lumi_histo 6 = (0, 0)"
    by (simp add: bin_view_def lumi_histo_def book1D_def)
  ultimately show ?thesis using f bv by (simp add: store_append_def)
qed

lemma ex_db_open_cache:
  "lumi_cache ex_db_open 1 = Some (Some (empty_info\<lparr>beamSpotMap := [DB \<mapsto> spot_from_db ex_db_objects]\<rparr>))"
  by (simp add: ex_db_open_def AlcaBeamMonitor_def globalBeginLuminosityBlock_def)


theorem step_progress_witness:
  "monitor_step ex_fitters (Event \<lparr>ev_lumi = 1, ev_tracks = None, ev_pvs = None, ev_scaler = None\<rparr>) ex_db_open =
     Inl (No_track_product 1) \<and>
   (\<exists>info db. lumi_cache ex_db_open 1 = Some (Some info) \<and> beamSpotMap info DB = Some db)"
proof -
  let ?e = "\<lparr>ev_lumi = 1, ev_tracks = None, ev_pvs = None, ev_scaler = None\<rparr>"
  have st: "monitor_step ex_fitters (Event ?e) ex_db_open = Inl (No_track_product 1)"
    using ex_db_open_cache by (simp add: analyze_cases sample_tracks_def empty_info_def)
  have al: "framework_allows ex_db_open (Event ?e)"
    using ex_db_open_cache by (simp add: is_open_def)
  from Invariants.step_progress [OF al st] st show ?thesis by auto
qed

theorem analyze_track_sampling_witness:
  "\<exists>s'. analyze (\<lparr>ev_lumi = 1, ev_tracks = Some [ex_track], ev_pvs = None, ev_scaler = None\<rparr>) ex_db_open = Inr s' \<and>
        trackSamples s' = ([(1.5, 0.02)], [0.01])"
  using Invariants.analyze_track_sampling [where s = ex_db_open
      and e = "\<lparr>ev_lumi = 1, ev_tracks = Some [ex_track], ev_pvs = None, ev_scaler = None\<rparr>"]
    ex_db_open_cache
  by (simp add: empty_info_def ex_db_open_def AlcaBeamMonitor_def ex_track_def dxy_def dxy_at_def
        trk_pt_def spot_from_db_def make_beam_spot_def ex_db_objects_def Let_def beginLumi_def)

theorem empty_section_leaves_gaps_witness:
  "\<exists>s'. monitor_step ex_fitters (EndLumi 1) (ex_open 1) = Inr s' \<and> histosMap s' = histosMap (ex_open 1) \<and>
        processedLumis s' = [1] \<and> lumi_cache s' 1 = None"
  using Invariants.empty_section_leaves_gaps [where s = "ex_open 1" and l = 1 and f = ex_fitters]
  by (simp add: ex_open_cache ex_open_buffers ex_fitters_def)

theorem perLS_no_series_witness: "histosMap (bookHistograms (AlcaBeamMonitor True)) = (\<lambda>_ _. None)"
proof -
  have "reachable ex_fitters framework_allows True (bookHistograms (AlcaBeamMonitor True))"
    using reachable.step [OF reachable.init, where tr = BeginRun]
    by (simp add: none_open_def AlcaBeamMonitor_def)
  then show ?thesis by (rule Invariants.perLS_no_series)
qed

theorem run_series_refines_spec_witness:
  "\<exists>h'. fill_variable 5 ex_info (histoByCategoryNames False) X ex_series PV_DataBase = Some h' \<and>
        h_fills h' = [0.011 - 0.01, 0.013 - 0.01, 0.009 - 0.01]"
proof -
  let ?rm = "resultsMap X (beamSpotMap ex_info)" and ?vr = "vertexResults X (vertices ex_info)"
  have ser: "ex_series PV_DataBase = Some (book1D 1001 (-0.02525) 0.02525)"
    by (simp add: ex_series_def bookHistograms_series_def book_histo_def book_run_histo_def
          category_scope_def is_run_vertex_diff_def)
  have db: "\<forall>d. beamSpotMap ex_info DB = Some d \<longrightarrow> bs_type d = Tracker"
    by (simp add: ex_info_def ex_db_def)
  obtain h' where f: "fill_variable 5 ex_info (histoByCategoryNames False) X ex_series PV_DataBase = Some h'"
    and fl: "h_fills h' = h_fills (book1D 1001 (-0.02525) 0.02525) @
               (if is_run_vertex_diff PV_DataBase \<and> ?rm PV = None then [] else run_spec_entries PV_DataBase ?rm ?vr)"
    using SeriesSpec.run_series_refines_spec [where c = PV_DataBase and hv = ex_series and bin = 5
        and info = ex_info and v = X and h = "book1D 1001 (-0.02525) 0.02525", OF _ ser db]
    by (auto simp: category_scope_def)
  have "?rm PV \<noteq> None" by (simp add: ex_info_def resultsMap_def ex_pv_def)
  moreover have "run_spec_entries PV_DataBase ?rm ?vr = [0.011 - 0.01, 0.013 - 0.01, 0.009 - 0.01]"
    by (simp add: ex_info_def ex_db_def resultsMap_def ex_spot_project_X run_spec_entries_def
          vertex_diffs_def vertexResults_def pv_project_def ex_vertex_def)
  ultimately show ?thesis using f fl by (simp add: book1D_def)
qed

theorem end_run_range_shows_filled_witness:
  "\<exists>s h' lo hi. run_transitions ex_pv_fitters ex_section5_run (AlcaBeamMonitor False) = Inr s \<and>
     histosMap (dqmEndRun s) X LB_PV_DataBase_fit = Some h' \<and> h_range_user h' = Some (lo, hi) \<and>
     (\<forall>b. bin_filled h' b \<longrightarrow> lo < of_int b \<and> of_int b < hi)"
proof -
  obtain s where r: "run_transitions ex_pv_fitters ex_section5_run (AlcaBeamMonitor False) = Inr s"
    and hm: "histosMap s = fill_all_variables 5 ex_info5 (histoByCategoryNames False)
                             (bookHistograms_series False (\<lambda>_ _. None))"
    by (rule ex_section5_state)
  have reach: "reachable ex_pv_fitters (\<lambda>_ _. True) False s"
    using r reachable.init by (rule run_transitions_reachable)
  have p: "processedLumis s = [5]" "perLSsaving s = False"
    using ex_section5_processed [OF r] by simp_all
  have h: "histosMap s X LB_PV_DataBase_fit = Some (set_bin lumi_histo 5 (0.012 - 0.01, quad_sum 0.002 0.001))"
    by (simp add: hm ex_info5_series ex_series_lumi category_scope_def fill_category_def
          del: not_None_eq)
  show ?thesis
    using Invariants.end_run_range_shows_filled [OF reach, where c = LB_PV_DataBase_fit and v = X, OF _ _ _ h]
      r p by (simp add: category_scope_def in_catalog_def histoByCategoryNames_eval)
qed

theorem other_sections_bins_kept_witness:
  "\<exists>s s' h'. run_transitions ex_pv_fitters ex_section5_run (AlcaBeamMonitor False) = Inr s \<and>
      monitor_step ex_pv_fitters (EndLumi 6) (beginLumi 6 DB_Invalid s) = Inr s' \<and>
      histosMap s' X LB_PV_DataBase_fit = Some h' \<and> h_content h' 5 = 0.002"
proof -
  obtain s where r: "run_transitions ex_pv_fitters ex_section5_run (AlcaBeamMonitor False) = Inr s"
    and hm: "histosMap s = fill_all_variables 5 ex_info5 (histoByCategoryNames False)
                             (bookHistograms_series False (\<lambda>_ _. None))"
    by (rule ex_section5_state)
  obtain s' where st: "monitor_step ex_pv_fitters (EndLumi 6) (beginLumi 6 DB_Invalid s) = Inr s'"
    by (simp add: globalEndLuminosityBlock_def luminosityBlockCache_def Let_def beginLumi_def
          globalBeginLuminosityBlock_def)
  have h: "histosMap (beginLumi 6 DB_Invalid s) X LB_PV_DataBase_fit =
             Some (set_bin lumi_histo 5 (0.012 - 0.01, quad_sum 0.002 0.001))"
    by (simp add: beginLumi_def hm ex_info5_series ex_series_lumi category_scope_def fill_category_def
          del: not_None_eq)
  have "sint (6 :: lumi) \<noteq> 5" by simp
  then show ?thesis
    using Invariants.other_sections_bins_kept [OF st, where b = 5, OF _ _ _ h] r st
    by (auto simp: set_bin_content category_scope_def)
qed

section \<open>Witnesses of the configuration and the booking\<close>

theorem perLSsaving_from_configuration_witness:
  "\<exists>cfg. construct ex_bf_descs ex_pv_descs ex_pset = Inr (cfg, AlcaBeamMonitor True) \<and> cfg_perLSsaving cfg \<and>
     construct ex_bf_descs ex_pv_descs ex_pset_base = Inl (Missing_required ''perLSsaving'')"
proof -
  obtain cfg s where c: "construct ex_bf_descs ex_pv_descs ex_pset = Inr (cfg, s)"
    using ex_construct by blast
  have "map_of ex_pset ''perLSsaving'' = Some (False, PBool (cfg_perLSsaving cfg)) \<and>
        s = AlcaBeamMonitor (cfg_perLSsaving cfg)"
    using Configuration.perLSsaving_from_configuration [OF c] .
  then have "cfg_perLSsaving cfg" "s = AlcaBeamMonitor True" by (simp_all add: ex_pset_def ex_pset_base_def)
  moreover have "construct ex_bf_descs ex_pv_descs ex_pset_base = Inl (Missing_required ''perLSsaving'')"
    by (simp add: config_eval ex_pset_base_def)
  ultimately show ?thesis using c by blast
qed

theorem monitor_name_prefix_witness:
  "\<exists>cfg1 s1 cfg2 s2. construct ex_bf_descs ex_pv_descs ex_pset = Inr (cfg1, s1) \<and>
     monitorName cfg1 = ''AlcaBeamMonitor/'' \<and>
     construct ex_bf_descs ex_pv_descs ex_pset_unnamed = Inr (cfg2, s2) \<and>
     monitorName cfg2 = ''YourSubsystemName/''"
proof -
  obtain cfg1 s1 where c1: "construct ex_bf_descs ex_pv_descs ex_pset = Inr (cfg1, s1)"
    using ex_construct by blast
  obtain cfg2 s2 where c2: "construct ex_bf_descs ex_pv_descs ex_pset_unnamed = Inr (cfg2, s2)"
    by (simp add: config_eval ex_config_defs)
  have "monitorName cfg1 = ''AlcaBeamMonitor/''"
    using Configuration.monitor_name_prefix [OF c1] by (simp add: ex_pset_def ex_pset_base_def folder_prefix_def)
  moreover have "monitorName cfg2 = ''YourSubsystemName/''"
    using Configuration.monitor_name_prefix [OF c2] by (simp add: ex_pset_unnamed_def ex_pset_base_def folder_prefix_def)
  ultimately show ?thesis using c1 c2 by blast
qed

section \<open>Properties that span the components\<close>

text \<open>
  C19. The spec's end-to-end example, run through the framework's transitions: after
  section 5 closes, the "PrimaryVertex-DataBase fit" series of x holds 0.002 in bin 5
  with the quadrature error of 0.002 and 0.001; the run-level per-vertex series holds the
  three differences 0.001, 0.003 and -0.001; and the per-vertex validation series holds
  in bin 5 only the last vertex's difference, -0.001, where the spec expects three
  entries.
\<close>

theorem end_to_end_section5:
  "\<exists>s h1 h2 h3. run_transitions ex_pv_fitters ex_section5_run (AlcaBeamMonitor False) = Inr s \<and>
      histosMap s X LB_PV_DataBase_fit = Some h1 \<and> h_content h1 5 = 0.002 \<and>
      h_error h1 5 = quad_sum 0.002 0.001 \<and>
      histosMap s X PV_DataBase = Some h2 \<and> h_fills h2 = [0.001, 0.003, -0.001] \<and>
      histosMap s X LB_PV_DataBase = Some h3 \<and> h_content h3 5 = -0.001 \<and>
      h_error h3 5 = quad_sum 0.003 0.001"
proof -
  obtain s where r: "run_transitions ex_pv_fitters ex_section5_run (AlcaBeamMonitor False) = Inr s"
    and hm: "histosMap s = fill_all_variables 5 ex_info5 (histoByCategoryNames False)
                             (bookHistograms_series False (\<lambda>_ _. None))"
    by (rule ex_section5_state)
  have h1: "histosMap s X LB_PV_DataBase_fit = Some (set_bin lumi_histo 5 (0.012 - 0.01, quad_sum 0.002 0.001))"
    by (simp add: hm ex_info5_series ex_series_lumi category_scope_def fill_category_def
          del: not_None_eq)
  have "ex_series PV_DataBase = Some (book1D 1001 (-0.02525) 0.02525)"
    by (simp add: ex_series_def bookHistograms_series_def book_histo_def book_run_histo_def
          category_scope_def is_run_vertex_diff_def)
  then have h2: "histosMap s X PV_DataBase =
      Some ((book1D 1001 (-0.02525) 0.02525)\<lparr>h_fills := [0.011 - 0.01, 0.013 - 0.01, 0.009 - 0.01]\<rparr>)"
    by (simp add: hm ex_info5_series fill_category_def Fill_def book1D_def del: not_None_eq)
  have h3: "histosMap s X LB_PV_DataBase = Some (set_bin lumi_histo 5 (0.009 - 0.01, quad_sum 0.003 0.001))"
    by (simp add: hm ex_info5_series ex_series_lumi category_scope_def fill_category_def
          set_bin_overwrite del: not_None_eq)
  show ?thesis
    using r h1 h2 h3 by (simp add: set_bin_content set_bin_error)
qed


text \<open>
  C28. The per-vertex validation series depends on the order in which a section's events
  arrive: the same two events, each with one selected vertex, processed in the two
  possible orders leave 0.003 or 0.001 in bin 5, since the last vertex wins. Under
  concurrent event processing the reported value is not determined by the events.
\<close>

theorem event_order_changes_validation:
  "\<exists>s1 s2 h1 h2.
     run_transitions ex_pv_fitters (ex_run5 [ex_event_at 0.011, ex_event_at 0.013]) (AlcaBeamMonitor False) = Inr s1 \<and>
     run_transitions ex_pv_fitters (ex_run5 [ex_event_at 0.013, ex_event_at 0.011]) (AlcaBeamMonitor False) = Inr s2 \<and>
     histosMap s1 X LB_PV_DataBase = Some h1 \<and> histosMap s2 X LB_PV_DataBase = Some h2 \<and>
     h_content h1 5 = 0.003 \<and> h_content h2 5 = 0.001"
proof -
  obtain s1 where r1: "run_transitions ex_pv_fitters (ex_run5 [ex_event_at 0.011, ex_event_at 0.013]) (AlcaBeamMonitor False) = Inr s1"
    and h1: "histosMap s1 = fill_all_variables 5
           (ex_info_vs [[pv_of_vertex (ex_raw_vertex 0.011 12)], [pv_of_vertex (ex_raw_vertex 0.013 12)]])
           (histoByCategoryNames False) (bookHistograms_series False (\<lambda>_ _. None))"
    by (rule ex_run5_state)
  obtain s2 where r2: "run_transitions ex_pv_fitters (ex_run5 [ex_event_at 0.013, ex_event_at 0.011]) (AlcaBeamMonitor False) = Inr s2"
    and h2: "histosMap s2 = fill_all_variables 5
           (ex_info_vs [[pv_of_vertex (ex_raw_vertex 0.013 12)], [pv_of_vertex (ex_raw_vertex 0.011 12)]])
           (histoByCategoryNames False) (bookHistograms_series False (\<lambda>_ _. None))"
    by (rule ex_run5_state)
  show ?thesis
    using r1 r2 ex_run5_validation [OF r1 h1] ex_run5_validation [OF r2 h2] by (simp add: set_bin_content)
qed

end
